(* ===== verification/Boids_Prelude.thy ===== *)
theory Boids_Prelude
  imports Complex_Main "HOL-Library.Stream"
begin

text \<open>
  Shared vocabulary of the boids development: the JavaScript numeric built-ins the
  simulation calls (\<open>Math.sqrt(dx * dx + dy * dy)\<close>, \<open>Math.atan2\<close>, \<open>Math.random\<close>),
  the two-component vector objects \<open>{x, y}\<close> of \<open>src/script.js\<close>, and the generic
  lemmas on lists, streams and reals that the component theories share. JavaScript
  numbers are modelled as \<open>real\<close>: the simulation never depends on rounding, and the
  places where IEEE arithmetic produces \<open>NaN\<close> or \<open>Infinity\<close> are modelled explicitly
  by the component theories (as a fault value or a separate \<open>Infinity\<close> case).
\<close>

named_theorems boid_consts \<open>definitions of the tuning constants of script.js\<close>
named_theorems boid_eval \<open>rewrite rules that evaluate the model on concrete inputs\<close>

section \<open>Definitions\<close>

subsection \<open>Vectors\<close>

text \<open>The accumulators of \<open>applyForces\<close> are objects \<open>{ x: 0, y: 0 }\<close>.\<close>

record vec =
  vx :: real
  vy :: real

definition vzero :: vec where
  "vzero = \<lparr>vx = 0, vy = 0\<rparr>"

definition vsum :: "vec list \<Rightarrow> vec" where
  "vsum vs = \<lparr>vx = sum_list (map vx vs), vy = sum_list (map vy vs)\<rparr>"

subsection \<open>\<open>Math.sqrt(dx * dx + dy * dy)\<close>\<close>

text \<open>The Euclidean length as the code computes it, four times in script.js.\<close>

definition hypot :: "real \<Rightarrow> real \<Rightarrow> real" where
  "hypot dx dy = sqrt (dx * dx + dy * dy)"

subsection \<open>\<open>Math.atan2\<close>\<close>

text \<open>
  \<open>Math.atan2(y, x)\<close> on finite arguments, by the ECMAScript case table. Signed zeros
  are not modelled: \<open>atan2(-0, x)\<close> with \<open>x < 0\<close> is \<open>-\<pi>\<close> in JavaScript and
  \<open>\<pi>\<close> here, the same direction. \<open>atan2 0 0\<close> is never reached by the model, which
  turns the \<open>NaN\<close> arguments of script.js into a fault before calling it.
\<close>

definition atan2 :: "real \<Rightarrow> real \<Rightarrow> real" where
  "atan2 y x =
     (if 0 < x then arctan (y / x)
      else if x < 0 then (if 0 \<le> y then arctan (y / x) + pi else arctan (y / x) - pi)
      else if 0 < y then pi / 2
      else if y < 0 then - (pi / 2)
      else 0)"

subsection \<open>\<open>Math.random\<close>\<close>

text \<open>
  \<open>Math.random()\<close> draws from a supply of values in \<open>[0, 1)\<close>, threaded through the
  simulation as an explicit stream: one call takes its head and leaves its tail.
\<close>

definition random :: "real stream \<Rightarrow> real \<times> real stream" where
  "random s = (shd s, stl s)"

definition random_ok :: "real stream \<Rightarrow> bool" where
  "random_ok s \<longleftrightarrow> s \<in> streams {0..<1}"

section \<open>Lemmas\<close>

lemma vsum_Nil [simp]: "vsum [] = vzero"
  by (simp add: vsum_def vzero_def)

lemma vsum_append_single [simp]:
  "vsum (vs @ [v]) = \<lparr>vx = vx (vsum vs) + vx v, vy = vy (vsum vs) + vy v\<rparr>"
  by (simp add: vsum_def)

lemma hypot_nonneg [simp]: "0 \<le> hypot dx dy"
  by (simp add: hypot_def)

lemma hypot_eq_0_iff [simp]: "hypot dx dy = 0 \<longleftrightarrow> dx = 0 \<and> dy = 0"
  by (simp add: hypot_def add_nonneg_eq_0_iff)

lemma hypot_pos_iff: "0 < hypot dx dy \<longleftrightarrow> dx \<noteq> 0 \<or> dy \<noteq> 0"
  using hypot_nonneg [of dx dy] hypot_eq_0_iff [of dx dy] by linarith

lemma hypot_minus [simp]: "hypot (- dx) (- dy) = hypot dx dy"
  by (simp add: hypot_def)

lemma hypot_swap_diff: "hypot (a - b) (c - d) = hypot (b - a) (d - c)"
  using hypot_minus [of "a - b" "c - d"] by simp

lemma hypot_sq: "hypot dx dy * hypot dx dy = dx * dx + dy * dy"
  by (simp add: hypot_def)

lemma hypot_0_right [simp, boid_eval]: "hypot dx 0 = \<bar>dx\<bar>"
  by (simp add: hypot_def)

lemma hypot_0_left [simp, boid_eval]: "hypot 0 dy = \<bar>dy\<bar>"
  by (simp add: hypot_def)

lemma hypot_eqI: "0 \<le> d \<Longrightarrow> dx * dx + dy * dy = d * d \<Longrightarrow> hypot dx dy = d"
  by (simp add: hypot_def)

lemma abs_le_hypot: "\<bar>dx\<bar> \<le> hypot dx dy"
proof -
  have "sqrt (dx * dx) \<le> sqrt (dx * dx + dy * dy)"
    by (rule real_sqrt_le_mono) simp
  then show ?thesis by (simp add: hypot_def)
qed

text \<open>The point at distance \<open>r\<close> from the origin in direction \<open>a\<close> is at distance \<open>r\<close>.\<close>

lemma hypot_polar: "0 \<le> r \<Longrightarrow> hypot (cos a * r) (sin a * r) = r"
proof (rule hypot_eqI)
  have "cos a * r * (cos a * r) + sin a * r * (sin a * r) = r * r * (cos a * cos a + sin a * sin a)"
    by (simp only: algebra_simps)
  also have "cos a * cos a + sin a * sin a = 1"
    by (simp flip: power2_eq_square)
  finally show "cos a * r * (cos a * r) + sin a * r * (sin a * r) = r * r"
    by simp
qed

lemma hypot_scale:
  assumes "0 < c"
  shows "hypot (c * dx) (c * dy) = c * hypot dx dy"
proof -
  have "c * dx * (c * dx) + c * dy * (c * dy) = (c * c) * (dx * dx + dy * dy)"
    by (simp add: algebra_simps)
  then show ?thesis
    using assms by (simp add: hypot_def real_sqrt_mult)
qed

text \<open>Factoring the first component out of the length (used for \<open>atan2\<close>).\<close>

lemma hypot_factor:
  assumes "dx \<noteq> 0"
  shows "hypot dx dy = \<bar>dx\<bar> * sqrt (1 + (dy / dx)\<^sup>2)"
proof -
  have "dx * dx + dy * dy = (dx * dx) * (1 + (dy / dx)\<^sup>2)"
    using assms by (simp add: field_simps power2_eq_square)
  then show ?thesis
    by (simp add: hypot_def real_sqrt_mult)
qed

lemma atan2_x_pos: "0 < x \<Longrightarrow> atan2 y x = arctan (y / x)"
  by (simp add: atan2_def)

lemma atan2_0_1 [simp, boid_eval]: "atan2 0 1 = 0"
  by (simp add: atan2_def)

lemma atan2_0_minus1 [simp, boid_eval]: "atan2 0 (-1) = pi"
  by (simp add: atan2_def)

lemma atan2_1_0 [simp, boid_eval]: "atan2 1 0 = pi / 2"
  by (simp add: atan2_def)

lemma atan2_minus1_0 [simp, boid_eval]: "atan2 (-1) 0 = - (pi / 2)"
  by (simp add: atan2_def)

lemma cos_sin_arctan_quot:
  assumes "x \<noteq> 0"
  shows "cos (arctan (y / x)) = \<bar>x\<bar> / hypot x y"
    and "sin (arctan (y / x)) = (y / x) * \<bar>x\<bar> / hypot x y"
  using assms by (simp_all add: cos_arctan sin_arctan hypot_factor)

text \<open>The direction the angle encodes is the direction of its arguments.\<close>

lemma cos_atan2:
  assumes "x \<noteq> 0 \<or> y \<noteq> 0"
  shows "cos (atan2 y x) = x / hypot x y"
proof (cases "x = 0")
  case True
  with assms show ?thesis
    by (auto simp: atan2_def)
next
  case False
  then show ?thesis
    by (cases "0 < x") (auto simp: atan2_def cos_sin_arctan_quot)
qed

lemma sin_atan2:
  assumes "x \<noteq> 0 \<or> y \<noteq> 0"
  shows "sin (atan2 y x) = y / hypot x y"
proof (cases "x = 0")
  case True
  with assms show ?thesis
    by (auto simp: atan2_def)
next
  case False
  have q: "(y / x) * \<bar>x\<bar> = (if 0 < x then y else - y)"
    using False by (simp add: abs_if)
  show ?thesis
    using False cos_sin_arctan_quot(2) [OF False]
    by (cases "0 < x") (auto simp: atan2_def q)
qed

text \<open>Dividing both arguments by the same positive length does not move the angle.\<close>

lemma atan2_scale:
  assumes "0 < m"
  shows "atan2 (y / m) (x / m) = atan2 y x"
  using assms by (auto simp: atan2_def divide_less_0_iff zero_less_divide_iff zero_le_divide_iff)

lemma random_ok_stl [intro]: "random_ok s \<Longrightarrow> random_ok (stl s)"
  by (simp add: random_ok_def streams_stl)

lemma random_ok_shd: "random_ok s \<Longrightarrow> 0 \<le> shd s \<and> shd s < 1"
  using streams_shd by (fastforce simp: random_ok_def)

lemma random_ok_sconst [boid_eval]: "0 \<le> r \<Longrightarrow> r < 1 \<Longrightarrow> random_ok (sconst r)"
  by (simp add: random_ok_def sconst_streams)

lemma random_ok_shift [boid_eval]: "set xs \<subseteq> {0..<1} \<Longrightarrow> random_ok s \<Longrightarrow> random_ok (xs @- s)"
  by (simp add: random_ok_def shift_streams in_lists_conv_set subset_iff)

lemma random_ok_random:
  "random_ok s \<Longrightarrow> random s = (r, s') \<Longrightarrow> 0 \<le> r \<and> r < 1 \<and> random_ok s'"
  by (auto simp: random_def dest: random_ok_shd)

text \<open>\<open>Math.random() * c\<close> lies in \<open>[0, c)\<close> for a positive \<open>c\<close>.\<close>

lemma unit_scale: "0 \<le> r \<Longrightarrow> r < 1 \<Longrightarrow> 0 < c \<Longrightarrow> 0 \<le> r * c \<and> r * c < (c :: real)"
  using mult_strict_right_mono [of r 1 c] by simp

subsection \<open>Lists\<close>

lemma sum_list_update_real:
  "k < length xs \<Longrightarrow> sum_list (xs[k := v]) = sum_list xs - xs ! k + (v :: real)"
proof (induction xs arbitrary: k)
  case Nil
  then show ?case by simp
next
  case (Cons a xs)
  then show ?case by (cases k) auto
qed

lemma nth_list_update_other [simp]:
  "j \<noteq> i \<Longrightarrow> (xs[i := v]) ! j = xs ! j"
  by simp

end
