(* ===== verification/Boid_Data.thy ===== *)
theory Boid_Data
  imports Boids_Prelude
begin

text \<open>
  The data of \<open>src/script.js\<close>: its tuning constants (lines 8--21), the world bounds
  \<open>width\<close> and \<open>height\<close> (lines 4--5, fixed for the life of the page), the boid objects
  that \<open>newBoid\<close> (lines 240--251) builds, and the well-formedness every boid keeps:
  size in \<open>[boidMinSize, boidMaxSize)\<close>, speed in \<open>[200, 220)\<close>, fields that no
  code path writes after creation. Proved: a new boid lies on the canvas, is
  well-formed, and consumes exactly seven random values.
\<close>

subsection \<open>Tuning constants\<close>

definition boidAmount :: nat where [boid_consts]: "boidAmount = 10"
definition maxBoidAmount :: nat where [boid_consts]: "maxBoidAmount = 500"
definition boidMinSize :: real where [boid_consts]: "boidMinSize = 2"
definition boidMaxSize :: real where [boid_consts]: "boidMaxSize = 10"
definition boidWanderRadius :: real where [boid_consts]: "boidWanderRadius = 6"
definition boidWanderSpeed :: real where [boid_consts]: "boidWanderSpeed = 40"
definition boidSightRange :: real where [boid_consts]: "boidSightRange = 150"
definition boidSoftBoundFactor :: real where
  [boid_consts]: "boidSoftBoundFactor = boidMaxSize + boidMinSize"
definition boidAlignmentFactor :: real where [boid_consts]: "boidAlignmentFactor = 0.01"
definition boidCohesionFactor :: real where [boid_consts]: "boidCohesionFactor = 0.02"
definition boidSeperationFactor :: real where [boid_consts]: "boidSeperationFactor = 80"
definition boidSeperationDistance :: real where [boid_consts]: "boidSeperationDistance = 200"

subsection \<open>The world and the boids\<close>

text \<open>\<open>width = window.innerWidth\<close>, \<open>height = window.innerHeight\<close>; the canvas is sized to them.\<close>

record world =
  width :: real
  height :: real

text \<open>
  A boid object. The source's fields \<open>x\<close>, \<open>y\<close>, \<open>size\<close> are \<open>boid_x\<close>, \<open>boid_y\<close>,
  \<open>boid_size\<close> here (a field name is a constant of the theory); \<open>color\<close>, the string
  \<open>"hsl(" + h + ", 100%, 50%)"\<close>, is represented by its hue \<open>h\<close>.
\<close>

record boid =
  boid_x :: real
  boid_y :: real
  wanderAngle :: real
  angle :: real
  speed :: real
  boid_size :: real
  color_hue :: real

text \<open>
  \<open>newBoid()\<close>: an object literal whose seven fields each call \<open>Math.random()\<close>, in
  the order written; the canvas dimensions are \<open>width\<close> and \<open>height\<close> (set by \<open>init\<close>).
\<close>

definition newBoid :: "world \<Rightarrow> real stream \<Rightarrow> boid \<times> real stream" where
  "newBoid w s0 =
     (let (r1, s1) = random s0; (r2, s2) = random s1; (r3, s3) = random s2;
          (r4, s4) = random s3; (r5, s5) = random s4; (r6, s6) = random s5;
          (r7, s7) = random s6
      in (\<lparr>boid_x = r1 * width w,
           boid_y = r2 * height w,
           wanderAngle = r3 * pi * 2,
           angle = r4 * pi * 2,
           speed = r5 * 20 + 200,
           boid_size = r6 * (boidMaxSize - boidMinSize) + boidMinSize,
           color_hue = r7 * 360\<rparr>, s7))"

text \<open>The velocity \<open>(cos(angle) * speed, sin(angle) * speed)\<close> the code derives from a heading.\<close>

definition heading_vec :: "boid \<Rightarrow> vec" where
  "heading_vec b = \<lparr>vx = cos (angle b) * speed b, vy = sin (angle b) * speed b\<rparr>"

definition pos :: "boid \<Rightarrow> vec" where
  "pos b = \<lparr>vx = boid_x b, vy = boid_y b\<rparr>"

subsection \<open>Faults\<close>

text \<open>
  script.js raises nothing, but two of its divisions compute \<open>0 / 0 = NaN\<close>, which then
  poisons a boid for good: normalising a zero steering vector (\<open>applyForces\<close>,
  line 165) and separating two coincident overlapping boids (\<open>applyCollisions\<close>,
  lines 179--180). The model stops there with a fault naming the boids involved.
\<close>

datatype fault = HeadingNaN nat | CollisionNaN nat nat

subsection \<open>Well-formed boids\<close>

definition boid_wf :: "boid \<Rightarrow> bool" where
  "boid_wf b \<longleftrightarrow>
     boidMinSize \<le> boid_size b \<and> boid_size b < boidMaxSize \<and> 200 \<le> speed b \<and> speed b < 220"

definition boids_wf :: "boid list \<Rightarrow> bool" where
  "boids_wf bs \<longleftrightarrow> (\<forall>b \<in> set bs. boid_wf b)"

text \<open>The fields that make a boid what it was created as: never written after \<open>newBoid\<close>.\<close>

definition same_identity :: "boid \<Rightarrow> boid \<Rightarrow> bool" where
  "same_identity b b' \<longleftrightarrow>
     speed b' = speed b \<and> boid_size b' = boid_size b \<and> color_hue b' = color_hue b"

lemma same_identity_refl [simp]: "same_identity b b"
  by (simp add: same_identity_def)

lemma same_identity_trans [trans]:
  "same_identity a b \<Longrightarrow> same_identity b c \<Longrightarrow> same_identity a c"
  by (simp add: same_identity_def)

lemma same_identity_wf: "same_identity b b' \<Longrightarrow> boid_wf b \<Longrightarrow> boid_wf b'"
  by (simp add: same_identity_def boid_wf_def)

lemma boid_wf_size_pos: "boid_wf b \<Longrightarrow> 0 < boid_size b"
  by (simp add: boid_wf_def boid_consts)

lemma newBoid_fields:
  "newBoid w s = (b, s') \<Longrightarrow>
     b = \<lparr>boid_x = shd s * width w, boid_y = shd (stl s) * height w,
          wanderAngle = shd (stl (stl s)) * pi * 2,
          angle = shd (stl (stl (stl s))) * pi * 2,
          speed = shd (stl (stl (stl (stl s)))) * 20 + 200,
          boid_size = shd (stl (stl (stl (stl (stl s))))) * 8 + 2,
          color_hue = shd (stl (stl (stl (stl (stl (stl s)))))) * 360\<rparr>
     \<and> s' = stl (stl (stl (stl (stl (stl (stl s))))))"
  by (auto simp: newBoid_def random_def boid_consts)

lemma newBoid_wf:
  assumes "random_ok s" and "newBoid w s = (b, s')"
  shows "boid_wf b \<and> random_ok s'"
proof -
  let ?s4 = "stl (stl (stl (stl s)))"
  have r4: "random_ok ?s4" and r5: "random_ok (stl ?s4)"
    using assms(1) by blast+
  have "0 \<le> shd ?s4 \<and> shd ?s4 < 1" and "0 \<le> shd (stl ?s4) \<and> shd (stl ?s4) < 1"
    using random_ok_shd [OF r4] random_ok_shd [OF r5] by simp_all
  moreover have "random_ok s'"
    using newBoid_fields [OF assms(2)] assms(1) by (simp add: random_ok_stl)
  ultimately show ?thesis
    using newBoid_fields [OF assms(2)] by (auto simp: boid_wf_def boid_consts)
qed

lemma newBoid_on_canvas:
  assumes "random_ok s" and "newBoid w s = (b, s')" and "0 < width w" and "0 < height w"
  shows "0 \<le> boid_x b \<and> boid_x b < width w \<and> 0 \<le> boid_y b \<and> boid_y b < height w"
proof -
  have "0 \<le> shd s \<and> shd s < 1" and "0 \<le> shd (stl s) \<and> shd (stl s) < 1"
    using random_ok_shd assms(1) by blast+
  then show ?thesis
    using newBoid_fields [OF assms(2)] unit_scale [OF _ _ assms(3)] unit_scale [OF _ _ assms(4)]
    by simp
qed

section \<open>Properties of a new boid\<close>

text \<open>
  C24. \<open>newBoid()\<close> places a boid on the canvas (\<open>[0, width) \<times> [0, height)\<close>) with
  its headings in \<open>[0, 2\<pi>)\<close>, its hue in \<open>[0, 360)\<close>, a well-formed size and speed, and
  consumes exactly seven values of \<open>Math.random()\<close>.
\<close>

theorem newBoid_in_canvas:
  assumes r: "random_ok s" and nb: "newBoid w s = (b, s')" and w: "0 < width w" and h: "0 < height w"
  shows "0 \<le> boid_x b \<and> boid_x b < width w \<and> 0 \<le> boid_y b \<and> boid_y b < height w \<and>
         0 \<le> wanderAngle b \<and> wanderAngle b < 2 * pi \<and> 0 \<le> angle b \<and> angle b < 2 * pi \<and>
         0 \<le> color_hue b \<and> color_hue b < 360 \<and> boid_wf b \<and> s' = sdrop 7 s"
proof -
  have u: "0 \<le> shd t \<and> shd t < 1" if "t \<in> {s, stl s, stl (stl s), stl (stl (stl s)),
      stl (stl (stl (stl (stl (stl s))))) }" for t
    using that r by (auto intro!: random_ok_shd random_ok_stl)
  have pi2: "0 < 2 * pi"
    by simp
  have b: "b = \<lparr>boid_x = shd s * width w, boid_y = shd (stl s) * height w,
          wanderAngle = shd (stl (stl s)) * (2 * pi),
          angle = shd (stl (stl (stl s))) * (2 * pi),
          speed = shd (stl (stl (stl (stl s)))) * 20 + 200,
          boid_size = shd (stl (stl (stl (stl (stl s))))) * 8 + 2,
          color_hue = shd (stl (stl (stl (stl (stl (stl s)))))) * 360\<rparr>"
    using newBoid_fields [OF nb] by (simp add: mult.assoc)
  have "s' = sdrop 7 s"
    using newBoid_fields [OF nb] by (simp add: eval_nat_numeral)
  then show ?thesis
    using unit_scale [OF _ _ w] unit_scale [OF _ _ h] unit_scale [OF _ _ pi2]
      unit_scale [of _ 360] u newBoid_wf [OF r nb] by (simp add: b)
qed

theorem newBoid_in_canvas_witness:
  "random_ok (sconst (1 / 2)) \<and>
   newBoid \<lparr>width = 100, height = 100\<rparr> (sconst (1 / 2)) =
     (\<lparr>boid_x = 50, boid_y = 50, wanderAngle = pi, angle = pi, speed = 210, boid_size = 6, color_hue = 180\<rparr>,
      sconst (1 / 2)) \<and>
   (0 :: real) < 100 \<and>
   boid_x \<lparr>boid_x = 50, boid_y = 50, wanderAngle = pi, angle = pi, speed = 210, boid_size = 6, color_hue = 180\<rparr> <
     width \<lparr>width = 100, height = 100\<rparr> \<and>
   sconst (1 / 2 :: real) = sdrop 7 (sconst (1 / 2))"
proof -
  have r: "random_ok (sconst (1 / 2 :: real))"
    by (simp add: random_ok_sconst)
  have nb: "newBoid \<lparr>width = 100, height = 100\<rparr> (sconst (1 / 2)) =
     (\<lparr>boid_x = 50, boid_y = 50, wanderAngle = pi, angle = pi, speed = 210, boid_size = 6, color_hue = 180\<rparr>,
      sconst (1 / 2))"
    by (simp add: newBoid_def random_def boid_consts)
  show ?thesis
    using newBoid_in_canvas [OF r nb] r nb by simp
qed

end
