(* ===== verification/Forces.thy ===== *)
theory Forces
  imports Boid_Data
begin

text \<open>
  The neighbour aggregator and the steering of script.js, \<open>applyForces(index, dt)\<close>
  (lines 95--166). The soft boundary force depends on the focal boid alone
  (lines 105--108); one pass over the array accumulates the spotted boids' velocities and
  positions and the too-close boids' positions (lines 110--134); with no boid spotted the
  function returns early (line 136); otherwise the averages, the separation factor with
  its zero guard (lines 138--150) and the new velocity (lines 152--163) give the new
  heading, \<open>atan2\<close> of the normalised velocity (lines 164--165), the only field written.
  The reference semantics of the pass is \<open>scan_spec\<close>: sums over the boids the focal
  boid sees or is crowded by, as lists filtered from the array.
\<close>

section \<open>Definitions\<close>

subsection \<open>Soft boundary force\<close>

definition softBoundForce :: "world \<Rightarrow> boid \<Rightarrow> vec" where
  "softBoundForce w boid0 =
     (let f0 = vzero;
          f1 = (if boid_x boid0 < boid_size boid0 + boidSightRange
                then f0\<lparr>vx := vx f0 + boidSoftBoundFactor * (boidSightRange - boid_x boid0) / boidSightRange\<rparr>
                else f0);
          f2 = (if boid_x boid0 > width w - (boid_size boid0 + boidSightRange)
                then f1\<lparr>vx := vx f1 - boidSoftBoundFactor * (boid_x boid0 - (width w - boidSightRange)) / boidSightRange\<rparr>
                else f1);
          f3 = (if boid_y boid0 < boid_size boid0 + boidSightRange
                then f2\<lparr>vy := vy f2 + boidSoftBoundFactor * (boidSightRange - boid_y boid0) / boidSightRange\<rparr>
                else f2);
          f4 = (if boid_y boid0 > height w - (boid_size boid0 + boidSightRange)
                then f3\<lparr>vy := vy f3 - boidSoftBoundFactor * (boid_y boid0 - (height w - boidSightRange)) / boidSightRange\<rparr>
                else f3)
      in f4)"

subsection \<open>The neighbour scan\<close>

text \<open>The local variables of \<open>applyForces\<close> that the loop updates.\<close>

record scan_acc =
  averageVel :: vec
  averagePos :: vec
  boidsSpotted :: nat
  tooClose :: vec
  tooCloseCount :: nat

definition scan_init :: scan_acc where
  "scan_init = \<lparr>averageVel = vzero, averagePos = vzero, boidsSpotted = 0,
                tooClose = vzero, tooCloseCount = 0\<rparr>"

text \<open>The body of the loop for one other boid \<open>boid1\<close> (lines 112--133).\<close>

definition scan_boid :: "boid \<Rightarrow> boid \<Rightarrow> scan_acc \<Rightarrow> scan_acc" where
  "scan_boid boid0 boid1 acc =
     (let dx = boid_x boid1 - boid_x boid0;
          dy = boid_y boid1 - boid_y boid0;
          distance = hypot dx dy;
          acc1 = (if distance < boidSightRange + boid_size boid0 + boid_size boid1
                  then acc\<lparr>averageVel := \<lparr>vx = vx (averageVel acc) + cos (angle boid1) * speed boid1,
                                          vy = vy (averageVel acc) + sin (angle boid1) * speed boid1\<rparr>,
                           averagePos := \<lparr>vx = vx (averagePos acc) + boid_x boid1,
                                          vy = vy (averagePos acc) + boid_y boid1\<rparr>,
                           boidsSpotted := Suc (boidsSpotted acc)\<rparr>
                  else acc);
          acc2 = (if distance < boidSeperationDistance + boid_size boid0 + boid_size boid1
                  then acc1\<lparr>tooCloseCount := Suc (tooCloseCount acc1),
                            tooClose := \<lparr>vx = vx (tooClose acc1) + boid_x boid1,
                                         vy = vy (tooClose acc1) + boid_y boid1\<rparr>\<rparr>
                  else acc1)
      in acc2)"

text \<open>\<open>for (let i = 0; i < boids.length; i++) { if (i == index) continue; ... }\<close>\<close>

fun scan_loop :: "boid \<Rightarrow> nat \<Rightarrow> nat \<Rightarrow> boid list \<Rightarrow> scan_acc \<Rightarrow> scan_acc" where
  "scan_loop boid0 index i [] acc = acc"
| "scan_loop boid0 index i (boid1 # bs) acc =
     scan_loop boid0 index (Suc i) bs (if i = index then acc else scan_boid boid0 boid1 acc)"

subsection \<open>Steering\<close>

text \<open>Lines 148--150: the factor is computed, then forced to 0 when the magnitude is 0.\<close>

definition seperationFactor :: "real \<Rightarrow> real" where
  "seperationFactor seperationMagnitude =
     (if seperationMagnitude = 0 then 0
      else (boidSeperationFactor / seperationMagnitude) *
           (1 - boidSeperationDistance / seperationMagnitude))"

text \<open>Lines 138--163, after the early return: the averages and the combined velocity.\<close>

definition newVel :: "world \<Rightarrow> boid \<Rightarrow> scan_acc \<Rightarrow> vec" where
  "newVel w boid0 acc =
     (let n = real (boidsSpotted acc);
          avgVel = \<lparr>vx = vx (averageVel acc) / n, vy = vy (averageVel acc) / n\<rparr>;
          avgPos = \<lparr>vx = vx (averagePos acc) / n, vy = vy (averagePos acc) / n\<rparr>;
          tc = (if tooCloseCount acc > 0
                then \<lparr>vx = vx (tooClose acc) / real (tooCloseCount acc),
                      vy = vy (tooClose acc) / real (tooCloseCount acc)\<rparr>
                else tooClose acc);
          sf = seperationFactor (hypot (vx tc) (vy tc));
          sb = softBoundForce w boid0
      in \<lparr>vx = cos (angle boid0) * speed boid0
              + vx avgVel * boidAlignmentFactor
              + (vx avgPos - boid_x boid0) * boidCohesionFactor
              + (boid_x boid0 - vx tc) * sf
              + vx sb,
          vy = sin (angle boid0) * speed boid0
              + vy avgVel * boidAlignmentFactor
              + (vy avgPos - boid_y boid0) * boidCohesionFactor
              + (boid_y boid0 - vy tc) * sf
              + vy sb\<rparr>)"

definition applyForces :: "world \<Rightarrow> nat \<Rightarrow> boid list \<Rightarrow> fault + boid list" where
  "applyForces w index bs =
     (let boid0 = bs ! index;
          acc = scan_loop boid0 index 0 bs scan_init
      in if boidsSpotted acc = 0 then Inr bs
         else
           (let v = newVel w boid0 acc;
                magnitude = hypot (vx v) (vy v)
            in if magnitude = 0 then Inl (HeadingNaN index)
               else Inr (bs[index := boid0\<lparr>angle := atan2 (vy v / magnitude) (vx v / magnitude)\<rparr>])))"

subsection \<open>Reference semantics of the scan\<close>

definition sees :: "boid \<Rightarrow> boid \<Rightarrow> bool" where
  "sees boid0 boid1 \<longleftrightarrow>
     hypot (boid_x boid1 - boid_x boid0) (boid_y boid1 - boid_y boid0)
       < boidSightRange + boid_size boid0 + boid_size boid1"

definition crowds :: "boid \<Rightarrow> boid \<Rightarrow> bool" where
  "crowds boid0 boid1 \<longleftrightarrow>
     hypot (boid_x boid1 - boid_x boid0) (boid_y boid1 - boid_y boid0)
       < boidSeperationDistance + boid_size boid0 + boid_size boid1"

definition others :: "nat \<Rightarrow> boid list \<Rightarrow> boid list" where
  "others index bs = map snd (filter (\<lambda>(j, b). j \<noteq> index) (enumerate 0 bs))"

definition scan_spec :: "boid \<Rightarrow> boid list \<Rightarrow> scan_acc" where
  "scan_spec boid0 bs =
     \<lparr>averageVel = vsum (map heading_vec (filter (sees boid0) bs)),
      averagePos = vsum (map pos (filter (sees boid0) bs)),
      boidsSpotted = length (filter (sees boid0) bs),
      tooClose = vsum (map pos (filter (crowds boid0) bs)),
      tooCloseCount = length (filter (crowds boid0) bs)\<rparr>"

section \<open>Lemmas\<close>

lemma scan_boid_eq:
  "scan_boid boid0 boid1 acc =
     (let acc1 = (if sees boid0 boid1
                  then acc\<lparr>averageVel := \<lparr>vx = vx (averageVel acc) + vx (heading_vec boid1),
                                          vy = vy (averageVel acc) + vy (heading_vec boid1)\<rparr>,
                           averagePos := \<lparr>vx = vx (averagePos acc) + vx (pos boid1),
                                          vy = vy (averagePos acc) + vy (pos boid1)\<rparr>,
                           boidsSpotted := Suc (boidsSpotted acc)\<rparr>
                  else acc)
      in if crowds boid0 boid1
         then acc1\<lparr>tooCloseCount := Suc (tooCloseCount acc1),
                   tooClose := \<lparr>vx = vx (tooClose acc1) + vx (pos boid1),
                                vy = vy (tooClose acc1) + vy (pos boid1)\<rparr>\<rparr>
         else acc1)"
  by (simp add: scan_boid_def sees_def crowds_def heading_vec_def pos_def Let_def)

text \<open>The loop is a fold of the body over the other boids, in array order.\<close>

lemma scan_loop_fold:
  "scan_loop boid0 index i bs acc =
     fold (scan_boid boid0) (map snd (filter (\<lambda>(j, b). j \<noteq> index) (enumerate i bs))) acc"
  by (induction bs arbitrary: i acc) auto

lemma fold_scan_boid:
  "fold (scan_boid boid0) bs scan_init = scan_spec boid0 bs"
proof (induction bs rule: rev_induct)
  case Nil
  then show ?case by (simp add: scan_init_def scan_spec_def)
next
  case (snoc b bs)
  then show ?case
    by (simp add: scan_boid_eq scan_spec_def Let_def)
qed

lemma sees_crowds: "sees boid0 boid1 \<Longrightarrow> crowds boid0 boid1"
  by (simp add: sees_def crowds_def boid_consts)

lemma spotted_le_crowded:
  "length (filter (sees boid0) bs) \<le> length (filter (crowds boid0) bs)"
  by (induction bs) (auto dest: sees_crowds)

lemma scan_loop_others:
  "scan_loop boid0 index 0 bs scan_init = fold (scan_boid boid0) (others index bs) scan_init"
  by (simp add: scan_loop_fold others_def)

lemma nth_in_others: "i < length bs \<Longrightarrow> i \<noteq> index \<Longrightarrow> bs ! i \<in> set (others index bs)"
  by (force simp: others_def in_set_enumerate_eq image_iff)

lemma vec_eq_vzero: "v = vzero \<longleftrightarrow> vx v = 0 \<and> vy v = 0"
  by (cases v) (simp add: vzero_def)

lemma applyForces_unfold:
  "applyForces w index bs =
     (if filter (sees (bs ! index)) (others index bs) = [] then Inr bs
      else if newVel w (bs ! index) (scan_spec (bs ! index) (others index bs)) = vzero
      then Inl (HeadingNaN index)
      else Inr (bs[index := (bs ! index)\<lparr>angle :=
             atan2 (vy (newVel w (bs ! index) (scan_spec (bs ! index) (others index bs))))
                   (vx (newVel w (bs ! index) (scan_spec (bs ! index) (others index bs))))\<rparr>]))"
proof -
  let ?acc = "scan_spec (bs ! index) (others index bs)"
  let ?v = "newVel w (bs ! index) ?acc"
  have scan: "scan_loop (bs ! index) index 0 bs scan_init = ?acc"
    by (simp only: scan_loop_others fold_scan_boid)
  show ?thesis
  proof (cases "filter (sees (bs ! index)) (others index bs) = []")
    case True
    then show ?thesis
      by (simp add: applyForces_def scan scan_spec_def)
  next
    case spotted: False
    show ?thesis
    proof (cases "?v = vzero")
      case True
      then show ?thesis
        using spotted by (simp add: applyForces_def scan scan_spec_def [of "bs ! index"] vec_eq_vzero)
    next
      case False
      then have m: "0 < hypot (vx ?v) (vy ?v)"
        by (simp add: vec_eq_vzero hypot_pos_iff)
      have "atan2 (vy ?v / hypot (vx ?v) (vy ?v)) (vx ?v / hypot (vx ?v) (vy ?v)) = atan2 (vy ?v) (vx ?v)"
        using m by (rule atan2_scale)
      then show ?thesis
        using spotted False m
        by (simp add: applyForces_def scan Let_def scan_spec_def [of "bs ! index"] vec_eq_vzero)
    qed
  qed
qed

text \<open>A successful call writes nothing but the focal boid's heading.\<close>

lemma applyForces_frame:
  assumes "applyForces w index bs = Inr bs'" and "index < length bs"
  shows "\<exists>a. bs' = bs[index := (bs ! index)\<lparr>angle := a\<rparr>]"
proof (cases "filter (sees (bs ! index)) (others index bs) = []")
  case True
  then have "bs' = bs[index := (bs ! index)\<lparr>angle := angle (bs ! index)\<rparr>]"
    using assms by (simp add: applyForces_unfold)
  then show ?thesis by blast
next
  case False
  then show ?thesis
    using assms(1) by (auto simp: applyForces_unfold split: if_splits)
qed

section \<open>Properties of the aggregator and the steering\<close>

text \<open>
  C5. The single pass of \<open>applyForces\<close> over the array computes exactly the sums and
  counts over the other boids that the focal boid sees (sight test) and is crowded by
  (separation test): the loop with its \<open>continue\<close> refines the set-based reference,
  so any other traversal with the same membership tests gives the same averages.
\<close>

theorem scan_loop_eq_spec:
  "scan_loop boid0 index 0 bs scan_init = scan_spec boid0 (others index bs)"
  by (simp only: scan_loop_others fold_scan_boid)

text \<open>
  C18. Every boid within sight is also within separation range (the sight range is the
  smaller threshold), so the scan's too-close count is never below its spotted count:
  when the steering runs, the crowd centre is an average over a non-empty set.
\<close>

theorem scan_spotted_le_tooClose:
  "boidsSpotted (scan_loop boid0 index 0 bs scan_init)
     \<le> tooCloseCount (scan_loop boid0 index 0 bs scan_init)"
  by (simp only: scan_loop_others fold_scan_boid) (simp add: scan_spec_def spotted_le_crowded)

text \<open>
  C21. Neighbour symmetry: boid A passes B's sight test exactly when B passes A's, and
  likewise for the separation test (distance and radii enter symmetrically).
\<close>

theorem sight_tests_symmetric:
  "sees boid0 boid1 = sees boid1 boid0 \<and> crowds boid0 boid1 = crowds boid1 boid0"
  by (simp add: sees_def crowds_def hypot_swap_diff [of "boid_x boid1"] add.commute add.left_commute)

text \<open>
  C10. The zero-neighbour short-circuit (line 136): when the focal boid sees no other boid,
  \<open>applyForces\<close> leaves the whole array unchanged, its heading included.
\<close>

theorem applyForces_no_neighbour:
  assumes "\<forall>b \<in> set (others index bs). \<not> sees (bs ! index) b"
  shows "applyForces w index bs = Inr bs"
proof -
  have "filter (sees (bs ! index)) (others index bs) = []"
    using assms by (simp add: filter_empty_conv)
  then show ?thesis
    by (simp add: applyForces_unfold)
qed

theorem applyForces_no_neighbour_witness:
  "filter (sees \<lparr>boid_x = 50, boid_y = 50, wanderAngle = 0, angle = 1, speed = 200, boid_size = 2, color_hue = 0\<rparr>) (others 0 [\<lparr>boid_x = 50, boid_y = 50, wanderAngle = 0, angle = 1, speed = 200, boid_size = 2, color_hue = 0\<rparr>]) = [] \<and>
   applyForces \<lparr>width = 100, height = 100\<rparr> 0
     [\<lparr>boid_x = 50, boid_y = 50, wanderAngle = 0, angle = 1, speed = 200, boid_size = 2, color_hue = 0\<rparr>] =
   Inr [\<lparr>boid_x = 50, boid_y = 50, wanderAngle = 0, angle = 1, speed = 200, boid_size = 2, color_hue = 0\<rparr>]"
proof -
  have none: "\<forall>b \<in> set (others 0 [\<lparr>boid_x = 50, boid_y = 50, wanderAngle = 0, angle = 1, speed = 200, boid_size = 2, color_hue = 0\<rparr>]).
       \<not> sees \<lparr>boid_x = 50, boid_y = 50, wanderAngle = 0, angle = 1, speed = 200, boid_size = 2, color_hue = 0\<rparr> b"
    by (simp add: others_def)
  show ?thesis
    using none applyForces_no_neighbour [of 0 "[\<lparr>boid_x = 50, boid_y = 50, wanderAngle = 0, angle = 1, speed = 200, boid_size = 2, color_hue = 0\<rparr>]"]
    by (simp add: filter_empty_conv)
qed

text \<open>
  C6. The steering turns the focal boid into the direction of the combined velocity
  vector (lines 152--165): when some boid is spotted and the combined vector \<open>v\<close> is not
  zero, the new heading \<open>a\<close> satisfies \<open>(cos a, sin a) = v / |v|\<close>, and no other field
  or boid changes. The angle is the abstract "direction" the code stores.
\<close>

theorem applyForces_heading:
  assumes spot: "\<exists>b \<in> set (others index bs). sees (bs ! index) b"
    and v: "v = newVel w (bs ! index) (scan_loop (bs ! index) index 0 bs scan_init)"
    and nz: "vx v \<noteq> 0 \<or> vy v \<noteq> 0"
  shows "\<exists>a. applyForces w index bs = Inr (bs[index := (bs ! index)\<lparr>angle := a\<rparr>]) \<and>
             cos a = vx v / hypot (vx v) (vy v) \<and> sin a = vy v / hypot (vx v) (vy v)"
proof -
  have v': "v = newVel w (bs ! index) (scan_spec (bs ! index) (others index bs))"
    using v by (simp only: scan_loop_others fold_scan_boid)
  have "filter (sees (bs ! index)) (others index bs) \<noteq> []"
    using spot by (simp add: filter_empty_conv)
  moreover have "v \<noteq> vzero"
    using nz by (simp add: vec_eq_vzero)
  ultimately have "applyForces w index bs = Inr (bs[index := (bs ! index)\<lparr>angle := atan2 (vy v) (vx v)\<rparr>])"
    by (simp add: applyForces_unfold v' [symmetric])
  then show ?thesis
    using cos_atan2 [OF nz] sin_atan2 [OF nz] by blast
qed

theorem applyForces_heading_witness:
  "(\<exists>b \<in> set (others 0 [\<lparr>boid_x = 300, boid_y = 300, wanderAngle = 0, angle = 0, speed = 200, boid_size = 2, color_hue = 0\<rparr>, \<lparr>boid_x = 300, boid_y = 400, wanderAngle = 0, angle = pi / 2, speed = 200, boid_size = 2, color_hue = 0\<rparr>]). sees \<lparr>boid_x = 300, boid_y = 300, wanderAngle = 0, angle = 0, speed = 200, boid_size = 2, color_hue = 0\<rparr> b) \<and>
   newVel \<lparr>width = 1000, height = 1000\<rparr> \<lparr>boid_x = 300, boid_y = 300, wanderAngle = 0, angle = 0, speed = 200, boid_size = 2, color_hue = 0\<rparr> (scan_loop \<lparr>boid_x = 300, boid_y = 300, wanderAngle = 0, angle = 0, speed = 200, boid_size = 2, color_hue = 0\<rparr> 0 0 [\<lparr>boid_x = 300, boid_y = 300, wanderAngle = 0, angle = 0, speed = 200, boid_size = 2, color_hue = 0\<rparr>, \<lparr>boid_x = 300, boid_y = 400, wanderAngle = 0, angle = pi / 2, speed = 200, boid_size = 2, color_hue = 0\<rparr>] scan_init) = \<lparr>vx = 200, vy = - 28 / 5\<rparr> \<and>
   (\<exists>a. applyForces \<lparr>width = 1000, height = 1000\<rparr> 0 [\<lparr>boid_x = 300, boid_y = 300, wanderAngle = 0, angle = 0, speed = 200, boid_size = 2, color_hue = 0\<rparr>, \<lparr>boid_x = 300, boid_y = 400, wanderAngle = 0, angle = pi / 2, speed = 200, boid_size = 2, color_hue = 0\<rparr>] = Inr [\<lparr>boid_x = 300, boid_y = 300, wanderAngle = 0, angle = 0, speed = 200, boid_size = 2, color_hue = 0\<rparr>\<lparr>angle := a\<rparr>, \<lparr>boid_x = 300, boid_y = 400, wanderAngle = 0, angle = pi / 2, speed = 200, boid_size = 2, color_hue = 0\<rparr>] \<and>
        cos a = 200 / hypot 200 (- 28 / 5) \<and> sin a = - 28 / 5 / hypot 200 (- 28 / 5))"
proof -
  have h: "hypot 300 400 = 500"
    by (rule hypot_eqI) simp_all
  have spot: "\<exists>b \<in> set (others 0 [\<lparr>boid_x = 300, boid_y = 300, wanderAngle = 0, angle = 0, speed = 200, boid_size = 2, color_hue = 0\<rparr>, \<lparr>boid_x = 300, boid_y = 400, wanderAngle = 0, angle = pi / 2, speed = 200, boid_size = 2, color_hue = 0\<rparr>]). sees \<lparr>boid_x = 300, boid_y = 300, wanderAngle = 0, angle = 0, speed = 200, boid_size = 2, color_hue = 0\<rparr> b"
    by (simp add: others_def sees_def boid_consts)
  have v: "newVel \<lparr>width = 1000, height = 1000\<rparr> \<lparr>boid_x = 300, boid_y = 300, wanderAngle = 0, angle = 0, speed = 200, boid_size = 2, color_hue = 0\<rparr> (scan_loop \<lparr>boid_x = 300, boid_y = 300, wanderAngle = 0, angle = 0, speed = 200, boid_size = 2, color_hue = 0\<rparr> 0 0 [\<lparr>boid_x = 300, boid_y = 300, wanderAngle = 0, angle = 0, speed = 200, boid_size = 2, color_hue = 0\<rparr>, \<lparr>boid_x = 300, boid_y = 400, wanderAngle = 0, angle = pi / 2, speed = 200, boid_size = 2, color_hue = 0\<rparr>] scan_init) = \<lparr>vx = 200, vy = - 28 / 5\<rparr>"
    by (simp add: newVel_def scan_init_def scan_boid_def softBoundForce_def seperationFactor_def
        vzero_def boid_consts h)
  show ?thesis
    using applyForces_heading [of 0 "[\<lparr>boid_x = 300, boid_y = 300, wanderAngle = 0, angle = 0, speed = 200, boid_size = 2, color_hue = 0\<rparr>, \<lparr>boid_x = 300, boid_y = 400, wanderAngle = 0, angle = pi / 2, speed = 200, boid_size = 2, color_hue = 0\<rparr>]" "\<lparr>vx = 200, vy = - 28 / 5\<rparr>" "\<lparr>width = 1000, height = 1000\<rparr>"] spot v
    by simp
qed

text \<open>
  C16. The \<open>NaN\<close> path of the steering (lines 164--165): when some boid is spotted but
  the combined velocity is exactly zero, the code normalises \<open>0 / 0\<close> and stores
  \<open>atan2(NaN, NaN)\<close>; the model reports the fault for the focal boid.
\<close>

theorem applyForces_heading_fault:
  assumes "\<exists>b \<in> set (others index bs). sees (bs ! index) b"
    and "newVel w (bs ! index) (scan_loop (bs ! index) index 0 bs scan_init) = vzero"
  shows "applyForces w index bs = Inl (HeadingNaN index)"
proof -
  have "filter (sees (bs ! index)) (others index bs) \<noteq> []"
    using assms(1) by (simp add: filter_empty_conv)
  moreover have "newVel w (bs ! index) (scan_spec (bs ! index) (others index bs)) = vzero"
    using assms(2) by (simp only: scan_loop_others fold_scan_boid)
  ultimately show ?thesis
    by (simp add: applyForces_unfold)
qed

theorem applyForces_heading_fault_witness:
  "(\<exists>b \<in> set (others 0 [\<lparr>boid_x = 300, boid_y = 300, wanderAngle = 0, angle = pi / 2, speed = 38 / 5, boid_size = 2, color_hue = 0\<rparr>, \<lparr>boid_x = 300, boid_y = 400, wanderAngle = 0, angle = 0, speed = 0, boid_size = 2, color_hue = 0\<rparr>]). sees \<lparr>boid_x = 300, boid_y = 300, wanderAngle = 0, angle = pi / 2, speed = 38 / 5, boid_size = 2, color_hue = 0\<rparr> b) \<and>
   newVel \<lparr>width = 1000, height = 1000\<rparr> \<lparr>boid_x = 300, boid_y = 300, wanderAngle = 0, angle = pi / 2, speed = 38 / 5, boid_size = 2, color_hue = 0\<rparr> (scan_loop \<lparr>boid_x = 300, boid_y = 300, wanderAngle = 0, angle = pi / 2, speed = 38 / 5, boid_size = 2, color_hue = 0\<rparr> 0 0 [\<lparr>boid_x = 300, boid_y = 300, wanderAngle = 0, angle = pi / 2, speed = 38 / 5, boid_size = 2, color_hue = 0\<rparr>, \<lparr>boid_x = 300, boid_y = 400, wanderAngle = 0, angle = 0, speed = 0, boid_size = 2, color_hue = 0\<rparr>] scan_init) = vzero \<and>
   applyForces \<lparr>width = 1000, height = 1000\<rparr> 0 [\<lparr>boid_x = 300, boid_y = 300, wanderAngle = 0, angle = pi / 2, speed = 38 / 5, boid_size = 2, color_hue = 0\<rparr>, \<lparr>boid_x = 300, boid_y = 400, wanderAngle = 0, angle = 0, speed = 0, boid_size = 2, color_hue = 0\<rparr>] = Inl (HeadingNaN 0)"
proof -
  have h: "hypot 300 400 = 500"
    by (rule hypot_eqI) simp_all
  have spot: "\<exists>b \<in> set (others 0 [\<lparr>boid_x = 300, boid_y = 300, wanderAngle = 0, angle = pi / 2, speed = 38 / 5, boid_size = 2, color_hue = 0\<rparr>, \<lparr>boid_x = 300, boid_y = 400, wanderAngle = 0, angle = 0, speed = 0, boid_size = 2, color_hue = 0\<rparr>]). sees \<lparr>boid_x = 300, boid_y = 300, wanderAngle = 0, angle = pi / 2, speed = 38 / 5, boid_size = 2, color_hue = 0\<rparr> b"
    by (simp add: others_def sees_def boid_consts)
  have v: "newVel \<lparr>width = 1000, height = 1000\<rparr> \<lparr>boid_x = 300, boid_y = 300, wanderAngle = 0, angle = pi / 2, speed = 38 / 5, boid_size = 2, color_hue = 0\<rparr> (scan_loop \<lparr>boid_x = 300, boid_y = 300, wanderAngle = 0, angle = pi / 2, speed = 38 / 5, boid_size = 2, color_hue = 0\<rparr> 0 0 [\<lparr>boid_x = 300, boid_y = 300, wanderAngle = 0, angle = pi / 2, speed = 38 / 5, boid_size = 2, color_hue = 0\<rparr>, \<lparr>boid_x = 300, boid_y = 400, wanderAngle = 0, angle = 0, speed = 0, boid_size = 2, color_hue = 0\<rparr>] scan_init) = vzero"
    by (simp add: newVel_def scan_init_def scan_boid_def softBoundForce_def seperationFactor_def
        vzero_def boid_consts h)
  show ?thesis
    using applyForces_heading_fault [of 0 "[\<lparr>boid_x = 300, boid_y = 300, wanderAngle = 0, angle = pi / 2, speed = 38 / 5, boid_size = 2, color_hue = 0\<rparr>, \<lparr>boid_x = 300, boid_y = 400, wanderAngle = 0, angle = 0, speed = 0, boid_size = 2, color_hue = 0\<rparr>]" "\<lparr>width = 1000, height = 1000\<rparr>"] spot v by simp
qed

text \<open>
  C19. The soft boundary force does not fade to zero at \<open>sightRange\<close> from the wall as
  intended: it is switched on within \<open>size + sightRange\<close> of the left wall but measures
  \<open>sightRange - x\<close> from the wall, so in the band \<open>sightRange < x < sightRange + size\<close>
  it points towards the wall (and likewise for the other three walls).
\<close>

theorem softBoundForce_pushes_outward:
  assumes "boidSightRange < boid_x b" and "boid_x b < boidSightRange + boid_size b"
    and "boid_x b \<le> width w - (boid_size b + boidSightRange)"
  shows "vx (softBoundForce w b) < 0"
proof -
  have "boidSoftBoundFactor * (boidSightRange - boid_x b) < 0"
    using assms(1) by (simp add: boid_consts mult_pos_neg)
  then show ?thesis
    using assms by (simp add: softBoundForce_def Let_def vzero_def boid_consts add.commute)
qed

theorem softBoundForce_pushes_outward_witness:
  "boidSightRange < 155 \<and> 155 < boidSightRange + 8 \<and> (155::real) \<le> 1000 - (8 + boidSightRange) \<and>
   vx (softBoundForce \<lparr>width = 1000, height = 1000\<rparr>
     \<lparr>boid_x = 155, boid_y = 500, wanderAngle = 0, angle = 0, speed = 200, boid_size = 8, color_hue = 0\<rparr>) = - 2 / 5"
proof -
  let ?b = "\<lparr>boid_x = 155, boid_y = 500, wanderAngle = 0, angle = 0, speed = 200, boid_size = 8, color_hue = 0\<rparr>"
  have "vx (softBoundForce \<lparr>width = 1000, height = 1000\<rparr> ?b) < 0"
    by (rule softBoundForce_pushes_outward) (simp_all add: boid_consts)
  moreover have "vx (softBoundForce \<lparr>width = 1000, height = 1000\<rparr> ?b) = - 2 / 5"
    by (simp add: softBoundForce_def Let_def vzero_def boid_consts)
  ultimately show ?thesis
    by (simp add: boid_consts)
qed

text \<open>
  C20. The separation factor is computed from the length of the averaged crowd
  \<^emph>\<open>position\<close> (its distance from the canvas origin), not from the distance to the focal
  boid. For a crowd centred within \<open>boidSeperationDistance\<close> of the top-left corner the
  factor is negative, so the "separation" term \<open>(own - crowd) * factor\<close> pulls the boid
  towards the crowd.
\<close>

theorem seperationFactor_negative_near_origin:
  assumes "0 < m" and "m < boidSeperationDistance"
  shows "seperationFactor m < 0"
proof -
  have a: "0 < boidSeperationFactor / m"
    using assms(1) by (simp add: boid_consts)
  have b: "1 - boidSeperationDistance / m < 0"
    using assms by (simp add: field_simps)
  show ?thesis
    unfolding seperationFactor_def using assms(1) mult_pos_neg [OF a b] by simp
qed

theorem seperationFactor_negative_near_origin_witness:
  "0 < (100::real) \<and> 100 < boidSeperationDistance \<and> seperationFactor 100 = - 4 / 5"
proof -
  have "seperationFactor 100 < 0"
    by (rule seperationFactor_negative_near_origin) (simp_all add: boid_consts)
  then show ?thesis
    by (simp add: seperationFactor_def boid_consts)
qed

text \<open>
  C25. Inside the canvas, and in a world at least \<open>2 * (size + sightRange)\<close> wide
  and high so that opposite walls never act together, each component of the soft
  boundary force is at most \<open>boidSoftBoundFactor\<close> in magnitude: the force is largest,
  \<open>boidSoftBoundFactor\<close>, on the wall itself.
\<close>

theorem softBoundForce_bounded:
  assumes wf: "boid_wf b"
    and x: "0 \<le> boid_x b" "boid_x b \<le> width w" and y: "0 \<le> boid_y b" "boid_y b \<le> height w"
    and W: "2 * (boid_size b + boidSightRange) \<le> width w" and H: "2 * (boid_size b + boidSightRange) \<le> height w"
  shows "\<bar>vx (softBoundForce w b)\<bar> \<le> boidSoftBoundFactor \<and> \<bar>vy (softBoundForce w b)\<bar> \<le> boidSoftBoundFactor"
  using assms by (simp add: softBoundForce_def Let_def vzero_def boid_consts boid_wf_def abs_le_iff field_simps
      split: if_splits)

theorem softBoundForce_bounded_witness:
  "boid_wf \<lparr>boid_x = 0, boid_y = 500, wanderAngle = 0, angle = 0, speed = 200, boid_size = 2, color_hue = 0\<rparr> \<and>
   2 * (2 + boidSightRange) \<le> 1000 \<and>
   softBoundForce \<lparr>width = 1000, height = 1000\<rparr>
     \<lparr>boid_x = 0, boid_y = 500, wanderAngle = 0, angle = 0, speed = 200, boid_size = 2, color_hue = 0\<rparr> =
     \<lparr>vx = boidSoftBoundFactor, vy = 0\<rparr> \<and>
   \<bar>vx (softBoundForce \<lparr>width = 1000, height = 1000\<rparr>
     \<lparr>boid_x = 0, boid_y = 500, wanderAngle = 0, angle = 0, speed = 200, boid_size = 2, color_hue = 0\<rparr>)\<bar>
     \<le> boidSoftBoundFactor"
proof -
  have wf: "boid_wf \<lparr>boid_x = 0, boid_y = 500, wanderAngle = 0, angle = 0, speed = 200, boid_size = 2, color_hue = 0\<rparr>"
    by (simp add: boid_wf_def boid_consts)
  have "\<bar>vx (softBoundForce \<lparr>width = 1000, height = 1000\<rparr>
     \<lparr>boid_x = 0, boid_y = 500, wanderAngle = 0, angle = 0, speed = 200, boid_size = 2, color_hue = 0\<rparr>)\<bar>
     \<le> boidSoftBoundFactor"
    using softBoundForce_bounded [OF wf] by (simp add: boid_consts)
  then show ?thesis
    using wf by (simp add: softBoundForce_def Let_def vzero_def boid_consts)
qed

end
