(* ===== verification/Collisions.thy ===== *)
theory Collisions
  imports Boid_Data
begin

text \<open>
  The collision resolver, \<open>applyCollisions(index)\<close> of script.js (lines 168--192): the
  focal boid \<open>boids[index]\<close> is separated from every later boid \<open>boids[i]\<close>,
  \<open>i > index\<close>, that it overlaps (each moved back by half the overlap along the line
  joining them), and is then clamped into \<open>[size, width - size] \<times> [size, height - size]\<close>.
  The boid array is a list updated in place by index; a later pair sees the focal boid
  as the earlier pairs left it, as the object reference \<open>boid0\<close> does.
  Proved here: a resolved pair ends exactly touching, moved symmetrically; the loop keeps
  the sum of the positions (the centroid) and the identity fields; it writes only the
  focal boid and the later ones; the clamp holds for the focal boid; two coincident
  overlapping boids are the \<open>NaN\<close> fault.
\<close>

subsection \<open>Operations\<close>

text \<open>
  One iteration of the loop of lines 171--186 on the pair \<open>(boid0, boid1)\<close>. \<open>None\<close>
  is the \<open>NaN\<close> the code computes as \<open>overlap * dx / distance\<close> with \<open>distance = 0\<close>.
\<close>

definition collide_pair :: "boid \<Rightarrow> boid \<Rightarrow> (boid \<times> boid) option" where
  "collide_pair boid0 boid1 =
     (let dx = boid_x boid1 - boid_x boid0;
          dy = boid_y boid1 - boid_y boid0;
          distance = hypot dx dy
      in if distance < boid_size boid0 + boid_size boid1 then
           (if distance = 0 then None
            else
              (let overlap = (boid_size boid0 + boid_size boid1 - distance) / 2;
                   ox = overlap * dx / distance;
                   oy = overlap * dy / distance
               in Some (boid0\<lparr>boid_x := boid_x boid0 - ox, boid_y := boid_y boid0 - oy\<rparr>,
                        boid1\<lparr>boid_x := boid_x boid1 + ox, boid_y := boid_y boid1 + oy\<rparr>)))
         else Some (boid0, boid1))"

text \<open>The loop \<open>for (let i = index + 1; i < boids.length; i++)\<close>, over its list of indices.\<close>

fun collide_loop :: "nat \<Rightarrow> nat list \<Rightarrow> boid list \<Rightarrow> fault + boid list" where
  "collide_loop index [] bs = Inr bs"
| "collide_loop index (i # ixs) bs =
     (case collide_pair (bs ! index) (bs ! i) of
        None \<Rightarrow> Inl (CollisionNaN index i)
      | Some (b0, b1) \<Rightarrow> collide_loop index ixs (bs[index := b0, i := b1]))"

text \<open>The four hard-boundary \<open>if\<close>s of lines 188--191, in order.\<close>

definition clamp_boid :: "world \<Rightarrow> boid \<Rightarrow> boid" where
  "clamp_boid w b0 =
     (let b1 = (if boid_x b0 < boid_size b0 then b0\<lparr>boid_x := boid_size b0\<rparr> else b0);
          b2 = (if boid_x b1 > width w - boid_size b1
                then b1\<lparr>boid_x := width w - boid_size b1\<rparr> else b1);
          b3 = (if boid_y b2 < boid_size b2 then b2\<lparr>boid_y := boid_size b2\<rparr> else b2);
          b4 = (if boid_y b3 > height w - boid_size b3
                then b3\<lparr>boid_y := height w - boid_size b3\<rparr> else b3)
      in b4)"

definition applyCollisions :: "world \<Rightarrow> nat \<Rightarrow> boid list \<Rightarrow> fault + boid list" where
  "applyCollisions w index bs =
     (case collide_loop index [Suc index..<length bs] bs of
        Inl e \<Rightarrow> Inl e
      | Inr bs' \<Rightarrow> Inr (bs'[index := clamp_boid w (bs' ! index)]))"

text \<open>The resolver moves boids: a boid \<open>b'\<close> that differs from \<open>b\<close> at most in its position.\<close>

definition position_only :: "boid \<Rightarrow> boid \<Rightarrow> bool" where
  "position_only b b' \<longleftrightarrow> b'\<lparr>boid_x := boid_x b, boid_y := boid_y b\<rparr> = b"

text \<open>The indices a run of the loop may visit: other boids of the array.\<close>

definition in_range :: "nat \<Rightarrow> nat list \<Rightarrow> boid list \<Rightarrow> bool" where
  "in_range index ixs bs \<longleftrightarrow> index < length bs \<and> (\<forall>i \<in> set ixs. i \<noteq> index \<and> i < length bs)"

subsection \<open>One pair\<close>

lemma collide_pair_None_iff:
  "collide_pair b0 b1 = None \<longleftrightarrow>
     boid_x b1 = boid_x b0 \<and> boid_y b1 = boid_y b0 \<and> 0 < boid_size b0 + boid_size b1"
  by (auto simp: collide_pair_def Let_def)

lemma collide_pair_apart:
  "\<not> hypot (boid_x b1 - boid_x b0) (boid_y b1 - boid_y b0) < boid_size b0 + boid_size b1 \<Longrightarrow>
     collide_pair b0 b1 = Some (b0, b1)"
  by (simp add: collide_pair_def Let_def)

lemma position_only_refl [simp]: "position_only b b"
  by (simp add: position_only_def)

lemma position_only_trans:
  "position_only a b \<Longrightarrow> position_only b c \<Longrightarrow> position_only a c"
  by (cases a, cases b, cases c) (simp add: position_only_def)

lemma position_only_fields:
  "position_only b b' \<Longrightarrow>
     same_identity b b' \<and> angle b' = angle b \<and> wanderAngle b' = wanderAngle b"
  by (cases b, cases b') (simp add: position_only_def same_identity_def)

lemma position_only_update [simp]:
  "position_only b (b\<lparr>boid_x := x, boid_y := y\<rparr>)" "position_only b (b\<lparr>boid_x := x\<rparr>)"
  "position_only b (b\<lparr>boid_y := y\<rparr>)"
  by (simp_all add: position_only_def)

lemma collide_pair_position_only:
  "collide_pair b0 b1 = Some (b0', b1') \<Longrightarrow> position_only b0 b0' \<and> position_only b1 b1'"
  by (auto simp: collide_pair_def Let_def split: if_splits)

lemma collide_pair_sum:
  "collide_pair b0 b1 = Some (b0', b1') \<Longrightarrow>
     boid_x b0' + boid_x b1' = boid_x b0 + boid_x b1 \<and>
     boid_y b0' + boid_y b1' = boid_y b0 + boid_y b1"
  by (auto simp: collide_pair_def Let_def split: if_splits)

text \<open>The displacement in closed form: each boid moves by \<open>(ox, oy)\<close> along the joining line.\<close>

lemma collide_pair_overlap:
  assumes d: "d = hypot (boid_x b1 - boid_x b0) (boid_y b1 - boid_y b0)"
    and lt: "d < boid_size b0 + boid_size b1" and pos: "0 < d"
  shows "collide_pair b0 b1 =
     Some (b0\<lparr>boid_x := boid_x b0 - (boid_size b0 + boid_size b1 - d) / 2 * (boid_x b1 - boid_x b0) / d,
              boid_y := boid_y b0 - (boid_size b0 + boid_size b1 - d) / 2 * (boid_y b1 - boid_y b0) / d\<rparr>,
           b1\<lparr>boid_x := boid_x b1 + (boid_size b0 + boid_size b1 - d) / 2 * (boid_x b1 - boid_x b0) / d,
              boid_y := boid_y b1 + (boid_size b0 + boid_size b1 - d) / 2 * (boid_y b1 - boid_y b0) / d\<rparr>)"
  using lt pos by (simp add: collide_pair_def Let_def d [symmetric])

lemma separated_offsets:
  fixes dx dy d s :: real
  assumes d: "d = hypot dx dy" and pos: "0 < d" and s: "0 < s"
  shows "hypot (dx + (s - d) / 2 * dx / d + (s - d) / 2 * dx / d)
               (dy + (s - d) / 2 * dy / d + (s - d) / 2 * dy / d) = s"
proof -
  have ex: "dx + (s - d) / 2 * dx / d + (s - d) / 2 * dx / d = (s / d) * dx"
    and ey: "dy + (s - d) / 2 * dy / d + (s - d) / 2 * dy / d = (s / d) * dy"
    using pos by (simp_all add: field_simps)
  have "0 < s / d"
    using pos s by simp
  then have "hypot ((s / d) * dx) ((s / d) * dy) = (s / d) * hypot dx dy"
    by (rule hypot_scale)
  also have "\<dots> = s"
    using pos d by (simp del: hypot_eq_0_iff)
  finally show ?thesis
    by (simp only: ex ey)
qed

subsection \<open>The loop\<close>

lemma collide_loop_length:
  "collide_loop index ixs bs = Inr bs' \<Longrightarrow> length bs' = length bs"
  by (induction index ixs bs rule: collide_loop.induct)
     (auto split: option.splits prod.splits)

text \<open>A loop in which no visited boid overlaps the focal one writes nothing.\<close>

lemma collide_loop_apart:
  "\<forall>i \<in> set ixs. \<not> hypot (boid_x (bs ! i) - boid_x (bs ! index)) (boid_y (bs ! i) - boid_y (bs ! index))
                      < boid_size (bs ! index) + boid_size (bs ! i) \<Longrightarrow>
     collide_loop index ixs bs = Inr bs"
  by (induction ixs) (simp_all add: collide_pair_apart)

text \<open>Indices the loop does not visit are left alone.\<close>

lemma collide_loop_other:
  "collide_loop index ixs bs = Inr bs' \<Longrightarrow> j \<noteq> index \<Longrightarrow> j \<notin> set ixs \<Longrightarrow> bs' ! j = bs ! j"
  by (induction index ixs bs rule: collide_loop.induct)
     (auto split: option.splits prod.splits)

lemma in_range_Cons:
  "in_range index (i # ixs) bs \<Longrightarrow> in_range index ixs (bs[index := b0, i := b1])"
  by (simp add: in_range_def)

lemma in_range_upt: "index < length bs \<Longrightarrow> in_range index [Suc index..<length bs] bs"
  by (simp add: in_range_def)

lemma collide_loop_position_only:
  "collide_loop index ixs bs = Inr bs' \<Longrightarrow> in_range index ixs bs \<Longrightarrow>
     j < length bs \<Longrightarrow> position_only (bs ! j) (bs' ! j)"
proof (induction index ixs bs rule: collide_loop.induct)
  case (1 index bs)
  then show ?case by simp
next
  case (2 index i ixs bs)
  obtain b0 b1 where cp: "collide_pair (bs ! index) (bs ! i) = Some (b0, b1)"
    and rec: "collide_loop index ixs (bs[index := b0, i := b1]) = Inr bs'"
    using "2.prems"(1) by (auto split: option.splits)
  have step: "position_only (bs ! j) (bs[index := b0, i := b1] ! j)"
    using collide_pair_position_only [OF cp] "2.prems"(2,3)
    by (auto simp: in_range_def nth_list_update)
  have "position_only (bs[index := b0, i := b1] ! j) (bs' ! j)"
    using "2.IH" [OF cp refl rec in_range_Cons [OF "2.prems"(2)]] "2.prems"(3)
    by simp
  with step show ?case by (rule position_only_trans)
qed

text \<open>Each resolved pair moves its two boids by opposite amounts, so the sum is kept.\<close>

lemma collide_loop_sum:
  "collide_loop index ixs bs = Inr bs' \<Longrightarrow> in_range index ixs bs \<Longrightarrow>
     sum_list (map boid_x bs') = sum_list (map boid_x bs) \<and>
     sum_list (map boid_y bs') = sum_list (map boid_y bs)"
proof (induction index ixs bs rule: collide_loop.induct)
  case (1 index bs)
  then show ?case by simp
next
  case (2 index i ixs bs)
  obtain b0 b1 where cp: "collide_pair (bs ! index) (bs ! i) = Some (b0, b1)"
    and rec: "collide_loop index ixs (bs[index := b0, i := b1]) = Inr bs'"
    using "2.prems"(1) by (auto split: option.splits)
  have r: "index < length bs" "i < length bs" "i \<noteq> index"
    using "2.prems"(2) by (auto simp: in_range_def)
  have "sum_list (map boid_x (bs[index := b0, i := b1])) = sum_list (map boid_x bs)"
    and "sum_list (map boid_y (bs[index := b0, i := b1])) = sum_list (map boid_y bs)"
    using collide_pair_sum [OF cp] r by (simp_all add: map_update sum_list_update_real)
  then show ?case
    using "2.IH" [OF cp refl rec in_range_Cons [OF "2.prems"(2)]] by simp
qed

subsection \<open>The clamp\<close>

lemma clamp_boid_position_only: "position_only b (clamp_boid w b)"
  by (simp add: clamp_boid_def Let_def)

lemma clamp_boid_bounds:
  assumes "2 * boid_size b \<le> width w" and "2 * boid_size b \<le> height w"
  shows "boid_size b \<le> boid_x (clamp_boid w b) \<and> boid_x (clamp_boid w b) \<le> width w - boid_size b \<and>
         boid_size b \<le> boid_y (clamp_boid w b) \<and> boid_y (clamp_boid w b) \<le> height w - boid_size b"
  using assms by (simp add: clamp_boid_def Let_def)

subsection \<open>applyCollisions\<close>

lemma applyCollisions_Inr:
  assumes "applyCollisions w index bs = Inr bs'"
  obtains bs1 where "collide_loop index [Suc index..<length bs] bs = Inr bs1"
    and "bs' = bs1[index := clamp_boid w (bs1 ! index)]"
  using assms by (auto simp: applyCollisions_def split: sum.splits)

text \<open>What a successful call leaves alone: the length, every earlier boid, every identity.\<close>

lemma applyCollisions_frame:
  assumes ok: "applyCollisions w index bs = Inr bs'" and idx: "index < length bs"
  shows "length bs' = length bs \<and> (\<forall>j < index. bs' ! j = bs ! j) \<and>
         (\<forall>j < length bs. position_only (bs ! j) (bs' ! j))"
proof -
  obtain bs1 where loop: "collide_loop index [Suc index..<length bs] bs = Inr bs1"
    and bs': "bs' = bs1[index := clamp_boid w (bs1 ! index)]"
    using ok by (rule applyCollisions_Inr)
  have len: "length bs1 = length bs"
    using loop by (rule collide_loop_length)
  have early: "bs1 ! j = bs ! j" if "j < index" for j
    using collide_loop_other [OF loop] that by simp
  have moved: "position_only (bs ! j) (bs1 ! j)" if "j < length bs" for j
    using collide_loop_position_only [OF loop in_range_upt [OF idx] that] .
  have "position_only (bs ! j) (bs' ! j)" if j: "j < length bs" for j
  proof (cases "j = index")
    case True
    have "position_only (bs ! index) (clamp_boid w (bs1 ! index))"
      using position_only_trans [OF moved [OF idx] clamp_boid_position_only] .
    then show ?thesis
      using True bs' len idx by simp
  next
    case False
    then show ?thesis
      using moved [OF j] bs' by simp
  qed
  then show ?thesis
    using len early bs' by simp
qed

text \<open>The focal boid after the call: the clamp of a boid with its identity fields.\<close>

lemma applyCollisions_focal:
  assumes ok: "applyCollisions w index bs = Inr bs'" and idx: "index < length bs"
  shows "\<exists>c. position_only (bs ! index) c \<and> bs' ! index = clamp_boid w c"
proof -
  obtain bs1 where loop: "collide_loop index [Suc index..<length bs] bs = Inr bs1"
    and bs': "bs' = bs1[index := clamp_boid w (bs1 ! index)]"
    using ok by (rule applyCollisions_Inr)
  have "length bs1 = length bs"
    using loop by (rule collide_loop_length)
  then have "bs' ! index = clamp_boid w (bs1 ! index)"
    using bs' idx by simp
  moreover have "position_only (bs ! index) (bs1 ! index)"
    using collide_loop_position_only [OF loop in_range_upt [OF idx] idx] .
  ultimately show ?thesis by blast
qed

section \<open>Properties of the collision resolver\<close>

text \<open>
  C1. Two boids that overlap at a positive distance are separated so that they end
  exactly touching (their distance becomes the sum of their radii), each moved by the
  same vector in opposite directions, of length half the overlap.
\<close>

theorem collide_pair_resolves:
  assumes pos: "0 < hypot (boid_x b1 - boid_x b0) (boid_y b1 - boid_y b0)"
    and lt: "hypot (boid_x b1 - boid_x b0) (boid_y b1 - boid_y b0) < boid_size b0 + boid_size b1"
  shows "\<exists>b0' b1'. collide_pair b0 b1 = Some (b0', b1') \<and>
     hypot (boid_x b1' - boid_x b0') (boid_y b1' - boid_y b0') = boid_size b0 + boid_size b1 \<and>
     boid_x b0 - boid_x b0' = boid_x b1' - boid_x b1 \<and>
     boid_y b0 - boid_y b0' = boid_y b1' - boid_y b1 \<and>
     hypot (boid_x b1' - boid_x b1) (boid_y b1' - boid_y b1) =
       (boid_size b0 + boid_size b1 - hypot (boid_x b1 - boid_x b0) (boid_y b1 - boid_y b0)) / 2"
proof -
  define dx where "dx = boid_x b1 - boid_x b0"
  define dy where "dy = boid_y b1 - boid_y b0"
  define d where "d = hypot dx dy"
  define s where "s = boid_size b0 + boid_size b1"
  have d0: "0 < d" and ds: "d < s"
    using pos lt by (simp_all add: d_def dx_def dy_def s_def)
  have ov: "0 < (s - d) / 2 / d"
    using d0 ds by simp
  have touch: "hypot (dx + (s - d) / 2 * dx / d + (s - d) / 2 * dx / d)
                     (dy + (s - d) / 2 * dy / d + (s - d) / 2 * dy / d) = s"
    using separated_offsets [OF d_def d0] d0 ds by simp
  have ex: "(s - d) / 2 * dx / d = (s - d) / 2 / d * dx"
    and ey: "(s - d) / 2 * dy / d = (s - d) / 2 / d * dy"
    by (simp_all add: field_simps)
  have "hypot ((s - d) / 2 / d * dx) ((s - d) / 2 / d * dy) = (s - d) / 2 / d * d"
    using hypot_scale [OF ov] by (simp add: d_def)
  also have "\<dots> = (s - d) / 2"
    using d0 by simp
  finally have move: "hypot ((s - d) / 2 * dx / d) ((s - d) / 2 * dy / d) = (s - d) / 2"
    by (simp only: ex ey)
  have "collide_pair b0 b1 =
     Some (b0\<lparr>boid_x := boid_x b0 - (s - d) / 2 * dx / d, boid_y := boid_y b0 - (s - d) / 2 * dy / d\<rparr>,
           b1\<lparr>boid_x := boid_x b1 + (s - d) / 2 * dx / d, boid_y := boid_y b1 + (s - d) / 2 * dy / d\<rparr>)"
    using collide_pair_overlap [OF _ lt pos] by (simp add: d_def dx_def dy_def s_def)
  moreover have "boid_x b1 + (s - d) / 2 * dx / d - (boid_x b0 - (s - d) / 2 * dx / d) =
                 dx + (s - d) / 2 * dx / d + (s - d) / 2 * dx / d"
    and "boid_y b1 + (s - d) / 2 * dy / d - (boid_y b0 - (s - d) / 2 * dy / d) =
                 dy + (s - d) / 2 * dy / d + (s - d) / 2 * dy / d"
    by (simp_all add: dx_def dy_def)
  ultimately show ?thesis
    using touch move by (simp add: d_def dx_def dy_def s_def)
qed

theorem collide_pair_resolves_witness:
  "0 < hypot (6 - 0) (0 - 0) \<and> hypot (6 - 0) (0 - 0) < (5 + 5 :: real) \<and>
   collide_pair
     \<lparr>boid_x = 0, boid_y = 0, wanderAngle = 0, angle = 0, speed = 200, boid_size = 5, color_hue = 0\<rparr>
     \<lparr>boid_x = 6, boid_y = 0, wanderAngle = 0, angle = 0, speed = 200, boid_size = 5, color_hue = 0\<rparr> =
   Some (\<lparr>boid_x = -2, boid_y = 0, wanderAngle = 0, angle = 0, speed = 200, boid_size = 5, color_hue = 0\<rparr>,
         \<lparr>boid_x = 8, boid_y = 0, wanderAngle = 0, angle = 0, speed = 200, boid_size = 5, color_hue = 0\<rparr>) \<and>
   hypot (8 - (-2)) (0 - 0) = (10 :: real)"
  using collide_pair_resolves
    [of "\<lparr>boid_x = 0, boid_y = 0, wanderAngle = 0, angle = 0, speed = 200, boid_size = 5, color_hue = 0\<rparr>"
        "\<lparr>boid_x = 6, boid_y = 0, wanderAngle = 0, angle = 0, speed = 200, boid_size = 5, color_hue = 0\<rparr>"]
  by (simp add: collide_pair_def Let_def)

text \<open>
  C12. The separation loop of \<open>applyCollisions\<close> moves boids only in opposite pairs:
  when it succeeds, the sums of all x and of all y coordinates (the flock's centroid) are
  what they were, and the array keeps its length.
\<close>

theorem collide_loop_keeps_centroid:
  assumes "index < length bs"
    and "collide_loop index [Suc index..<length bs] bs = Inr bs'"
  shows "length bs' = length bs \<and>
         sum_list (map boid_x bs') = sum_list (map boid_x bs) \<and>
         sum_list (map boid_y bs') = sum_list (map boid_y bs)"
  using collide_loop_sum [OF assms(2) in_range_upt [OF assms(1)]]
    collide_loop_length [OF assms(2)] by simp

theorem collide_loop_keeps_centroid_witness:
  "0 < length [\<lparr>boid_x = 0, boid_y = 0, wanderAngle = 0, angle = 0, speed = 200, boid_size = 5, color_hue = 0\<rparr>,
               \<lparr>boid_x = 6, boid_y = 0, wanderAngle = 0, angle = 0, speed = 200, boid_size = 5, color_hue = 0\<rparr>] \<and>
   collide_loop 0 [Suc 0..<2]
     [\<lparr>boid_x = 0, boid_y = 0, wanderAngle = 0, angle = 0, speed = 200, boid_size = 5, color_hue = 0\<rparr>,
      \<lparr>boid_x = 6, boid_y = 0, wanderAngle = 0, angle = 0, speed = 200, boid_size = 5, color_hue = 0\<rparr>] =
   Inr [\<lparr>boid_x = -2, boid_y = 0, wanderAngle = 0, angle = 0, speed = 200, boid_size = 5, color_hue = 0\<rparr>,
        \<lparr>boid_x = 8, boid_y = 0, wanderAngle = 0, angle = 0, speed = 200, boid_size = 5, color_hue = 0\<rparr>] \<and>
   sum_list (map boid_x
     [\<lparr>boid_x = -2, boid_y = 0, wanderAngle = 0, angle = 0, speed = 200, boid_size = 5, color_hue = 0\<rparr>,
      \<lparr>boid_x = 8, boid_y = 0, wanderAngle = 0, angle = 0, speed = 200, boid_size = 5, color_hue = 0\<rparr>]) = 6"
proof -
  let ?bs = "[\<lparr>boid_x = 0, boid_y = 0, wanderAngle = 0, angle = 0, speed = 200, boid_size = 5, color_hue = 0\<rparr>,
              \<lparr>boid_x = 6, boid_y = 0, wanderAngle = 0, angle = 0, speed = 200, boid_size = 5, color_hue = 0\<rparr>]"
  let ?bs' = "[\<lparr>boid_x = -2, boid_y = 0, wanderAngle = 0, angle = 0, speed = 200, boid_size = 5, color_hue = 0\<rparr>,
               \<lparr>boid_x = 8, boid_y = 0, wanderAngle = 0, angle = 0, speed = 200, boid_size = 5, color_hue = 0\<rparr>]"
  have run: "collide_loop 0 [Suc 0..<length ?bs] ?bs = Inr ?bs'"
    by (simp add: collide_pair_def Let_def upt_rec)
  have "sum_list (map boid_x ?bs') = sum_list (map boid_x ?bs)"
    using collide_loop_keeps_centroid [of 0 ?bs ?bs'] run by simp
  then show ?thesis
    using run by (simp add: upt_rec)
qed

text \<open>
  C4. The hard boundary: after \<open>applyCollisions(index)\<close> the focal boid lies in
  \<open>[size, width - size] \<times> [size, height - size]\<close>, whenever the world is at least
  one diameter wide and high; its size is the one it had.
\<close>

theorem applyCollisions_clamps:
  assumes ok: "applyCollisions w index bs = Inr bs'" and idx: "index < length bs"
    and wide: "2 * boid_size (bs ! index) \<le> width w"
    and high: "2 * boid_size (bs ! index) \<le> height w"
  shows "boid_size (bs' ! index) = boid_size (bs ! index) \<and>
         boid_size (bs' ! index) \<le> boid_x (bs' ! index) \<and>
         boid_x (bs' ! index) \<le> width w - boid_size (bs' ! index) \<and>
         boid_size (bs' ! index) \<le> boid_y (bs' ! index) \<and>
         boid_y (bs' ! index) \<le> height w - boid_size (bs' ! index)"
proof -
  obtain c where c: "position_only (bs ! index) c" and at: "bs' ! index = clamp_boid w c"
    using applyCollisions_focal [OF ok idx] by blast
  have pc: "position_only (bs ! index) (clamp_boid w c)"
    using position_only_trans [OF c clamp_boid_position_only] .
  have "boid_size (bs' ! index) = boid_size (bs ! index)"
    using position_only_fields [OF pc] by (simp add: at same_identity_def)
  moreover have "boid_size c = boid_size (bs ! index)"
    using position_only_fields [OF c] by (simp add: same_identity_def)
  ultimately show ?thesis
    using clamp_boid_bounds [of c w] wide high by (simp add: at)
qed

theorem applyCollisions_clamps_witness:
  "applyCollisions \<lparr>width = 100, height = 100\<rparr> 0
     [\<lparr>boid_x = -3, boid_y = 120, wanderAngle = 0, angle = 0, speed = 200, boid_size = 5, color_hue = 0\<rparr>] =
   Inr [\<lparr>boid_x = 5, boid_y = 95, wanderAngle = 0, angle = 0, speed = 200, boid_size = 5, color_hue = 0\<rparr>] \<and>
   (0::nat) < 1 \<and> 2 * 5 \<le> (100::real) \<and>
   (5::real) \<le> 5 \<and> (5::real) \<le> 100 - 5 \<and> (5::real) \<le> 95 \<and> (95::real) \<le> 100 - 5"
proof -
  let ?w = "\<lparr>width = 100, height = 100\<rparr>"
  let ?bs = "[\<lparr>boid_x = -3, boid_y = 120, wanderAngle = 0, angle = 0, speed = 200, boid_size = 5, color_hue = 0\<rparr>]"
  let ?bs' = "[\<lparr>boid_x = 5, boid_y = 95, wanderAngle = 0, angle = 0, speed = 200, boid_size = 5, color_hue = 0\<rparr>]"
  have run: "applyCollisions ?w 0 ?bs = Inr ?bs'"
    by (simp add: applyCollisions_def clamp_boid_def Let_def)
  have "boid_size (?bs' ! 0) \<le> boid_x (?bs' ! 0) \<and> boid_y (?bs' ! 0) \<le> height ?w - boid_size (?bs' ! 0)"
    using applyCollisions_clamps [OF run] by simp
  then show ?thesis
    using run by simp
qed

text \<open>
  C17. The \<open>NaN\<close> path of the resolver: when the boid after the focal one sits at the
  same point (and their radii are positive, as every boid's are), the first iteration
  divides \<open>0 / 0\<close>; the model reports the fault naming the pair.
\<close>

theorem applyCollisions_coincident_fault:
  assumes "Suc index < length bs"
    and "boid_x (bs ! Suc index) = boid_x (bs ! index)"
    and "boid_y (bs ! Suc index) = boid_y (bs ! index)"
    and "0 < boid_size (bs ! index) + boid_size (bs ! Suc index)"
  shows "applyCollisions w index bs = Inl (CollisionNaN index (Suc index))"
proof -
  have "[Suc index..<length bs] = Suc index # [Suc (Suc index)..<length bs]"
    using assms(1) by (simp add: upt_rec)
  moreover have "collide_pair (bs ! index) (bs ! Suc index) = None"
    using assms(2-4) by (simp add: collide_pair_None_iff)
  ultimately show ?thesis
    by (simp add: applyCollisions_def)
qed

theorem applyCollisions_coincident_fault_witness:
  "Suc 0 < length [\<lparr>boid_x = 7, boid_y = 7, wanderAngle = 0, angle = 0, speed = 200, boid_size = 3, color_hue = 0\<rparr>,
                   \<lparr>boid_x = 7, boid_y = 7, wanderAngle = 1, angle = 2, speed = 210, boid_size = 4, color_hue = 9\<rparr>] \<and>
   applyCollisions \<lparr>width = 100, height = 100\<rparr> 0
     [\<lparr>boid_x = 7, boid_y = 7, wanderAngle = 0, angle = 0, speed = 200, boid_size = 3, color_hue = 0\<rparr>,
      \<lparr>boid_x = 7, boid_y = 7, wanderAngle = 1, angle = 2, speed = 210, boid_size = 4, color_hue = 9\<rparr>] =
   Inl (CollisionNaN 0 1)"
  using applyCollisions_coincident_fault
    [of 0 "[\<lparr>boid_x = 7, boid_y = 7, wanderAngle = 0, angle = 0, speed = 200, boid_size = 3, color_hue = 0\<rparr>,
            \<lparr>boid_x = 7, boid_y = 7, wanderAngle = 1, angle = 2, speed = 210, boid_size = 4, color_hue = 9\<rparr>]"
        "\<lparr>width = 100, height = 100\<rparr>"]
  by simp

end
