(* ===== verification/Population.thy ===== *)
theory Population
  imports Boid_Data
begin

text \<open>
  The population controller at the top of \<open>loop()\<close> (lines 47--60): the frame time is
  \<open>min(time - lastTime, 20)\<close> milliseconds, the frame rate its reciprocal in seconds,
  one boid is appended when the rate is above 60 and the flock below \<open>maxBoidAmount\<close>,
  and the last boid is popped when the rate is below 50. \<open>1 / 0\<close> is \<open>Infinity\<close> in
  JavaScript (and \<open>0\<close> in HOL), so the rate is a value of its own type with an
  infinite case. Proved here: the flock stays within \<open>[0, maxBoidAmount]\<close> and changes
  by at most one boid; it grows by one at a high rate; popping an empty flock is
  harmless; and, since the frame time is clamped to at most 20 ms, the rate is never
  below 50 on a clock that does not run backwards: the shrink branch is dead code.
\<close>

section \<open>Definitions\<close>

datatype fps = Fps real | FpsInfinity

text \<open>\<open>deltaTime = Math.min(time - lastTime, 20) / 1000\<close> (lines 48--49).\<close>

definition deltaTime :: "real \<Rightarrow> real \<Rightarrow> real" where
  "deltaTime time lastTime = min (time - lastTime) 20 / 1000"

text \<open>\<open>fps = 1 / deltaTime\<close> (line 52), with IEEE's \<open>1 / 0 = Infinity\<close>.\<close>

definition fps_of :: "real \<Rightarrow> fps" where
  "fps_of dt = (if dt = 0 then FpsInfinity else Fps (1 / dt))"

fun fps_gt :: "fps \<Rightarrow> real \<Rightarrow> bool" where
  "fps_gt (Fps f) c \<longleftrightarrow> c < f"
| "fps_gt FpsInfinity c \<longleftrightarrow> True"

fun fps_lt :: "fps \<Rightarrow> real \<Rightarrow> bool" where
  "fps_lt (Fps f) c \<longleftrightarrow> f < c"
| "fps_lt FpsInfinity c \<longleftrightarrow> False"

text \<open>
  Lines 54--60. \<open>boids.pop()\<close> on an empty array returns \<open>undefined\<close> and leaves it
  empty, which is \<open>butlast []\<close>.
\<close>

definition populationControl ::
  "world \<Rightarrow> real \<Rightarrow> boid list \<Rightarrow> real stream \<Rightarrow> boid list \<times> real stream" where
  "populationControl w dt bs rng =
     (let fps = fps_of dt;
          (bs1, rng1) = (if fps_gt fps 60 \<and> length bs < maxBoidAmount
                         then (let (b, rng') = newBoid w rng in (bs @ [b], rng'))
                         else (bs, rng));
          bs2 = (if fps_lt fps 50 then butlast bs1 else bs1)
      in (bs2, rng1))"

section \<open>Lemmas\<close>

lemma deltaTime_bounds:
  "lastTime \<le> time \<Longrightarrow> 0 \<le> deltaTime time lastTime \<and> deltaTime time lastTime \<le> 1 / 50"
  by (simp add: deltaTime_def)

lemma fps_gt_lt_exclusive: "fps_gt f 60 \<Longrightarrow> \<not> fps_lt f 50"
  by (cases f) auto

text \<open>A frame time of at most 20 ms means a rate of at least 50 frames per second.\<close>

lemma not_fps_lt_50:
  assumes "0 \<le> dt" and "dt \<le> 1 / 50"
  shows "\<not> fps_lt (fps_of dt) 50"
proof (cases "dt = 0")
  case True
  then show ?thesis by (simp add: fps_of_def)
next
  case False
  with assms(1) have "0 < dt" by simp
  with assms(2) have "50 \<le> 1 / dt"
    by (simp add: field_simps)
  with False show ?thesis
    by (simp add: fps_of_def)
qed

lemma fps_gt_60_iff:
  "0 \<le> dt \<Longrightarrow> fps_gt (fps_of dt) 60 \<longleftrightarrow> dt < 1 / 60"
  by (cases "dt = 0") (auto simp: fps_of_def field_simps)

lemma populationControl_cases:
  "populationControl w dt bs rng =
     (if fps_gt (fps_of dt) 60 \<and> length bs < maxBoidAmount
      then (bs @ [fst (newBoid w rng)], snd (newBoid w rng))
      else if fps_lt (fps_of dt) 50 then (butlast bs, rng) else (bs, rng))"
  by (auto simp: populationControl_def Let_def split: prod.splits dest: fps_gt_lt_exclusive)

lemma populationControl_prefix:
  "populationControl w dt bs rng = (bs', rng') \<Longrightarrow> \<not> fps_lt (fps_of dt) 50 \<Longrightarrow>
     take (length bs) bs' = bs"
  by (auto simp: populationControl_cases split: if_splits)

lemma populationControl_wf:
  assumes "populationControl w dt bs rng = (bs', rng')"
    and "boids_wf bs" and "random_ok rng"
  shows "boids_wf bs' \<and> random_ok rng'"
proof -
  obtain b r where nb: "newBoid w rng = (b, r)"
    by (cases "newBoid w rng")
  have "boid_wf b \<and> random_ok r"
    using newBoid_wf [OF assms(3) nb] .
  then show ?thesis
    using assms(1,2,3) nb
    by (auto simp: populationControl_cases boids_wf_def split: if_splits dest: in_set_butlastD)
qed

text \<open>
  The controller draws \<open>Math.random()\<close> only through \<open>newBoid\<close>: seven values for the
  boid it adds, none otherwise (the shrink branch draws nothing).
\<close>

lemma populationControl_rng:
  assumes "populationControl w dt bs rng = (bs', rng')" and "\<not> fps_lt (fps_of dt) 50"
  shows "rng' = sdrop (7 * (length bs' - length bs)) rng"
proof -
  have "snd (newBoid w rng) = sdrop 7 rng"
    using newBoid_fields [of w rng "fst (newBoid w rng)" "snd (newBoid w rng)"]
    by (simp add: eval_nat_numeral)
  then show ?thesis
    using assms by (auto simp: populationControl_cases split: if_splits)
qed

section \<open>Properties of the population controller\<close>

text \<open>
  C9. One controller step keeps the flock within \<open>maxBoidAmount\<close> and changes its size
  by at most one boid (never a push and a pop in the same frame).
\<close>

theorem populationControl_bounded:
  assumes "length bs \<le> maxBoidAmount" and "populationControl w dt bs rng = (bs', rng')"
  shows "length bs' \<le> maxBoidAmount \<and> length bs' \<le> length bs + 1 \<and> length bs \<le> length bs' + 1"
  using assms by (auto simp: populationControl_cases split: if_splits)

theorem populationControl_bounded_witness:
  "length ([] :: boid list) \<le> maxBoidAmount \<and>
   populationControl \<lparr>width = 100, height = 100\<rparr> (1 / 100) [] (sconst (1 / 2)) = ([\<lparr>boid_x = 50, boid_y = 50, wanderAngle = pi, angle = pi, speed = 210, boid_size = 6, color_hue = 180\<rparr>], sconst (1 / 2)) \<and>
   length [\<lparr>boid_x = 50, boid_y = 50, wanderAngle = pi, angle = pi, speed = 210, boid_size = 6, color_hue = 180\<rparr>] \<le> maxBoidAmount"
proof -
  have run: "populationControl \<lparr>width = 100, height = 100\<rparr> (1 / 100) [] (sconst (1 / 2)) = ([\<lparr>boid_x = 50, boid_y = 50, wanderAngle = pi, angle = pi, speed = 210, boid_size = 6, color_hue = 180\<rparr>], sconst (1 / 2))"
    by (simp add: populationControl_cases fps_of_def newBoid_def random_def boid_consts)
  have "length [\<lparr>boid_x = 50, boid_y = 50, wanderAngle = pi, angle = pi, speed = 210, boid_size = 6, color_hue = 180\<rparr>] \<le> maxBoidAmount"
    using populationControl_bounded [OF _ run] by (simp add: boid_consts)
  then show ?thesis
    using run by (simp add: boid_consts)
qed

text \<open>
  C7. The shrink branch is unreachable: with the clock not running backwards the frame
  time is at most 20 ms, so the rate is at least 50 (or \<open>Infinity\<close>) and never below
  the low-water mark. The controller only ever appends: the old flock is a prefix of the
  new one.
\<close>

theorem populationControl_never_shrinks:
  assumes "lastTime \<le> time"
    and "populationControl w (deltaTime time lastTime) bs rng = (bs', rng')"
  shows "take (length bs) bs' = bs \<and> length bs \<le> length bs'"
proof -
  have "\<not> fps_lt (fps_of (deltaTime time lastTime)) 50"
    using deltaTime_bounds [OF assms(1)] not_fps_lt_50 by blast
  with assms(2) have "take (length bs) bs' = bs"
    by (rule populationControl_prefix)
  then show ?thesis
    by (metis length_take min.bounded_iff order_refl)
qed

theorem populationControl_never_shrinks_witness:
  "(0::real) \<le> 20 \<and>
   populationControl \<lparr>width = 100, height = 100\<rparr> (deltaTime 20 0) [\<lparr>boid_x = 50, boid_y = 50, wanderAngle = pi, angle = pi, speed = 210, boid_size = 6, color_hue = 180\<rparr>] (sconst (1 / 2)) = ([\<lparr>boid_x = 50, boid_y = 50, wanderAngle = pi, angle = pi, speed = 210, boid_size = 6, color_hue = 180\<rparr>], sconst (1 / 2)) \<and>
   take 1 [\<lparr>boid_x = 50, boid_y = 50, wanderAngle = pi, angle = pi, speed = 210, boid_size = 6, color_hue = 180\<rparr>] = [\<lparr>boid_x = 50, boid_y = 50, wanderAngle = pi, angle = pi, speed = 210, boid_size = 6, color_hue = 180\<rparr>]"
proof -
  have run: "populationControl \<lparr>width = 100, height = 100\<rparr> (deltaTime 20 0) [\<lparr>boid_x = 50, boid_y = 50, wanderAngle = pi, angle = pi, speed = 210, boid_size = 6, color_hue = 180\<rparr>] (sconst (1 / 2)) = ([\<lparr>boid_x = 50, boid_y = 50, wanderAngle = pi, angle = pi, speed = 210, boid_size = 6, color_hue = 180\<rparr>], sconst (1 / 2))"
    by (simp add: populationControl_cases deltaTime_def fps_of_def boid_consts)
  have "take (length [\<lparr>boid_x = 50, boid_y = 50, wanderAngle = pi, angle = pi, speed = 210, boid_size = 6, color_hue = 180\<rparr>]) [\<lparr>boid_x = 50, boid_y = 50, wanderAngle = pi, angle = pi, speed = 210, boid_size = 6, color_hue = 180\<rparr>] = [\<lparr>boid_x = 50, boid_y = 50, wanderAngle = pi, angle = pi, speed = 210, boid_size = 6, color_hue = 180\<rparr>]"
    using populationControl_never_shrinks [OF _ run] by simp
  then show ?thesis
    using run by simp
qed

text \<open>
  C14. Above 60 frames per second (a frame time under 50/3 ms, zero included, where the
  rate is \<open>Infinity\<close>) and below the cap, exactly one new boid is appended at the tail
  and the random supply advances past the seven values it consumed.
\<close>

theorem populationControl_grows:
  assumes "lastTime \<le> time" and "time - lastTime < 50 / 3" and "length bs < maxBoidAmount"
  shows "populationControl w (deltaTime time lastTime) bs rng = (bs @ [fst (newBoid w rng)], snd (newBoid w rng))"
proof -
  have "deltaTime time lastTime < 1 / 60" and "0 \<le> deltaTime time lastTime"
    using assms(1,2) by (simp_all add: deltaTime_def)
  then have "fps_gt (fps_of (deltaTime time lastTime)) 60"
    by (simp add: fps_gt_60_iff)
  then show ?thesis
    using assms(3) by (simp add: populationControl_cases)
qed

theorem populationControl_grows_witness:
  "(0::real) \<le> 10 \<and> 10 - 0 < (50 / 3 :: real) \<and> length ([] :: boid list) < maxBoidAmount \<and>
   populationControl \<lparr>width = 100, height = 100\<rparr> (deltaTime 10 0) [] (sconst (1 / 2)) = ([\<lparr>boid_x = 50, boid_y = 50, wanderAngle = pi, angle = pi, speed = 210, boid_size = 6, color_hue = 180\<rparr>], sconst (1 / 2))"
proof -
  have "populationControl \<lparr>width = 100, height = 100\<rparr> (deltaTime 10 0) [] (sconst (1 / 2)) =
          ([] @ [fst (newBoid \<lparr>width = 100, height = 100\<rparr> (sconst (1 / 2)))], snd (newBoid \<lparr>width = 100, height = 100\<rparr> (sconst (1 / 2))))"
    by (rule populationControl_grows) (simp_all add: boid_consts)
  then show ?thesis
    by (simp add: newBoid_def random_def boid_consts)
qed

text \<open>
  C15. The shrink branch, reached only when the clock runs backwards (a negative frame
  time gives a negative rate), removes the tail boid; on an empty flock \<open>pop()\<close> is a
  harmless no-op and the flock stays empty.
\<close>

theorem populationControl_pop:
  assumes "time < lastTime"
  shows "populationControl w (deltaTime time lastTime) bs rng = (butlast bs, rng)"
proof -
  have dt: "deltaTime time lastTime < 0"
    using assms by (simp add: deltaTime_def)
  then have neg: "1 / deltaTime time lastTime < 0"
    by simp
  have eq: "fps_of (deltaTime time lastTime) = Fps (1 / deltaTime time lastTime)"
    using dt by (simp add: fps_of_def)
  have "\<not> fps_gt (fps_of (deltaTime time lastTime)) 60" and "fps_lt (fps_of (deltaTime time lastTime)) 50"
    unfolding eq fps_gt.simps fps_lt.simps using neg by linarith+
  then show ?thesis
    by (simp add: populationControl_cases)
qed

theorem populationControl_pop_witness:
  "(5::real) < 8 \<and> populationControl \<lparr>width = 100, height = 100\<rparr> (deltaTime 5 8) [] (sconst (1 / 2)) = ([], sconst (1 / 2))"
  using populationControl_pop [of 5 8 "\<lparr>width = 100, height = 100\<rparr>" "[]" "sconst (1 / 2)"] by simp

end
