(* ===== verification/Frame.thy ===== *)
theory Frame
  imports Forces Collisions Population
begin

text \<open>
  One animation frame of script.js and the states a page goes through. \<open>updateBoid(i, dt)\<close>
  (lines 77--93) perturbs the wander heading with one \<open>Math.random()\<close>, steers
  (\<open>applyForces\<close>), resolves collisions against the later boids and clamps
  (\<open>applyCollisions\<close>), and only then integrates the position. \<open>loop()\<close> (lines
  43--75) runs the population controller and then \<open>updateBoid\<close> for every index in
  order, so a boid's neighbours before it in the array have already moved this frame.
  \<open>init()\<close> (lines 32--41) creates \<open>boidAmount\<close> boids; the states reachable from it
  by frames on a clock that does not run backwards are the inductive \<open>reachable\<close>.
  Proved here: the invariants of every reachable state (flock size, well-formed boids,
  every boid within 2.52 px of the canvas), the bound a frame gives around the clamp
  box and the concrete page that leaves it, identities and order, the wander bound,
  the random values a frame consumes, and growth over many fast frames.
  Drawing (\<open>drawBoid\<close>, the FPS text, the trail fade) writes only to the canvas; it
  is left out here and interleaved with this frame in the theory \<open>Render\<close>.
\<close>

section \<open>Definitions\<close>

text \<open>The page's mutable state: the array, \<open>lastTime\<close>, and the random supply.\<close>

record sim =
  boids :: "boid list"
  lastTime :: real
  rng :: "real stream"

text \<open>Line 81.\<close>

definition wander :: "real \<Rightarrow> real \<Rightarrow> boid \<Rightarrow> boid" where
  "wander r dt boid = boid\<lparr>wanderAngle := wanderAngle boid + (r * 2 - 1) * boidWanderSpeed * dt\<rparr>"

text \<open>Lines 91--92.\<close>

definition integrate :: "real \<Rightarrow> boid \<Rightarrow> boid" where
  "integrate dt boid =
     boid\<lparr>boid_x := boid_x boid + (cos (angle boid) * speed boid + cos (wanderAngle boid) * boidWanderRadius) * dt,
          boid_y := boid_y boid + (sin (angle boid) * speed boid + sin (wanderAngle boid) * boidWanderRadius) * dt\<rparr>"

definition updateBoid ::
  "world \<Rightarrow> nat \<Rightarrow> real \<Rightarrow> boid list \<Rightarrow> real stream \<Rightarrow> fault + boid list \<times> real stream" where
  "updateBoid w index dt bs rng0 =
     (let (r, rng1) = random rng0;
          bs1 = bs[index := wander r dt (bs ! index)]
      in case applyForces w index bs1 of
           Inl e \<Rightarrow> Inl e
         | Inr bs2 \<Rightarrow>
             (case applyCollisions w index bs2 of
                Inl e \<Rightarrow> Inl e
              | Inr bs3 \<Rightarrow> Inr (bs3[index := integrate dt (bs3 ! index)], rng1)))"

text \<open>The loop of lines 69--72 over the indices \<open>0 .. boids.length - 1\<close>.\<close>

fun updateAll ::
  "world \<Rightarrow> real \<Rightarrow> nat list \<Rightarrow> boid list \<Rightarrow> real stream \<Rightarrow> fault + boid list \<times> real stream" where
  "updateAll w dt [] bs rng0 = Inr (bs, rng0)"
| "updateAll w dt (i # ixs) bs rng0 =
     (case updateBoid w i dt bs rng0 of
        Inl e \<Rightarrow> Inl e
      | Inr (bs', rng1) \<Rightarrow> updateAll w dt ixs bs' rng1)"

definition loop :: "world \<Rightarrow> real \<Rightarrow> sim \<Rightarrow> fault + sim" where
  "loop w time s =
     (let dt = deltaTime time (lastTime s);
          (bs1, rng1) = populationControl w dt (boids s) (rng s)
      in case updateAll w dt [0..<length bs1] bs1 rng1 of
           Inl e \<Rightarrow> Inl e
         | Inr (bs2, rng2) \<Rightarrow> Inr \<lparr>boids = bs2, lastTime = time, rng = rng2\<rparr>)"

text \<open>
  \<open>requestAnimationFrame(loop)\<close> (line 74): the browser calls \<open>loop\<close> again at each
  of a sequence of frame times.
\<close>

fun run :: "world \<Rightarrow> real list \<Rightarrow> sim \<Rightarrow> fault + sim" where
  "run w [] s = Inr s"
| "run w (t # ts) s = (case loop w t s of Inl e \<Rightarrow> Inl e | Inr s' \<Rightarrow> run w ts s')"

text \<open>\<open>for (let i = 0; i < boidAmount; i++) boids.push(newBoid());\<close>\<close>

fun pushBoids :: "world \<Rightarrow> nat \<Rightarrow> boid list \<Rightarrow> real stream \<Rightarrow> boid list \<times> real stream" where
  "pushBoids w 0 bs rng0 = (bs, rng0)"
| "pushBoids w (Suc n) bs rng0 = (case newBoid w rng0 of (b, rng1) \<Rightarrow> pushBoids w n (bs @ [b]) rng1)"

text \<open>\<open>init()\<close> up to its call of \<open>loop()\<close>, which is the first frame; \<open>lastTime = 0\<close>.\<close>

definition init :: "world \<Rightarrow> real stream \<Rightarrow> sim" where
  "init w rng0 = (case pushBoids w boidAmount [] rng0 of (bs, rng1) \<Rightarrow> \<lparr>boids = bs, lastTime = 0, rng = rng1\<rparr>)"

text \<open>
  The states of a page: \<open>init\<close> on a supply of values in \<open>[0, 1)\<close>, then frames at
  times no earlier than the last one (\<open>performance.now()\<close> is monotonic).
\<close>

inductive reachable :: "world \<Rightarrow> sim \<Rightarrow> bool" where
  start: "random_ok r \<Longrightarrow> reachable w (init w r)"
| frame: "reachable w s \<Longrightarrow> lastTime s \<le> time \<Longrightarrow> loop w time s = Inr s' \<Longrightarrow> reachable w s'"

text \<open>A clock whose successive frame times, from \<open>t0\<close> on, are less than 1/60 s apart.\<close>

fun fast_clock :: "real \<Rightarrow> real list \<Rightarrow> bool" where
  "fast_clock t0 [] \<longleftrightarrow> True"
| "fast_clock t0 (t # ts) \<longleftrightarrow> t0 \<le> t \<and> t - t0 < 1000 / 60 \<and> fast_clock t ts"

text \<open>A world at least one maximal boid diameter wide and high.\<close>

definition world_ok :: "world \<Rightarrow> bool" where
  "world_ok w \<longleftrightarrow> 2 * boidMaxSize \<le> width w \<and> 2 * boidMaxSize \<le> height w"

text \<open>
  The box a boid can be in after its update: its clamp box widened on every side by the
  longest step \<open>(speed + boidWanderRadius) * dt\<close> the integration can take.
\<close>

definition near_box :: "world \<Rightarrow> real \<Rightarrow> boid \<Rightarrow> bool" where
  "near_box w dt b \<longleftrightarrow>
     (let m = (speed b + boidWanderRadius) * dt
      in boid_size b - m \<le> boid_x b \<and> boid_x b \<le> width w - boid_size b + m \<and>
         boid_size b - m \<le> boid_y b \<and> boid_y b \<le> height w - boid_size b + m)"

text \<open>What every reachable state keeps: the flock size bounds, well-formed boids, a good supply.\<close>

definition sim_inv :: "sim \<Rightarrow> bool" where
  "sim_inv s \<longleftrightarrow>
     boidAmount \<le> length (boids s) \<and> length (boids s) \<le> maxBoidAmount \<and>
     boids_wf (boids s) \<and> random_ok (rng s)"

text \<open>
  A concrete page for the examples: ten boids in a row 200 px apart on a
  2000 \<open>\<times>\<close> 1000 canvas, all heading left (\<open>angle = \<pi>\<close>), as \<open>init\<close> creates
  them from \<open>example_supply\<close> (their seven values each, then \<open>1/2\<close> forever), and the
  page after one frame 20 ms later.
\<close>

abbreviation example_world :: world where
  "example_world \<equiv> \<lparr>width = 2000, height = 1000\<rparr>"

abbreviation example_supply :: "real stream" where
  "example_supply \<equiv> concat (map (\<lambda>k. [real k / 10, 1 / 2, 1 / 2, 1 / 2, 0, 0, 0]) [0..<10]) @- sconst (1 / 2)"

abbreviation example_row :: "boid list" where
  "example_row \<equiv> map (\<lambda>k. \<lparr>boid_x = real k * 200, boid_y = 500, wanderAngle = pi, angle = pi, speed = 200, boid_size = 2, color_hue = 0\<rparr>) [0..<10]"

abbreviation example_row1 :: "boid list" where
  "example_row1 \<equiv> map (\<lambda>k. \<lparr>boid_x = max (real k * 200) 2 - 103 / 25, boid_y = 500, wanderAngle = pi, angle = pi, speed = 200, boid_size = 2, color_hue = 0\<rparr>) [0..<10]"

abbreviation example_page1 :: sim where
  "example_page1 \<equiv> \<lparr>boids = example_row1, lastTime = 20, rng = sconst (1 / 2)\<rparr>"

section \<open>Lemmas\<close>

lemma wander_identity: "same_identity b (wander r dt b)"
  by (simp add: wander_def same_identity_def)

lemma integrate_identity: "same_identity b (integrate dt b)"
  by (simp add: integrate_def same_identity_def)

lemma sees_wander [simp]:
  "sees (wander r dt b) c = sees b c" "sees c (wander r dt b) = sees c b"
  by (simp_all add: wander_def sees_def)

lemma others_update [simp]: "others index (bs[index := b]) = others index bs"
proof -
  have "filter (\<lambda>(j, b). j \<noteq> index) (enumerate k (bs[index - k := b])) =
        filter (\<lambda>(j, b). j \<noteq> index) (enumerate k bs)" if "k \<le> index" for k
    using that
  proof (induction bs arbitrary: k index)
    case Nil
    then show ?case by simp
  next
    case (Cons c cs)
    show ?case
    proof (cases "index = k")
      case True
      then show ?thesis by simp
    next
      case False
      with Cons.prems have "Suc k \<le> index" and "index - k = Suc (index - Suc k)"
        by simp_all
      then show ?thesis
        using Cons.IH [of "Suc k" index] False by simp
    qed
  qed
  from this [of 0] show ?thesis
    by (simp add: others_def)
qed

lemma updateBoid_Inr:
  assumes "updateBoid w index dt bs rng0 = Inr (bs', rng')"
  obtains bs2 bs3 where
    "applyForces w index (bs[index := wander (shd rng0) dt (bs ! index)]) = Inr bs2"
    "applyCollisions w index bs2 = Inr bs3"
    "bs' = bs3[index := integrate dt (bs3 ! index)]" "rng' = stl rng0"
  using assms by (auto simp: updateBoid_def random_def split: sum.splits)

subsection \<open>One update\<close>

lemma step_bound:
  fixes s r dt :: real
  assumes "0 \<le> s" and "0 \<le> r" and "0 \<le> dt"
    and "\<bar>c1\<bar> \<le> 1" and "\<bar>c2\<bar> \<le> 1"
  shows "\<bar>(c1 * s + c2 * r) * dt\<bar> \<le> (s + r) * dt"
proof -
  have "\<bar>c1 * s\<bar> \<le> s" and "\<bar>c2 * r\<bar> \<le> r"
    using assms by (simp_all add: abs_mult mult_left_le_one_le)
  then have "\<bar>c1 * s + c2 * r\<bar> \<le> s + r"
    by (meson abs_triangle_ineq add_mono order_trans)
  then show ?thesis
    using assms(3) by (simp add: abs_mult mult_right_mono)
qed

lemma integrate_clamp_near_box:
  assumes "2 * boid_size c \<le> width w" and "2 * boid_size c \<le> height w"
    and "0 \<le> speed c" and "0 \<le> dt"
  shows "near_box w dt (integrate dt (clamp_boid w c))"
proof -
  let ?b = "clamp_boid w c"
  have id: "speed ?b = speed c" "boid_size ?b = boid_size c"
    using position_only_fields [OF clamp_boid_position_only [of c w]] by (simp_all add: same_identity_def)
  have box: "boid_size c \<le> boid_x ?b \<and> boid_x ?b \<le> width w - boid_size c \<and>
             boid_size c \<le> boid_y ?b \<and> boid_y ?b \<le> height w - boid_size c"
    using clamp_boid_bounds [OF assms(1,2)] .
  have r: "0 \<le> boidWanderRadius"
    by (simp add: boid_consts)
  have "\<bar>(cos (angle ?b) * speed c + cos (wanderAngle ?b) * boidWanderRadius) * dt\<bar>
          \<le> (speed c + boidWanderRadius) * dt"
    and "\<bar>(sin (angle ?b) * speed c + sin (wanderAngle ?b) * boidWanderRadius) * dt\<bar>
          \<le> (speed c + boidWanderRadius) * dt"
    using step_bound [OF assms(3) r assms(4)] abs_cos_le_one abs_sin_le_one by simp_all
  then show ?thesis
    using box by (simp add: near_box_def integrate_def id Let_def abs_le_iff)
qed

lemma updateBoid_frame:
  assumes ok: "updateBoid w index dt bs rng0 = Inr (bs', rng')" and idx: "index < length bs"
  shows "length bs' = length bs \<and> (\<forall>j < index. bs' ! j = bs ! j) \<and>
         (\<forall>j < length bs. same_identity (bs ! j) (bs' ! j)) \<and> rng' = stl rng0 \<and>
         (\<exists>c. same_identity (bs ! index) c \<and>
              wanderAngle c = wanderAngle (bs ! index) + (shd rng0 * 2 - 1) * boidWanderSpeed * dt \<and>
              bs' ! index = integrate dt (clamp_boid w c))"
proof -
  let ?bs1 = "bs[index := wander (shd rng0) dt (bs ! index)]"
  obtain bs2 bs3 where f: "applyForces w index ?bs1 = Inr bs2"
    and c: "applyCollisions w index bs2 = Inr bs3"
    and bs': "bs' = bs3[index := integrate dt (bs3 ! index)]" and r: "rng' = stl rng0"
    using ok by (rule updateBoid_Inr)
  obtain a where bs2: "bs2 = ?bs1[index := (?bs1 ! index)\<lparr>angle := a\<rparr>]"
    using applyForces_frame [OF f] idx by auto
  have len2: "length bs2 = length bs"
    using bs2 by simp
  have cf: "length bs3 = length bs2 \<and> (\<forall>j < index. bs3 ! j = bs2 ! j) \<and>
            (\<forall>j < length bs2. position_only (bs2 ! j) (bs3 ! j))"
    using applyCollisions_frame [OF c] idx len2 by simp
  have len3: "length bs3 = length bs"
    using cf len2 by simp
  have early3: "bs3 ! j = bs2 ! j" if "j < index" for j
    using cf that by simp
  have id3: "same_identity (bs2 ! j) (bs3 ! j)" if "j < length bs" for j
    using cf len2 that position_only_fields by simp
  have early2: "bs2 ! j = bs ! j" if "j < index" for j
    using that by (simp add: bs2)
  have id2: "same_identity (bs ! j) (bs2 ! j)" if "j < length bs" for j
    using that idx wander_identity [of "bs ! index" "shd rng0" dt]
    by (cases "j = index") (simp_all add: bs2 same_identity_def)
  have at': "bs' ! index = integrate dt (bs3 ! index)"
    using len3 idx by (simp add: bs')
  have other': "bs' ! j = bs3 ! j" if "j \<noteq> index" for j
    using that by (simp add: bs')
  have ident: "same_identity (bs ! j) (bs' ! j)" if j: "j < length bs" for j
  proof -
    have a3: "same_identity (bs ! j) (bs3 ! j)"
      using same_identity_trans [OF id2 [OF j] id3 [OF j]] .
    show ?thesis
    proof (cases "j = index")
      case True
      then show ?thesis
        using same_identity_trans [OF a3 integrate_identity [of "bs3 ! j" dt]] at' by simp
    next
      case False
      then show ?thesis
        using a3 other' [OF False] by simp
    qed
  qed
  obtain c0 where p0: "position_only (bs2 ! index) c0" and at3: "bs3 ! index = clamp_boid w c0"
    using applyCollisions_focal [OF c] idx len2 by auto
  have c0: "same_identity (bs2 ! index) c0"
    using position_only_fields [OF p0] by simp
  have wa: "wanderAngle c0 = wanderAngle (bs ! index) + (shd rng0 * 2 - 1) * boidWanderSpeed * dt"
    using position_only_fields [OF p0] idx by (simp add: bs2 wander_def)
  have focal: "\<exists>c. same_identity (bs ! index) c \<and>
      wanderAngle c = wanderAngle (bs ! index) + (shd rng0 * 2 - 1) * boidWanderSpeed * dt \<and>
      bs' ! index = integrate dt (clamp_boid w c)"
    using same_identity_trans [OF id2 [OF idx] c0] wa at' at3 by auto
  have "length bs' = length bs"
    using len3 by (simp add: bs')
  moreover have "\<forall>j < index. bs' ! j = bs ! j"
    using early3 early2 other' by simp
  ultimately show ?thesis
    using ident r focal by blast
qed

lemma world_ok_wf:
  "world_ok w \<Longrightarrow> boid_wf b \<Longrightarrow> 2 * boid_size b \<le> width w \<and> 2 * boid_size b \<le> height w \<and> 0 \<le> speed b"
  by (simp add: world_ok_def boid_wf_def boid_consts)

lemma updateBoid_near_box:
  assumes ok: "updateBoid w index dt bs rng0 = Inr (bs', rng')" and idx: "index < length bs"
    and w: "world_ok w" and wf: "boid_wf (bs ! index)" and dt: "0 \<le> dt"
  shows "near_box w dt (bs' ! index)"
proof -
  obtain c where c: "same_identity (bs ! index) c" and at: "bs' ! index = integrate dt (clamp_boid w c)"
    using updateBoid_frame [OF ok idx] by blast
  have "boid_wf c"
    using same_identity_wf [OF c wf] .
  then show ?thesis
    using integrate_clamp_near_box [of c w dt] world_ok_wf [OF w] dt by (simp add: at)
qed

subsection \<open>A whole frame\<close>

lemma updateAll_frame:
  "updateAll w dt ixs bs rng0 = Inr (bs', rng') \<Longrightarrow> \<forall>i \<in> set ixs. i < length bs \<Longrightarrow>
     length bs' = length bs \<and> (\<forall>j < length bs. same_identity (bs ! j) (bs' ! j)) \<and>
     (random_ok rng0 \<longrightarrow> random_ok rng')"
proof (induction ixs arbitrary: bs rng0)
  case Nil
  then show ?case by simp
next
  case (Cons i ixs)
  obtain bs1 rng1 where u: "updateBoid w i dt bs rng0 = Inr (bs1, rng1)"
    and rest: "updateAll w dt ixs bs1 rng1 = Inr (bs', rng')"
    using Cons.prems(1) by (auto split: sum.splits)
  have fr: "length bs1 = length bs \<and> (\<forall>j < length bs. same_identity (bs ! j) (bs1 ! j)) \<and> rng1 = stl rng0"
    using updateBoid_frame [OF u] Cons.prems(2) by simp
  have ih: "length bs' = length bs1 \<and> (\<forall>j < length bs1. same_identity (bs1 ! j) (bs' ! j)) \<and>
            (random_ok rng1 \<longrightarrow> random_ok rng')"
    using Cons.IH [OF rest] Cons.prems(2) fr by simp
  show ?case
    using fr ih by (auto intro: same_identity_trans)
qed

lemma updateAll_rng:
  "updateAll w dt ixs bs rng0 = Inr (bs', rng') \<Longrightarrow> \<forall>i \<in> set ixs. i < length bs \<Longrightarrow>
     rng' = sdrop (length ixs) rng0"
proof (induction ixs arbitrary: bs rng0)
  case Nil
  then show ?case by simp
next
  case (Cons i ixs)
  obtain bs1 rng1 where u: "updateBoid w i dt bs rng0 = Inr (bs1, rng1)"
    and rest: "updateAll w dt ixs bs1 rng1 = Inr (bs', rng')"
    using Cons.prems(1) by (auto split: sum.splits)
  have "length bs1 = length bs \<and> rng1 = stl rng0"
    using updateBoid_frame [OF u] Cons.prems(2) by simp
  then show ?case
    using Cons.IH [OF rest] Cons.prems(2) by simp
qed

lemma updateAll_append:
  "updateAll w dt (xs @ ys) bs rng0 =
     (case updateAll w dt xs bs rng0 of
        Inl e \<Rightarrow> Inl e
      | Inr (bs1, rng1) \<Rightarrow> updateAll w dt ys bs1 rng1)"
  by (induction xs arbitrary: bs rng0) (auto split: sum.splits)

text \<open>Updates of indices at or above \<open>k\<close> never write a boid below \<open>k\<close>.\<close>

lemma updateAll_keeps_below:
  "updateAll w dt ixs bs rng0 = Inr (bs', rng') \<Longrightarrow> \<forall>i \<in> set ixs. k \<le> i \<and> i < length bs \<Longrightarrow>
     length bs' = length bs \<and> (\<forall>j < k. bs' ! j = bs ! j)"
proof (induction ixs arbitrary: bs rng0)
  case Nil
  then show ?case by simp
next
  case (Cons i ixs)
  obtain bs1 rng1 where u: "updateBoid w i dt bs rng0 = Inr (bs1, rng1)"
    and rest: "updateAll w dt ixs bs1 rng1 = Inr (bs', rng')"
    using Cons.prems(1) by (auto split: sum.splits)
  have i: "k \<le> i" "i < length bs"
    using Cons.prems(2) by simp_all
  have fr: "length bs1 = length bs" "\<forall>j < k. bs1 ! j = bs ! j"
    using updateBoid_frame [OF u i(2)] i(1) by auto
  show ?case
    using Cons.IH [OF rest] Cons.prems(2) fr by simp
qed

lemma boids_wf_nth: "boids_wf bs \<Longrightarrow> j < length bs \<Longrightarrow> boid_wf (bs ! j)"
  by (simp add: boids_wf_def)

lemma boids_wf_identity:
  assumes "boids_wf bs" and "length bs' = length bs"
    and "\<forall>j < length bs. same_identity (bs ! j) (bs' ! j)"
  shows "boids_wf bs'"
  unfolding boids_wf_def
proof
  fix b
  assume "b \<in> set bs'"
  then obtain i where i: "i < length bs'" and b: "b = bs' ! i"
    by (auto simp: in_set_conv_nth)
  then have "boid_wf (bs ! i)" and "same_identity (bs ! i) (bs' ! i)"
    using assms by (simp_all add: boids_wf_nth)
  then show "boid_wf b"
    using b by (blast intro: same_identity_wf)
qed

text \<open>
  Every boid is left within its widened box by its own update and is not touched by the
  updates after it, which write only later boids.
\<close>

lemma updateAll_near_box:
  assumes "updateAll w dt [k..<length bs] bs rng0 = Inr (bs', rng')"
    and "world_ok w" and "boids_wf bs" and "0 \<le> dt"
    and "\<forall>j < k. near_box w dt (bs ! j)"
  shows "\<forall>j < length bs'. near_box w dt (bs' ! j)"
  using assms
proof (induction "length bs - k" arbitrary: k bs rng0)
  case 0
  then have "bs' = bs"
    by simp
  with "0" show ?case
    by simp
next
  case (Suc n)
  then have k: "k < length bs"
    by simp
  then have "[k..<length bs] = k # [Suc k..<length bs]"
    by (simp add: upt_conv_Cons)
  then obtain bs1 rng1 where u: "updateBoid w k dt bs rng0 = Inr (bs1, rng1)"
    and rest: "updateAll w dt [Suc k..<length bs] bs1 rng1 = Inr (bs', rng')"
    using Suc.prems(1) by (auto split: sum.splits)
  have fr: "length bs1 = length bs" "\<forall>j < k. bs1 ! j = bs ! j"
    "\<forall>j < length bs. same_identity (bs ! j) (bs1 ! j)"
    using updateBoid_frame [OF u k] by simp_all
  have wf1: "boids_wf bs1"
    using boids_wf_identity [OF Suc.prems(3) fr(1,3)] .
  have "near_box w dt (bs1 ! k)"
    using updateBoid_near_box [OF u k Suc.prems(2) boids_wf_nth [OF Suc.prems(3) k] Suc.prems(4)] .
  then have boxes: "\<forall>j < Suc k. near_box w dt (bs1 ! j)"
    using fr(2) Suc.prems(5) less_Suc_eq by auto
  have rest': "updateAll w dt [Suc k..<length bs1] bs1 rng1 = Inr (bs', rng')"
    using rest fr(1) by simp
  have "n = length bs1 - Suc k"
    using Suc.hyps(2) fr(1) by simp
  then show ?case
    using Suc.hyps(1) [OF _ rest' Suc.prems(2) wf1 Suc.prems(4) boxes] by simp
qed

lemma loop_Inr:
  assumes "loop w time s = Inr s'"
  obtains bs1 rng1 where
    "populationControl w (deltaTime time (lastTime s)) (boids s) (rng s) = (bs1, rng1)"
    "updateAll w (deltaTime time (lastTime s)) [0..<length bs1] bs1 rng1 = Inr (boids s', rng s')"
    "lastTime s' = time"
proof -
  obtain bs1 rng1 where pc: "populationControl w (deltaTime time (lastTime s)) (boids s) (rng s) = (bs1, rng1)"
    by (cases "populationControl w (deltaTime time (lastTime s)) (boids s) (rng s)")
  then show ?thesis
    using assms that by (auto simp: loop_def Let_def split: sum.splits)
qed

lemma loop_length:
  assumes "loop w time s = Inr s'"
  shows "length (boids s') = length (fst (populationControl w (deltaTime time (lastTime s)) (boids s) (rng s))) \<and>
         lastTime s' = time"
proof -
  obtain bs1 rng1 where pc: "populationControl w (deltaTime time (lastTime s)) (boids s) (rng s) = (bs1, rng1)"
    and ua: "updateAll w (deltaTime time (lastTime s)) [0..<length bs1] bs1 rng1 = Inr (boids s', rng s')"
    and t: "lastTime s' = time"
    using assms by (rule loop_Inr)
  show ?thesis
    using updateAll_frame [OF ua] pc t by simp
qed

lemma loop_sim_inv:
  assumes ok: "loop w time s = Inr s'" and inv: "sim_inv s" and t: "lastTime s \<le> time"
  shows "sim_inv s' \<and> length (boids s) \<le> length (boids s') \<and> length (boids s') \<le> length (boids s) + 1 \<and>
         (\<forall>j < length (boids s). same_identity (boids s ! j) (boids s' ! j))"
proof -
  obtain bs1 rng1 where pc: "populationControl w (deltaTime time (lastTime s)) (boids s) (rng s) = (bs1, rng1)"
    and ua: "updateAll w (deltaTime time (lastTime s)) [0..<length bs1] bs1 rng1 = Inr (boids s', rng s')"
    using ok by (rule loop_Inr)
  have nolt: "\<not> fps_lt (fps_of (deltaTime time (lastTime s))) 50"
    using deltaTime_bounds [OF t] not_fps_lt_50 by blast
  have prefix: "take (length (boids s)) bs1 = boids s"
    using populationControl_prefix [OF pc nolt] .
  then have grow: "length (boids s) \<le> length bs1"
    by (metis length_take min.bounded_iff order_refl)
  have cap: "length bs1 \<le> maxBoidAmount"
    using pc inv by (auto simp: populationControl_cases sim_inv_def split: if_splits)
  have one: "length bs1 \<le> length (boids s) + 1"
    using pc by (auto simp: populationControl_cases split: if_splits)
  have wf1: "boids_wf bs1 \<and> random_ok rng1"
    using populationControl_wf [OF pc] inv by (simp add: sim_inv_def)
  have fr: "length (boids s') = length bs1 \<and> (\<forall>j < length bs1. same_identity (bs1 ! j) (boids s' ! j)) \<and>
            (random_ok rng1 \<longrightarrow> random_ok (rng s'))"
    using updateAll_frame [OF ua] by simp
  have wf': "boids_wf (boids s')"
    using boids_wf_identity [of bs1 "boids s'"] wf1 fr by simp
  have same: "\<forall>j < length (boids s). same_identity (boids s ! j) (boids s' ! j)"
  proof (intro allI impI)
    fix j
    assume j: "j < length (boids s)"
    then have eq: "bs1 ! j = boids s ! j"
      using prefix grow by (metis nth_take)
    have "same_identity (bs1 ! j) (boids s' ! j)"
      using fr j grow by simp
    then show "same_identity (boids s ! j) (boids s' ! j)"
      by (simp only: eq)
  qed
  show ?thesis
    using inv grow one cap fr wf1 wf' same by (simp add: sim_inv_def)
qed

lemma pushBoids_wf:
  "pushBoids w n bs r = (bs', r') \<Longrightarrow> boids_wf bs \<Longrightarrow> random_ok r \<Longrightarrow>
     length bs' = length bs + n \<and> boids_wf bs' \<and> random_ok r'"
proof (induction n arbitrary: bs r)
  case 0
  then show ?case by simp
next
  case (Suc n)
  obtain b r1 where nb: "newBoid w r = (b, r1)"
    by (cases "newBoid w r")
  have "boid_wf b \<and> random_ok r1"
    using newBoid_wf [OF Suc.prems(3) nb] .
  then have "boids_wf (bs @ [b])"
    using Suc.prems(2) by (simp add: boids_wf_def)
  then show ?case
    using Suc.IH [of "bs @ [b]" r1] Suc.prems(1) nb \<open>boid_wf b \<and> random_ok r1\<close> by simp
qed

lemma pushBoids_on_canvas:
  assumes "pushBoids w n bs r = (bs', r')" and "random_ok r" and "0 < width w" and "0 < height w"
    and "\<forall>b \<in> set bs. 0 \<le> boid_x b \<and> boid_x b < width w \<and> 0 \<le> boid_y b \<and> boid_y b < height w"
  shows "\<forall>b \<in> set bs'. 0 \<le> boid_x b \<and> boid_x b < width w \<and> 0 \<le> boid_y b \<and> boid_y b < height w"
  using assms(1,2,5)
proof (induction n arbitrary: bs r)
  case 0
  then show ?case by simp
next
  case (Suc n)
  obtain b r1 where nb: "newBoid w r = (b, r1)"
    by (cases "newBoid w r")
  have "random_ok r1"
    using newBoid_wf [OF Suc.prems(2) nb] by simp
  moreover have "0 \<le> boid_x b \<and> boid_x b < width w \<and> 0 \<le> boid_y b \<and> boid_y b < height w"
    using newBoid_on_canvas [OF Suc.prems(2) nb assms(3,4)] .
  ultimately show ?case
    using Suc.IH [of "bs @ [b]" r1] Suc.prems(1,3) nb by simp
qed

lemma init_sim_inv: "random_ok r \<Longrightarrow> sim_inv (init w r)"
  using pushBoids_wf [of w boidAmount "[]" r]
  by (auto simp: init_def sim_inv_def boids_wf_def boid_consts split: prod.splits)

lemma reachable_sim_inv: "reachable w s \<Longrightarrow> sim_inv s"
proof (induction rule: reachable.induct)
  case (start r w)
  then show ?case by (rule init_sim_inv)
next
  case (frame w s time s')
  then show ?case
    using loop_sim_inv by blast
qed

lemma near_box_margin:
  assumes "near_box w dt b" and "0 \<le> dt" and "dt \<le> 1 / 50" and "0 \<le> speed b" and "speed b < 220"
  shows "boid_size b - 113 / 25 \<le> boid_x b \<and> boid_x b \<le> width w - boid_size b + 113 / 25 \<and>
         boid_size b - 113 / 25 \<le> boid_y b \<and> boid_y b \<le> height w - boid_size b + 113 / 25"
proof -
  have "(speed b + boidWanderRadius) * dt \<le> (220 + 6) * (1 / 50)"
    using assms(2-5) by (intro mult_mono) (simp_all add: boid_consts)
  then show ?thesis
    using assms(1) by (simp add: near_box_def Let_def)
qed

text \<open>
  After a frame from a reachable state every boid lies in its clamp box widened by
  4.52 px: the boxes of \<open>updateAll_near_box\<close> at a step \<open>dt \<le> 1/50\<close> and a speed below 220.
\<close>

lemma loop_margin:
  assumes r: "reachable w s" and w: "world_ok w" and t: "lastTime s \<le> time"
    and ok: "loop w time s = Inr s'"
  shows "\<forall>b \<in> set (boids s'). boid_size b - 113 / 25 \<le> boid_x b \<and> boid_x b \<le> width w - boid_size b + 113 / 25 \<and>
           boid_size b - 113 / 25 \<le> boid_y b \<and> boid_y b \<le> height w - boid_size b + 113 / 25"
proof
  fix b
  assume b: "b \<in> set (boids s')"
  have inv: "sim_inv s"
    using r by (rule reachable_sim_inv)
  obtain bs1 rng1 where pc: "populationControl w (deltaTime time (lastTime s)) (boids s) (rng s) = (bs1, rng1)"
    and ua: "updateAll w (deltaTime time (lastTime s)) [0..<length bs1] bs1 rng1 = Inr (boids s', rng s')"
    using ok by (rule loop_Inr)
  have dt: "0 \<le> deltaTime time (lastTime s)" "deltaTime time (lastTime s) \<le> 1 / 50"
    using deltaTime_bounds [OF t] by simp_all
  have "boids_wf bs1"
    using populationControl_wf [OF pc] inv by (simp add: sim_inv_def)
  then have boxes: "\<forall>j < length (boids s'). near_box w (deltaTime time (lastTime s)) (boids s' ! j)"
    using updateAll_near_box [OF ua w _ dt(1)] by simp
  have "sim_inv s'"
    using loop_sim_inv [OF ok inv t] by simp
  then have "boid_wf b"
    using b by (simp add: sim_inv_def boids_wf_def)
  moreover have "near_box w (deltaTime time (lastTime s)) b"
    using boxes b by (auto simp: in_set_conv_nth)
  ultimately show "boid_size b - 113 / 25 \<le> boid_x b \<and> boid_x b \<le> width w - boid_size b + 113 / 25 \<and>
           boid_size b - 113 / 25 \<le> boid_y b \<and> boid_y b \<le> height w - boid_size b + 113 / 25"
    using near_box_margin dt by (simp add: boid_wf_def)
qed

subsection \<open>A concrete page\<close>

text \<open>
  The example page is created by \<open>init\<close> and reachable, and one frame moves every boid
  4.12 px to the left, after clamping the first one to \<open>x = 2\<close>.
\<close>

lemma example_init:
  "init example_world example_supply =
   \<lparr>boids = example_row, lastTime = 0, rng = sconst (1 / 2)\<rparr>"
  by (simp add: init_def boid_consts eval_nat_numeral newBoid_def random_def upt_rec)

lemma example_frame:
  "loop example_world 20 \<lparr>boids = example_row, lastTime = 0, rng = sconst (1 / 2)\<rparr> = Inr example_page1"
  by (simp add: loop_def deltaTime_def populationControl_cases fps_of_def boid_consts upt_rec
        updateBoid_def random_def wander_def applyForces_unfold others_def sees_def
        applyCollisions_def collide_pair_def clamp_boid_def integrate_def Let_def)

lemma example_reachable_init: "reachable example_world (init example_world example_supply)"
  by (rule reachable.start, rule random_ok_shift) (simp_all add: upt_rec random_ok_sconst)

lemma example_reachable: "reachable example_world example_page1"
  by (rule reachable.frame [OF example_reachable_init, of 20])
     (simp_all add: example_init example_frame)

section \<open>Properties of a frame and of a page\<close>

text \<open>
  C8. Invariant of every reachable state: the flock holds between \<open>boidAmount\<close> and
  \<open>maxBoidAmount\<close> boids (it never drops below the initial ten, since the shrink branch
  is dead), and every boid keeps the size in \<open>[2, 10)\<close> and the speed in
  \<open>[200, 220)\<close> it was created with.
\<close>

theorem reachable_invariant:
  assumes "reachable w s"
  shows "boidAmount \<le> length (boids s) \<and> length (boids s) \<le> maxBoidAmount \<and>
         (\<forall>b \<in> set (boids s). boidMinSize \<le> boid_size b \<and> boid_size b < boidMaxSize \<and>
                               200 \<le> speed b \<and> speed b < 220)"
  using reachable_sim_inv [OF assms] by (simp add: sim_inv_def boids_wf_def boid_wf_def)

theorem reachable_invariant_witness:
  "reachable example_world example_page1 \<and> boidAmount \<le> length (boids example_page1) \<and>
   boidMinSize \<le> boid_size (hd (boids example_page1)) \<and> speed (last (boids example_page1)) < 220"
  using reachable_invariant [OF example_reachable] example_reachable by (simp add: upt_rec)

text \<open>
  C2. The bound a frame really gives: after \<open>loop()\<close> from a reachable state (in a
  world at least 20 px wide and high), every boid lies in its clamp box
  \<open>[size, width - size] \<times> [size, height - size]\<close> widened by 4.52 px on each side,
  the longest step \<open>(speed + boidWanderRadius) * dt\<close> that follows the clamp.
\<close>

theorem loop_frame_bound:
  assumes r: "reachable w s" and w: "world_ok w" and t: "lastTime s \<le> time"
    and ok: "loop w time s = Inr s'"
  shows "\<forall>b \<in> set (boids s'). boid_size b - 113 / 25 \<le> boid_x b \<and> boid_x b \<le> width w - boid_size b + 113 / 25 \<and>
           boid_size b - 113 / 25 \<le> boid_y b \<and> boid_y b \<le> height w - boid_size b + 113 / 25"
  using loop_margin [OF assms] .

theorem loop_frame_bound_witness:
  "reachable example_world (init example_world example_supply) \<and> world_ok example_world \<and> lastTime (init example_world example_supply) \<le> 20 \<and>
   loop example_world 20 (init example_world example_supply) = Inr example_page1 \<and>
   boid_size (hd (boids example_page1)) - 113 / 25 \<le> boid_x (hd (boids example_page1))"
proof -
  have ok: "loop example_world 20 (init example_world example_supply) = Inr example_page1"
    by (simp add: example_init example_frame)
  have w: "world_ok example_world"
    by (simp add: world_ok_def boid_consts)
  have t: "lastTime (init example_world example_supply) \<le> 20"
    by (simp add: example_init)
  show ?thesis
    using loop_frame_bound [OF example_reachable_init w t ok] example_reachable_init w t ok
    by (simp add: upt_rec)
qed

text \<open>
  C31. Invariant of every reachable state in a world at least 20 px wide and high: every
  boid lies within 2.52 px of the canvas, \<open>[-2.52, width + 2.52] \<times> [-2.52, height + 2.52]\<close>.
  \<open>newBoid\<close> places the first boids on the canvas, and each frame, whatever the
  positions before it, clamps every boid into its box and then moves it at most
  4.52 px; the clamp box is at least \<open>boidMinSize = 2\<close> px inside the canvas.
\<close>

theorem reachable_near_canvas:
  assumes "reachable w s" and "world_ok w"
  shows "\<forall>b \<in> set (boids s). - (63 / 25) \<le> boid_x b \<and> boid_x b \<le> width w + 63 / 25 \<and>
           - (63 / 25) \<le> boid_y b \<and> boid_y b \<le> height w + 63 / 25"
  using assms
proof (induction rule: reachable.induct)
  case (start r w)
  have pos: "0 < width w" "0 < height w"
    using start.prems by (simp_all add: world_ok_def boid_consts)
  obtain bs r' where pb: "pushBoids w boidAmount [] r = (bs, r')"
    by (cases "pushBoids w boidAmount [] r")
  have "\<forall>b \<in> set bs. 0 \<le> boid_x b \<and> boid_x b < width w \<and> 0 \<le> boid_y b \<and> boid_y b < height w"
    using pushBoids_on_canvas [OF pb start.hyps pos] by simp
  then show ?case
    using pb by (fastforce simp: init_def)
next
  case (frame w s time s')
  have "sim_inv s'"
    using loop_sim_inv [OF frame.hyps(3) reachable_sim_inv [OF frame.hyps(1)] frame.hyps(2)] by simp
  then have "\<forall>b \<in> set (boids s'). boidMinSize \<le> boid_size b"
    by (simp add: sim_inv_def boids_wf_def boid_wf_def)
  moreover have "\<forall>b \<in> set (boids s'). boid_size b - 113 / 25 \<le> boid_x b \<and> boid_x b \<le> width w - boid_size b + 113 / 25 \<and>
           boid_size b - 113 / 25 \<le> boid_y b \<and> boid_y b \<le> height w - boid_size b + 113 / 25"
    using loop_margin [OF frame.hyps(1) frame.prems frame.hyps(2,3)] .
  ultimately show ?case
    by (fastforce simp: boid_consts)
qed

theorem reachable_near_canvas_witness:
  "reachable example_world example_page1 \<and> world_ok example_world \<and>
   - (63 / 25) \<le> boid_x (hd (boids example_page1)) \<and> boid_x (hd (boids example_page1)) < 0"
proof -
  have w: "world_ok example_world"
    by (simp add: world_ok_def boid_consts)
  show ?thesis
    using reachable_near_canvas [OF example_reachable w] example_reachable w by (simp add: upt_rec)
qed

text \<open>
  C32. How much of \<open>Math.random()\<close> a frame consumes: on a clock that does not run
  backwards, \<open>loop()\<close> draws exactly one value per boid of the new array (the wander
  perturbation of line 81) and seven for each boid the population controller added
  (\<open>newBoid\<close>), in this order, so the supply left is the old one with that many values
  dropped.
\<close>

theorem loop_consumes_random:
  assumes t: "lastTime s \<le> time" and ok: "loop w time s = Inr s'"
  shows "rng s' = sdrop (7 * (length (boids s') - length (boids s)) + length (boids s')) (rng s)"
proof -
  obtain bs1 rng1 where pc: "populationControl w (deltaTime time (lastTime s)) (boids s) (rng s) = (bs1, rng1)"
    and ua: "updateAll w (deltaTime time (lastTime s)) [0..<length bs1] bs1 rng1 = Inr (boids s', rng s')"
    using ok by (rule loop_Inr)
  have nolt: "\<not> fps_lt (fps_of (deltaTime time (lastTime s))) 50"
    using deltaTime_bounds [OF t] not_fps_lt_50 by blast
  have len: "length (boids s') = length bs1"
    using updateAll_frame [OF ua] by simp
  have "rng s' = sdrop (length bs1) rng1"
    using updateAll_rng [OF ua] by simp
  then show ?thesis
    using populationControl_rng [OF pc nolt] len by simp
qed

theorem loop_consumes_random_witness:
  "lastTime (init example_world example_supply) \<le> 20 \<and>
   loop example_world 20 (init example_world example_supply) = Inr example_page1 \<and>
   rng example_page1 = sdrop 10 (rng (init example_world example_supply))"
proof -
  have ok: "loop example_world 20 (init example_world example_supply) = Inr example_page1"
    by (simp only: example_init example_frame)
  have t: "lastTime (init example_world example_supply) \<le> 20"
    by (simp add: example_init)
  have "length (boids (init example_world example_supply)) = 10"
    by (simp add: example_init)
  then show ?thesis
    using loop_consumes_random [OF t ok] ok t by simp
qed

text \<open>
  C3. The hard clamp does not hold after a frame, contrary to the spec's boundary-clamp
  property: \<open>updateBoid\<close> clamps (inside \<open>applyCollisions\<close>) before it integrates the
  position. On the concrete page, the first boid, heading into the left wall, ends the
  first frame at \<open>x = -2.12\<close>: left of its clamp bound \<open>size = 2\<close> and off the canvas.
\<close>

theorem loop_leaves_clamp_box:
  "loop example_world 20 (init example_world example_supply) = Inr example_page1 \<and> reachable example_world example_page1 \<and>
   boid_x (hd (boids example_page1)) = - 53 / 25 \<and> boid_size (hd (boids example_page1)) = 2 \<and>
   boid_x (hd (boids example_page1)) < boid_size (hd (boids example_page1)) \<and> boid_x (hd (boids example_page1)) < 0"
proof -
  have ok: "loop example_world 20 (init example_world example_supply) = Inr example_page1"
    by (simp only: example_init example_frame)
  show ?thesis
    using ok example_reachable by (simp add: upt_rec)
qed

text \<open>
  C13. Boids are never replaced or reordered: a frame from a reachable state keeps every
  existing boid at its index with its speed, size and colour, and appends at most one.
\<close>

theorem loop_keeps_identities:
  assumes "reachable w s" and "lastTime s \<le> time" and "loop w time s = Inr s'"
  shows "length (boids s) \<le> length (boids s') \<and> length (boids s') \<le> length (boids s) + 1 \<and>
         (\<forall>j < length (boids s). same_identity (boids s ! j) (boids s' ! j))"
  using loop_sim_inv [OF assms(3) reachable_sim_inv [OF assms(1)] assms(2)] by simp

theorem loop_keeps_identities_witness:
  "reachable example_world (init example_world example_supply) \<and> lastTime (init example_world example_supply) \<le> 20 \<and>
   loop example_world 20 (init example_world example_supply) = Inr example_page1 \<and>
   length (boids (init example_world example_supply)) \<le> length (boids example_page1) \<and>
   same_identity (boids (init example_world example_supply) ! 9) (boids example_page1 ! 9)"
proof -
  have ok: "loop example_world 20 (init example_world example_supply) = Inr example_page1"
    by (simp add: example_init example_frame)
  have t: "lastTime (init example_world example_supply) \<le> 20"
    by (simp add: example_init)
  have "length (boids (init example_world example_supply)) = 10"
    by (simp add: example_init)
  then show ?thesis
    using loop_keeps_identities [OF example_reachable_init t ok] example_reachable_init t ok
    by (simp add: example_init same_identity_def)
qed

text \<open>
  C11. The zero-neighbour short-circuit within a whole update: a boid that sees no other
  boid is neither steered nor pushed by a collision (seeing nobody means every other
  boid is more than \<open>boidSightRange = 150\<close> px beyond touching), and no other boid is
  written. Its update is exactly the wander perturbation with one random value, the
  clamp, and one integration step along its unchanged heading.
\<close>

theorem updateBoid_isolated:
  assumes idx: "index < length bs"
    and alone: "\<forall>b \<in> set (others index bs). \<not> sees (bs ! index) b"
  shows "updateBoid w index dt bs rng0 =
           Inr (bs[index := integrate dt (clamp_boid w (wander (shd rng0) dt (bs ! index)))], stl rng0)"
proof -
  let ?b1 = "wander (shd rng0) dt (bs ! index)"
  let ?bs1 = "bs[index := ?b1]"
  have at1: "?bs1 ! index = ?b1"
    using idx by simp
  have "filter (sees (?bs1 ! index)) (others index ?bs1) = []"
    using alone by (simp add: at1 filter_empty_conv)
  then have f: "applyForces w index ?bs1 = Inr ?bs1"
    by (simp add: applyForces_unfold)
  have "\<not> hypot (boid_x (?bs1 ! i) - boid_x (?bs1 ! index)) (boid_y (?bs1 ! i) - boid_y (?bs1 ! index))
          < boid_size (?bs1 ! index) + boid_size (?bs1 ! i)"
    if "i \<in> set [Suc index..<length ?bs1]" for i
  proof -
    have i: "i < length bs" "i \<noteq> index" "?bs1 ! i = bs ! i"
      using that by simp_all
    have "\<not> sees (bs ! index) (bs ! i)"
      using alone nth_in_others [OF i(1,2)] by blast
    then show ?thesis
      unfolding i(3) at1 by (simp add: sees_def wander_def boid_consts)
  qed
  then have "collide_loop index [Suc index..<length ?bs1] ?bs1 = Inr ?bs1"
    by (intro collide_loop_apart) blast
  then have "applyCollisions w index ?bs1 = Inr (bs[index := clamp_boid w ?b1])"
    using at1 by (simp add: applyCollisions_def)
  then show ?thesis
    using f idx by (simp add: updateBoid_def random_def Let_def)
qed

theorem updateBoid_isolated_witness:
  "0 < length example_row \<and> filter (sees (example_row ! 0)) (others 0 example_row) = [] \<and>
   updateBoid example_world 0 (1 / 50) example_row (sconst (1 / 2)) =
     Inr (example_row[0 := integrate (1 / 50) (clamp_boid example_world (wander (1 / 2) (1 / 50) (example_row ! 0)))],
          sconst (1 / 2)) \<and>
   integrate (1 / 50) (clamp_boid example_world (wander (1 / 2) (1 / 50) (example_row ! 0))) =
     \<lparr>boid_x = 2 - 103 / 25, boid_y = 500, wanderAngle = pi, angle = pi, speed = 200, boid_size = 2, color_hue = 0\<rparr>"
proof -
  have idx: "0 < length example_row"
    by simp
  have alone: "\<forall>b \<in> set (others 0 example_row). \<not> sees (example_row ! 0) b"
    by (simp add: others_def sees_def boid_consts upt_rec)
  have step: "integrate (1 / 50) (clamp_boid example_world (wander (1 / 2) (1 / 50) (example_row ! 0))) =
     \<lparr>boid_x = 2 - 103 / 25, boid_y = 500, wanderAngle = pi, angle = pi, speed = 200, boid_size = 2, color_hue = 0\<rparr>"
    by (simp add: integrate_def clamp_boid_def wander_def boid_consts Let_def)
  show ?thesis
    using updateBoid_isolated [OF idx alone, of example_world "1 / 50" "sconst (1 / 2)"] alone step
    by (simp add: filter_empty_conv)
qed

text \<open>
  C22. The wander heading drifts by at most \<open>boidWanderSpeed * dt\<close> per update: line 81
  adds \<open>(Math.random() * 2 - 1) * boidWanderSpeed * dt\<close> and nothing after it in
  \<open>updateBoid\<close> writes \<open>wanderAngle\<close>; at 20 ms frames that is 0.8 rad.
\<close>

theorem updateBoid_wander_bound:
  assumes ok: "updateBoid w index dt bs rng0 = Inr (bs', rng')" and idx: "index < length bs"
    and r: "random_ok rng0" and dt: "0 \<le> dt"
  shows "\<bar>wanderAngle (bs' ! index) - wanderAngle (bs ! index)\<bar> \<le> boidWanderSpeed * dt"
proof -
  obtain c where wa: "wanderAngle c = wanderAngle (bs ! index) + (shd rng0 * 2 - 1) * boidWanderSpeed * dt"
    and at: "bs' ! index = integrate dt (clamp_boid w c)"
    using updateBoid_frame [OF ok idx] by blast
  have "wanderAngle (bs' ! index) = wanderAngle c"
    using position_only_fields [OF clamp_boid_position_only [of c w]] by (simp add: at integrate_def)
  moreover have "\<bar>shd rng0 * 2 - 1\<bar> \<le> 1"
    using random_ok_shd [OF r] by auto
  moreover have K: "0 \<le> boidWanderSpeed * dt"
    using dt by (simp add: boid_consts)
  ultimately have "\<bar>shd rng0 * 2 - 1\<bar> * (boidWanderSpeed * dt) \<le> boidWanderSpeed * dt"
    using mult_right_mono [of "\<bar>shd rng0 * 2 - 1\<bar>" 1 "boidWanderSpeed * dt"] by simp
  moreover have "wanderAngle (bs' ! index) - wanderAngle (bs ! index) = (shd rng0 * 2 - 1) * (boidWanderSpeed * dt)"
    using wa \<open>wanderAngle (bs' ! index) = wanderAngle c\<close> by simp
  ultimately show ?thesis
    by (simp only: abs_mult_pos [OF K])
qed

theorem updateBoid_wander_bound_witness:
  "updateBoid example_world 0 (1 / 50) example_row (sconst (1 / 4)) =
     Inr (example_row[0 := \<lparr>boid_x = 2 + (cos pi * 200 + cos (pi - 2 / 5) * 6) * (1 / 50), boid_y = 500 + (sin pi * 200 + sin (pi - 2 / 5) * 6) * (1 / 50),
                              wanderAngle = pi - 2 / 5, angle = pi, speed = 200, boid_size = 2, color_hue = 0\<rparr>],
          sconst (1 / 4)) \<and>
   0 < length example_row \<and> random_ok (sconst (1 / 4)) \<and> 0 \<le> (1 / 50 :: real) \<and>
   \<bar>wanderAngle (example_row[0 := \<lparr>boid_x = 2 + (cos pi * 200 + cos (pi - 2 / 5) * 6) * (1 / 50), boid_y = 500 + (sin pi * 200 + sin (pi - 2 / 5) * 6) * (1 / 50),
                              wanderAngle = pi - 2 / 5, angle = pi, speed = 200, boid_size = 2, color_hue = 0\<rparr>] ! 0) -
     wanderAngle (example_row ! 0)\<bar> \<le> boidWanderSpeed * (1 / 50)"
proof -
  have ok: "updateBoid example_world 0 (1 / 50) example_row (sconst (1 / 4)) =
     Inr (example_row[0 := \<lparr>boid_x = 2 + (cos pi * 200 + cos (pi - 2 / 5) * 6) * (1 / 50), boid_y = 500 + (sin pi * 200 + sin (pi - 2 / 5) * 6) * (1 / 50),
                              wanderAngle = pi - 2 / 5, angle = pi, speed = 200, boid_size = 2, color_hue = 0\<rparr>],
          sconst (1 / 4))"
    by (simp add: updateBoid_def random_def wander_def applyForces_unfold others_def sees_def boid_consts upt_rec
        applyCollisions_def collide_pair_def clamp_boid_def integrate_def Let_def)
  have r: "random_ok (sconst (1 / 4 :: real))"
    by (simp add: random_ok_sconst)
  show ?thesis
    using updateBoid_wander_bound [OF ok _ r] ok r by simp
qed

text \<open>
  C23. The frame is an in-order (Gauss--Seidel) sweep: each boid's state at the end of
  the frame is the one its own update left, since the updates of later indices write
  only later boids. So boid \<open>k\<close> is final once indices \<open>0 .. k\<close> are done, and the
  update of index \<open>k\<close> reads boids \<open>0 .. k - 1\<close> in their final state for this frame.
\<close>

theorem updateAll_settles_in_order:
  assumes ok: "updateAll w dt [0..<n] bs rng0 = Inr (bs', rng')" and k: "k < n" and n: "n \<le> length bs"
  shows "\<exists>bs1 rng1. updateAll w dt [0..<Suc k] bs rng0 = Inr (bs1, rng1) \<and> (\<forall>j \<le> k. bs' ! j = bs1 ! j)"
proof -
  have split: "[0..<n] = [0..<Suc k] @ [Suc k..<n]"
    using k upt_add_eq_append [of 0 "Suc k" "n - Suc k"] by simp
  obtain bs1 rng1 where first: "updateAll w dt [0..<Suc k] bs rng0 = Inr (bs1, rng1)"
    and rest: "updateAll w dt [Suc k..<n] bs1 rng1 = Inr (bs', rng')"
    using ok unfolding split updateAll_append by (auto split: sum.splits)
  have "length bs1 = length bs"
    using updateAll_keeps_below [OF first, of 0] k n by auto
  then have "\<forall>j < Suc k. bs' ! j = bs1 ! j"
    using updateAll_keeps_below [OF rest, of "Suc k"] n by auto
  then show ?thesis
    using first by auto
qed

theorem updateAll_settles_in_order_witness:
  "updateAll example_world (1 / 50) [0..<10] example_row (sconst (1 / 2)) = Inr (example_row1, sconst (1 / 2)) \<and>
   (0 :: nat) < 10 \<and> 10 \<le> length example_row \<and>
   (\<exists>bs1 rng1. updateAll example_world (1 / 50) [0..<Suc 0] example_row (sconst (1 / 2)) = Inr (bs1, rng1) \<and>
               bs1 ! 0 = example_row1 ! 0)"
proof -
  have ok: "updateAll example_world (1 / 50) [0..<10] example_row (sconst (1 / 2)) = Inr (example_row1, sconst (1 / 2))"
    by (simp add: boid_consts upt_rec updateBoid_def random_def wander_def applyForces_unfold others_def sees_def
        applyCollisions_def collide_pair_def clamp_boid_def integrate_def Let_def)
  show ?thesis
    using updateAll_settles_in_order [OF ok, of 0] ok by auto
qed

text \<open>
  C26. Liveness of the population controller: while frames come faster than 60 per
  second, every frame appends a boid until the flock reaches \<open>maxBoidAmount\<close>; after
  \<open>k\<close> such frames a flock of \<open>n\<close> boids has \<open>min (n + k) 500\<close>.
\<close>

theorem run_fills_at_high_rate:
  assumes "run w ts s = Inr s'" and "fast_clock (lastTime s) ts" and "length (boids s) \<le> maxBoidAmount"
  shows "length (boids s') = min (length (boids s) + length ts) maxBoidAmount"
  using assms
proof (induction ts arbitrary: s)
  case Nil
  then show ?case by simp
next
  case (Cons t ts)
  obtain s1 where l: "loop w t s = Inr s1" and r: "run w ts s1 = Inr s'"
    using Cons.prems(1) by (auto split: sum.splits)
  have clk: "lastTime s \<le> t" "t - lastTime s < 1000 / 60" "fast_clock t ts"
    using Cons.prems(2) by simp_all
  have dt: "0 \<le> deltaTime t (lastTime s)" "deltaTime t (lastTime s) < 1 / 60"
    using clk(1,2) by (auto simp: deltaTime_def)
  then have gt: "fps_gt (fps_of (deltaTime t (lastTime s))) 60"
    by (simp add: fps_gt_60_iff)
  have len1: "length (boids s1) = min (length (boids s) + 1) maxBoidAmount" and t1: "lastTime s1 = t"
    using loop_length [OF l] gt fps_gt_lt_exclusive [OF gt] Cons.prems(3)
    by (auto simp: populationControl_cases split: if_splits)
  have "length (boids s') = min (length (boids s1) + length ts) maxBoidAmount"
    using Cons.IH [OF r] clk(3) len1 t1 by simp
  then show ?case
    using len1 Cons.prems(3) by simp
qed

theorem run_fills_at_high_rate_witness:
  "run \<lparr>width = 2000, height = 1000\<rparr> [10] \<lparr>boids = [], lastTime = 0, rng = sconst (1 / 2)\<rparr> =
     Inr \<lparr>boids = [\<lparr>boid_x = 1000 + (cos pi * 210 + cos pi * 6) * (1 / 100),
                     boid_y = 500 + (sin pi * 210 + sin pi * 6) * (1 / 100),
                     wanderAngle = pi, angle = pi, speed = 210, boid_size = 6, color_hue = 180\<rparr>],
          lastTime = 10, rng = sconst (1 / 2)\<rparr> \<and>
   fast_clock 0 [10] \<and> length ([] :: boid list) \<le> maxBoidAmount \<and>
   length (boids \<lparr>boids = [\<lparr>boid_x = 1000 + (cos pi * 210 + cos pi * 6) * (1 / 100),
                     boid_y = 500 + (sin pi * 210 + sin pi * 6) * (1 / 100),
                     wanderAngle = pi, angle = pi, speed = 210, boid_size = 6, color_hue = 180\<rparr>],
          lastTime = 10, rng = sconst (1 / 2)\<rparr>) = min (0 + 1) maxBoidAmount"
proof -
  have ok: "run \<lparr>width = 2000, height = 1000\<rparr> [10] \<lparr>boids = [], lastTime = 0, rng = sconst (1 / 2)\<rparr> =
     Inr \<lparr>boids = [\<lparr>boid_x = 1000 + (cos pi * 210 + cos pi * 6) * (1 / 100),
                     boid_y = 500 + (sin pi * 210 + sin pi * 6) * (1 / 100),
                     wanderAngle = pi, angle = pi, speed = 210, boid_size = 6, color_hue = 180\<rparr>],
          lastTime = 10, rng = sconst (1 / 2)\<rparr>"
    by (simp add: loop_def deltaTime_def populationControl_cases fps_of_def boid_consts newBoid_def
        updateBoid_def random_def wander_def applyForces_unfold others_def sees_def
        applyCollisions_def collide_pair_def clamp_boid_def integrate_def Let_def)
  have clk: "fast_clock 0 [10]"
    by simp
  have n: "length ([] :: boid list) \<le> maxBoidAmount"
    by simp
  show ?thesis
    using run_fills_at_high_rate [OF ok] ok clk n by simp
qed

end
