(* ===== verification/Loops.thy ===== *)
theory Loops
  imports Frame
begin

text \<open>
  The two loops of script.js that write the array, as the source writes them: a counter
  compared against \<open>boids.length\<close>, which the condition reads again on every
  iteration. Nothing in HOL's types says the body keeps the length, so these are
  \<^theory_text>\<open>partial_function (option)\<close> definitions where \<open>None\<close> is "does not return".
  The frame loop \<open>for (let i = 0; i < boids.length; i++)\<close> (lines 69--72, drawing
  aside) and the collision loop \<open>for (let i = index + 1; i < boids.length; i++)\<close>
  (lines 171--186) are shown to return on every input, with the results of the
  list-recursive \<open>updateAll\<close> and \<open>collide_loop\<close> that the other theories reason about.
  The termination argument is the measure \<open>length bs - i\<close>, which decreases because
  \<open>updateBoid\<close> and a collision step keep the array's length.
\<close>

section \<open>Definitions\<close>

partial_function (option) frameLoop ::
  "world \<Rightarrow> real \<Rightarrow> nat \<Rightarrow> boid list \<Rightarrow> real stream \<Rightarrow> (fault + boid list \<times> real stream) option" where
  "frameLoop w dt i bs rng0 =
     (if i < length bs
      then (case updateBoid w i dt bs rng0 of
              Inl e \<Rightarrow> Some (Inl e)
            | Inr (bs', rng1) \<Rightarrow> frameLoop w dt (Suc i) bs' rng1)
      else Some (Inr (bs, rng0)))"

partial_function (option) collideFor :: "nat \<Rightarrow> nat \<Rightarrow> boid list \<Rightarrow> (fault + boid list) option" where
  "collideFor index i bs =
     (if i < length bs
      then (case collide_pair (bs ! index) (bs ! i) of
              None \<Rightarrow> Some (Inl (CollisionNaN index i))
            | Some (b0, b1) \<Rightarrow> collideFor index (Suc i) (bs[index := b0, i := b1]))
      else Some (Inr bs))"

section \<open>Adequacy of the list models\<close>

text \<open>
  The frame loop as written terminates on every input: it returns (\<open>Some\<close>), and
  what it returns is the in-order sweep \<open>updateAll\<close> over the indices from \<open>i\<close> to the
  end of the array, a fault included.
\<close>

lemma frameLoop_terminates:
  "frameLoop w dt i bs rng0 = Some (updateAll w dt [i..<length bs] bs rng0)"
proof (induction "length bs - i" arbitrary: i bs rng0)
  case 0
  then show ?case
    by (simp add: frameLoop.simps)
next
  case (Suc n)
  then have i: "i < length bs"
    by simp
  then have up: "[i..<length bs] = i # [Suc i..<length bs]"
    by (simp add: upt_conv_Cons)
  show ?case
  proof (cases "updateBoid w i dt bs rng0")
    case (Inl e)
    then show ?thesis
      using i up by (simp add: frameLoop.simps)
  next
    case (Inr r)
    then obtain bs1 rng1 where u: "updateBoid w i dt bs rng0 = Inr (bs1, rng1)"
      by (cases r) auto
    have len: "length bs1 = length bs"
      using updateBoid_frame [OF u i] by simp
    have "frameLoop w dt (Suc i) bs1 rng1 = Some (updateAll w dt [Suc i..<length bs1] bs1 rng1)"
      using Suc.hyps(1) [of bs1 "Suc i"] Suc.hyps(2) len by simp
    then show ?thesis
      using i up u len by (simp add: frameLoop.simps)
  qed
qed

text \<open>
  The collision loop as written returns on every input and computes what
  \<open>collide_loop\<close> computes over the indices from \<open>i\<close> to the end of the array, so
  \<open>applyCollisions\<close>, which runs \<open>collide_loop\<close> from \<open>index + 1\<close>, is the loop as written.
\<close>

lemma collideFor_eq_collide_loop:
  "collideFor index i bs = Some (collide_loop index [i..<length bs] bs)"
proof (induction "length bs - i" arbitrary: i bs)
  case 0
  then show ?case
    by (simp add: collideFor.simps)
next
  case (Suc n)
  then have i: "i < length bs"
    by simp
  then have up: "[i..<length bs] = i # [Suc i..<length bs]"
    by (simp add: upt_conv_Cons)
  show ?case
  proof (cases "collide_pair (bs ! index) (bs ! i)")
    case None
    then show ?thesis
      using i up by (simp add: collideFor.simps)
  next
    case (Some p)
    then obtain b0 b1 where c: "collide_pair (bs ! index) (bs ! i) = Some (b0, b1)"
      by (cases p) auto
    have "collideFor index (Suc i) (bs[index := b0, i := b1]) =
          Some (collide_loop index [Suc i..<length bs] (bs[index := b0, i := b1]))"
      using Suc.hyps(1) [of "bs[index := b0, i := b1]" "Suc i"] Suc.hyps(2) by simp
    then show ?thesis
      using i up c by (simp add: collideFor.simps)
  qed
qed

end
