(* ===== verification/Canvas.thy ===== *)
theory Canvas
  imports Boids_Prelude
begin

text \<open>
  The part of the HTML canvas 2D context that script.js uses, modelled from the HTML
  standard (it is a host API, not code of the repository). The drawing state holds the
  current \<open>fillStyle\<close>, \<open>font\<close> and \<open>textBaseline\<close> and the current path, a list of
  arcs; the painted picture is the list of marks in painting order, each with the fill
  style it was painted in. The commands are the methods and attribute writes script.js
  performs. \<open>arc\<close> throws an \<open>IndexSizeError\<close> for a negative radius; every other
  command the script uses always succeeds. The colour strings are kept as written
  (the canvas's parsing and serialisation of CSS colours is not modelled), and the
  "ignore non-finite arguments" clauses do not arise over \<open>real\<close>.

  Proved here: a command list in which every \<open>arc\<close> has a non-negative radius runs
  to completion on every canvas (progress), and running a list is running its parts
  in turn.
\<close>

section \<open>Definitions\<close>

text \<open>\<open>ctx.arc(x, y, radius, startAngle, endAngle)\<close>.\<close>

datatype arc = ArcSeg real real real real real

datatype mark =
  RectMark string real real real real
| PathMark string "arc list"
| TextMark string string string string real real

datatype cmd =
  SetFillStyle string
| FillRect real real real real
| SetFont string
| SetTextBaseline string
| FillText string real real
| BeginPath
| Arc real real real real real
| Fill

datatype canvas_error = IndexSizeError

record canvas =
  fillStyle :: string
  font :: string
  textBaseline :: string
  current_path :: "arc list"
  marks :: "mark list"

fun exec_cmd :: "canvas \<Rightarrow> cmd \<Rightarrow> canvas_error + canvas" where
  "exec_cmd cv (SetFillStyle s) = Inr (cv\<lparr>fillStyle := s\<rparr>)"
| "exec_cmd cv (FillRect x y w h) = Inr (cv\<lparr>marks := marks cv @ [RectMark (fillStyle cv) x y w h]\<rparr>)"
| "exec_cmd cv (SetFont f) = Inr (cv\<lparr>font := f\<rparr>)"
| "exec_cmd cv (SetTextBaseline b) = Inr (cv\<lparr>textBaseline := b\<rparr>)"
| "exec_cmd cv (FillText t x y) =
     Inr (cv\<lparr>marks := marks cv @ [TextMark (fillStyle cv) (font cv) (textBaseline cv) t x y]\<rparr>)"
| "exec_cmd cv BeginPath = Inr (cv\<lparr>current_path := []\<rparr>)"
| "exec_cmd cv (Arc x y r a0 a1) =
     (if r < 0 then Inl IndexSizeError
      else Inr (cv\<lparr>current_path := current_path cv @ [ArcSeg x y r a0 a1]\<rparr>))"
| "exec_cmd cv Fill = Inr (cv\<lparr>marks := marks cv @ [PathMark (fillStyle cv) (current_path cv)]\<rparr>)"

fun exec_cmds :: "canvas \<Rightarrow> cmd list \<Rightarrow> canvas_error + canvas" where
  "exec_cmds cv [] = Inr cv"
| "exec_cmds cv (c # cs) = (case exec_cmd cv c of Inl e \<Rightarrow> Inl e | Inr cv' \<Rightarrow> exec_cmds cv' cs)"

text \<open>The typing of a command: the argument constraint under which the canvas accepts it.\<close>

fun cmd_ok :: "cmd \<Rightarrow> bool" where
  "cmd_ok (Arc x y r a0 a1) \<longleftrightarrow> 0 \<le> r"
| "cmd_ok c \<longleftrightarrow> True"

section \<open>Lemmas\<close>

lemma exec_cmd_ok: "cmd_ok c \<Longrightarrow> \<exists>cv'. exec_cmd cv c = Inr cv'"
  by (cases c) auto

lemma exec_cmds_progress: "\<forall>c \<in> set cs. cmd_ok c \<Longrightarrow> \<exists>cv'. exec_cmds cv cs = Inr cv'"
proof (induction cs arbitrary: cv)
  case Nil
  then show ?case by simp
next
  case (Cons c cs)
  have "cmd_ok c"
    using Cons.prems by simp
  then obtain cv1 where "exec_cmd cv c = Inr cv1"
    using exec_cmd_ok by blast
  then show ?case
    using Cons.IH [of cv1] Cons.prems by simp
qed

lemma exec_cmds_append:
  "exec_cmds cv (cs @ ds) = (case exec_cmds cv cs of Inl e \<Rightarrow> Inl e | Inr cv' \<Rightarrow> exec_cmds cv' ds)"
  by (induction cs arbitrary: cv) (auto split: sum.splits)

end
