(* ===== verification/Render.thy ===== *)
theory Render
  imports Canvas Frame
begin

text \<open>
  The renderer of script.js as the canvas commands it issues. \<open>loop()\<close> fades the
  previous picture with a translucent full-canvas rectangle (lines 44--45), writes the
  frame rate over a black box in the top-left corner (lines 62--67), and draws each boid
  right after its update (\<open>drawBoid(i)\<close>, lines 194--221): a disc of the boid's colour
  and a small white "nose" disc on its rim in the direction of its heading.

  Two host conversions of numbers to strings occur: the hue in the colour string
  \<open>"hsl(" + h + ", 100%, 50%)"\<close> (line 248) and, for rates of \<open>10\<^sup>2\<^sup>1\<close> and above,
  \<open>fps.toFixed(1)\<close>. Both are \<open>Number::toString\<close>, whose shortest round-trip digits
  are a property of IEEE doubles, not of reals; the model takes it as a parameter
  \<open>numberToString\<close> and every result holds for all of them. \<open>toFixed(1)\<close> itself
  (ECMAScript, \<open>Number.prototype.toFixed\<close>) is modelled for the finite case:
  round to the nearest tenth, ties up, print the digits with one decimal place.

  \<open>loopRender\<close> is \<open>loop\<close> with its drawing: it returns the new page state and the
  commands of the frame. Proved here: the drawing does not change the simulation;
  every boid is drawn in its end-of-frame state; the commands of a frame from a
  reachable state are accepted by the canvas and paint exactly the picture of the
  spec's renderer contract (\<open>frame_marks\<close>); one \<open>drawBoid\<close> paints exactly its two
  discs; the overlay text is \<open>"FPS: "\<close> and the rate within 0.05.
\<close>

section \<open>Definitions\<close>

subsection \<open>Number formatting\<close>

definition digit_char :: "nat \<Rightarrow> char" where
  "digit_char d = char_of (48 + d)"

text \<open>The decimal digits of a natural number, most significant first.\<close>

fun nat_digits :: "nat \<Rightarrow> string" where
  "nat_digits n = (if n < 10 then [digit_char n] else nat_digits (n div 10) @ [digit_char (n mod 10)])"

declare nat_digits.simps [simp del]

text \<open>
  \<open>x.toFixed(1)\<close> for a finite \<open>x\<close>: the sign, then, below \<open>10\<^sup>2\<^sup>1\<close>, the integer
  \<open>n\<close> with \<open>n / 10\<close> nearest to \<open>|x|\<close> (the larger on a tie) printed with one
  decimal place and a leading \<open>0\<close> when \<open>n < 10\<close>; from \<open>10\<^sup>2\<^sup>1\<close> on,
  \<open>Number::toString\<close>.
\<close>

definition toFixed1 :: "(real \<Rightarrow> string) \<Rightarrow> real \<Rightarrow> string" where
  "toFixed1 numberToString x =
     (let s = (if x < 0 then ''-'' else '''');
          a = \<bar>x\<bar>
      in if 10 ^ 21 \<le> a then s @ numberToString a
         else (let n = nat \<lfloor>10 * a + 1 / 2\<rfloor>
               in s @ nat_digits (n div 10) @ ''.'' @ [digit_char (n mod 10)]))"

text \<open>\<open>"FPS: " + fps.toFixed(1)\<close> (line 67); \<open>Infinity.toFixed(1)\<close> is \<open>"Infinity"\<close>.\<close>

fun fps_text :: "(real \<Rightarrow> string) \<Rightarrow> fps \<Rightarrow> string" where
  "fps_text numberToString FpsInfinity = ''FPS: '' @ ''Infinity''"
| "fps_text numberToString (Fps f) = ''FPS: '' @ toFixed1 numberToString f"

text \<open>The colour string \<open>"hsl(" + h + ", 100%, 50%)"\<close> of \<open>newBoid\<close> (line 248).\<close>

definition color_string :: "(real \<Rightarrow> string) \<Rightarrow> real \<Rightarrow> string" where
  "color_string numberToString h = ''hsl('' @ numberToString h @ '', 100%, 50%)''"

subsection \<open>The drawing commands\<close>

text \<open>Lines 44--45: the trail fade.\<close>

definition fadeTrail :: "world \<Rightarrow> cmd list" where
  "fadeTrail w = [SetFillStyle ''rgba(0, 0, 0, 0.025)'', FillRect 0 0 (width w) (height w)]"

text \<open>Lines 62--67: the frame-rate overlay.\<close>

definition fpsOverlay :: "(real \<Rightarrow> string) \<Rightarrow> fps \<Rightarrow> cmd list" where
  "fpsOverlay numberToString fps =
     [SetFont ''12px monospace'', SetFillStyle ''black'', FillRect 0 0 (6 * 12) 12,
      SetTextBaseline ''top'', SetFillStyle ''white'', FillText (fps_text numberToString fps) 0 0]"

text \<open>\<open>drawBoid(index)\<close>, lines 194--221.\<close>

definition drawBoid :: "(real \<Rightarrow> string) \<Rightarrow> boid list \<Rightarrow> nat \<Rightarrow> cmd list" where
  "drawBoid numberToString bs index =
     (let boid = bs ! index
      in [SetFillStyle (color_string numberToString (color_hue boid)),
          BeginPath, Arc (boid_x boid) (boid_y boid) (boid_size boid) 0 (pi * 2), Fill,
          SetFillStyle ''white'',
          BeginPath,
          Arc (boid_x boid + cos (angle boid) * boid_size boid) (boid_y boid + sin (angle boid) * boid_size boid)
              (boid_size boid / 4) 0 (pi * 2),
          Fill])"

text \<open>The loop of lines 69--72 with its \<open>drawBoid(i)\<close>.\<close>

fun updateDrawAll ::
  "(real \<Rightarrow> string) \<Rightarrow> world \<Rightarrow> real \<Rightarrow> nat list \<Rightarrow> boid list \<Rightarrow> real stream \<Rightarrow>
   fault + boid list \<times> real stream \<times> cmd list" where
  "updateDrawAll numberToString w dt [] bs rng0 = Inr (bs, rng0, [])"
| "updateDrawAll numberToString w dt (i # ixs) bs rng0 =
     (case updateBoid w i dt bs rng0 of
        Inl e \<Rightarrow> Inl e
      | Inr (bs1, rng1) \<Rightarrow>
          (case updateDrawAll numberToString w dt ixs bs1 rng1 of
             Inl e \<Rightarrow> Inl e
           | Inr (bs2, rng2, cs) \<Rightarrow> Inr (bs2, rng2, drawBoid numberToString bs1 i @ cs)))"

text \<open>\<open>loop()\<close> (lines 43--75) with its drawing.\<close>

definition loopRender :: "(real \<Rightarrow> string) \<Rightarrow> world \<Rightarrow> real \<Rightarrow> sim \<Rightarrow> fault + sim \<times> cmd list" where
  "loopRender numberToString w time s =
     (let dt = deltaTime time (lastTime s);
          (bs1, rng1) = populationControl w dt (boids s) (rng s)
      in case updateDrawAll numberToString w dt [0..<length bs1] bs1 rng1 of
           Inl e \<Rightarrow> Inl e
         | Inr (bs2, rng2, cs) \<Rightarrow>
             Inr (\<lparr>boids = bs2, lastTime = time, rng = rng2\<rparr>,
                  fadeTrail w @ fpsOverlay numberToString (fps_of dt) @ cs))"

subsection \<open>The picture the specification describes\<close>

text \<open>
  The renderer's contract (spec, section 6): per boid "a filled circle at position with
  given radius/color and a small nose marker offset along heading", and per frame a
  translucent full-frame rectangle and a text overlay with the frame rate.
\<close>

definition boid_marks :: "(real \<Rightarrow> string) \<Rightarrow> boid \<Rightarrow> mark list" where
  "boid_marks numberToString b =
     [PathMark (color_string numberToString (color_hue b)) [ArcSeg (boid_x b) (boid_y b) (boid_size b) 0 (pi * 2)],
      PathMark ''white''
        [ArcSeg (boid_x b + cos (angle b) * boid_size b) (boid_y b + sin (angle b) * boid_size b)
                (boid_size b / 4) 0 (pi * 2)]]"

definition frame_marks :: "(real \<Rightarrow> string) \<Rightarrow> world \<Rightarrow> fps \<Rightarrow> boid list \<Rightarrow> mark list" where
  "frame_marks numberToString w fps bs =
     [RectMark ''rgba(0, 0, 0, 0.025)'' 0 0 (width w) (height w), RectMark ''black'' 0 0 72 12,
      TextMark ''white'' ''12px monospace'' ''top'' (fps_text numberToString fps) 0 0] @
     concat (map (boid_marks numberToString) bs)"

section \<open>Lemmas\<close>

subsection \<open>Printing numbers\<close>

lemma toFixed1_below:
  "\<bar>x\<bar> < 10 ^ 21 \<Longrightarrow>
   toFixed1 numberToString x =
     (if x < 0 then ''-'' else '''') @ nat_digits (nat \<lfloor>10 * \<bar>x\<bar> + 1 / 2\<rfloor> div 10) @ ''.'' @
       [digit_char (nat \<lfloor>10 * \<bar>x\<bar> + 1 / 2\<rfloor> mod 10)]"
  by (simp add: toFixed1_def Let_def not_le)

lemma round_tenth: "0 \<le> a \<Longrightarrow> \<bar>real (nat \<lfloor>10 * a + 1 / 2\<rfloor>) / 10 - a\<bar> \<le> 1 / 20"
proof -
  assume a: "0 \<le> a"
  have n: "real (nat \<lfloor>10 * a + 1 / 2\<rfloor>) = of_int \<lfloor>10 * a + 1 / 2\<rfloor>"
    using a by simp
  define F where "F = (of_int \<lfloor>10 * a + 1 / 2\<rfloor> :: real)"
  have "F \<le> 10 * a + 1 / 2" "10 * a + 1 / 2 < F + 1"
    unfolding F_def by linarith+
  then have "F / 10 - a \<le> 1 / 20" "a - F / 10 \<le> 1 / 20"
    by linarith+
  then have "\<bar>F / 10 - a\<bar> \<le> 1 / 20"
    by (simp only: abs_le_iff minus_diff_eq)
  then show ?thesis
    unfolding n F_def .
qed

subsection \<open>Drawing within a frame\<close>

lemma updateDrawAll_state:
  "map_sum id (\<lambda>(bs, r, cs). (bs, r)) (updateDrawAll numberToString w dt ixs bs rng0) = updateAll w dt ixs bs rng0"
proof (induction ixs arbitrary: bs rng0)
  case Nil
  then show ?case by simp
next
  case (Cons i ixs)
  show ?case
  proof (cases "updateBoid w i dt bs rng0")
    case (Inl e)
    then show ?thesis by simp
  next
    case (Inr r)
    then obtain bs1 rng1 where u: "updateBoid w i dt bs rng0 = Inr (bs1, rng1)"
      by (cases r) auto
    show ?thesis
      using Cons.IH [of bs1 rng1] u by (auto split: sum.splits prod.splits)
  qed
qed

lemma drawBoid_nth_cong: "bs ! i = bs' ! i \<Longrightarrow> drawBoid numberToString bs i = drawBoid numberToString bs' i"
  by (simp add: drawBoid_def)

text \<open>Each boid is drawn as its own update left it, which is its state at the end of the sweep.\<close>

lemma updateDrawAll_draws:
  "updateDrawAll numberToString w dt ixs bs rng0 = Inr (bs', rng', cs) \<Longrightarrow>
   sorted_wrt (<) ixs \<Longrightarrow> \<forall>i \<in> set ixs. i < length bs \<Longrightarrow>
   updateAll w dt ixs bs rng0 = Inr (bs', rng') \<and> cs = concat (map (drawBoid numberToString bs') ixs)"
proof (induction ixs arbitrary: bs rng0 cs)
  case Nil
  then show ?case by simp
next
  case (Cons i ixs)
  obtain bs1 rng1 cs1 where u: "updateBoid w i dt bs rng0 = Inr (bs1, rng1)"
    and rest: "updateDrawAll numberToString w dt ixs bs1 rng1 = Inr (bs', rng', cs1)"
    and cs: "cs = drawBoid numberToString bs1 i @ cs1"
    using Cons.prems(1) by (auto split: sum.splits prod.splits)
  have i: "i < length bs"
    using Cons.prems(3) by simp
  have len: "length bs1 = length bs"
    using updateBoid_frame [OF u i] by simp
  have later: "\<forall>j \<in> set ixs. Suc i \<le> j \<and> j < length bs1"
    using Cons.prems(2,3) len by (auto simp: Suc_le_eq)
  have ih: "updateAll w dt ixs bs1 rng1 = Inr (bs', rng') \<and> cs1 = concat (map (drawBoid numberToString bs') ixs)"
    using Cons.IH [OF rest] Cons.prems(2) later by simp
  have "bs' ! i = bs1 ! i"
    using updateAll_keeps_below [of w dt ixs bs1 rng1 bs' rng' "Suc i"] ih later by simp
  then have "drawBoid numberToString bs1 i = drawBoid numberToString bs' i"
    by (rule drawBoid_nth_cong [symmetric])
  then show ?case
    using u ih cs by simp
qed

lemma loopRender_Inr:
  assumes "loopRender numberToString w time s = Inr (s', cs)"
  shows "loop w time s = Inr s' \<and>
         cs = fadeTrail w @ fpsOverlay numberToString (fps_of (deltaTime time (lastTime s))) @
              concat (map (drawBoid numberToString (boids s')) [0..<length (boids s')])"
proof -
  obtain bs1 rng1 where pc: "populationControl w (deltaTime time (lastTime s)) (boids s) (rng s) = (bs1, rng1)"
    by (cases "populationControl w (deltaTime time (lastTime s)) (boids s) (rng s)")
  then obtain bs2 rng2 cs0 where
    ud: "updateDrawAll numberToString w (deltaTime time (lastTime s)) [0..<length bs1] bs1 rng1 = Inr (bs2, rng2, cs0)"
    and s': "s' = \<lparr>boids = bs2, lastTime = time, rng = rng2\<rparr>"
    and cs: "cs = fadeTrail w @ fpsOverlay numberToString (fps_of (deltaTime time (lastTime s))) @ cs0"
    using assms by (auto simp: loopRender_def Let_def split: sum.splits prod.splits)
  have d: "updateAll w (deltaTime time (lastTime s)) [0..<length bs1] bs1 rng1 = Inr (bs2, rng2) \<and>
           cs0 = concat (map (drawBoid numberToString bs2) [0..<length bs1])"
    using updateDrawAll_draws [OF ud] by simp
  have "length bs2 = length bs1"
    using updateAll_frame [of w "deltaTime time (lastTime s)" "[0..<length bs1]" bs1 rng1 bs2 rng2] d by simp
  then show ?thesis
    using d pc s' cs by (simp add: loop_def Let_def)
qed

subsection \<open>Running the drawing on the canvas\<close>

lemma exec_drawBoid:
  "0 \<le> boid_size (bs ! i) \<Longrightarrow>
   exec_cmds cv (drawBoid numberToString bs i) =
     Inr (cv\<lparr>fillStyle := ''white'',
             current_path := [ArcSeg (boid_x (bs ! i) + cos (angle (bs ! i)) * boid_size (bs ! i))
                                     (boid_y (bs ! i) + sin (angle (bs ! i)) * boid_size (bs ! i))
                                     (boid_size (bs ! i) / 4) 0 (pi * 2)],
             marks := marks cv @ boid_marks numberToString (bs ! i)\<rparr>)"
  by (simp add: drawBoid_def boid_marks_def Let_def)

lemma exec_drawBoids:
  "\<forall>i \<in> set ixs. i < length bs \<and> 0 \<le> boid_size (bs ! i) \<Longrightarrow>
   \<exists>cv'. exec_cmds cv (concat (map (drawBoid numberToString bs) ixs)) = Inr cv' \<and>
         marks cv' = marks cv @ concat (map (boid_marks numberToString) (map (nth bs) ixs))"
proof (induction ixs arbitrary: cv)
  case Nil
  then show ?case by simp
next
  case (Cons i ixs)
  let ?cv1 = "cv\<lparr>fillStyle := ''white'',
             current_path := [ArcSeg (boid_x (bs ! i) + cos (angle (bs ! i)) * boid_size (bs ! i))
                                     (boid_y (bs ! i) + sin (angle (bs ! i)) * boid_size (bs ! i))
                                     (boid_size (bs ! i) / 4) 0 (pi * 2)],
             marks := marks cv @ boid_marks numberToString (bs ! i)\<rparr>"
  have d: "exec_cmds cv (drawBoid numberToString bs i) = Inr ?cv1"
    using Cons.prems by (simp add: exec_drawBoid)
  obtain cv' where r: "exec_cmds ?cv1 (concat (map (drawBoid numberToString bs) ixs)) = Inr cv'"
    and m: "marks cv' = marks ?cv1 @ concat (map (boid_marks numberToString) (map (nth bs) ixs))"
    using Cons.IH [of ?cv1] Cons.prems by auto
  show ?case
    using d r m by (simp add: exec_cmds_append)
qed

lemma exec_frame_header:
  "exec_cmds cv (fadeTrail w @ fpsOverlay numberToString f @ rest) =
     exec_cmds (cv\<lparr>font := ''12px monospace'', textBaseline := ''top'', fillStyle := ''white'',
             marks := marks cv @ take 3 (frame_marks numberToString w f [])\<rparr>) rest"
  by (simp add: fadeTrail_def fpsOverlay_def frame_marks_def)

lemma loopRender_of_loop:
  assumes "loop w time s = Inr s'"
  shows "\<exists>cs. loopRender numberToString w time s = Inr (s', cs)"
proof -
  obtain bs1 rng1 where pc: "populationControl w (deltaTime time (lastTime s)) (boids s) (rng s) = (bs1, rng1)"
    by (cases "populationControl w (deltaTime time (lastTime s)) (boids s) (rng s)")
  have eq: "map_sum id (\<lambda>(bs, r, cs). (bs, r))
      (updateDrawAll numberToString w (deltaTime time (lastTime s)) [0..<length bs1] bs1 rng1) =
      updateAll w (deltaTime time (lastTime s)) [0..<length bs1] bs1 rng1"
    by (rule updateDrawAll_state)
  show ?thesis
    using assms pc eq by (auto simp: loopRender_def loop_def Let_def split: sum.splits prod.splits)
qed

text \<open>
  Drawing is observation only: \<open>loop()\<close> with its canvas commands computes the
  same page state, or the same fault, as the frame without them.
\<close>

lemma loopRender_simulation:
  "map_sum id fst (loopRender numberToString w time s) = loop w time s"
proof -
  obtain bs1 rng1 where pc: "populationControl w (deltaTime time (lastTime s)) (boids s) (rng s) = (bs1, rng1)"
    by (cases "populationControl w (deltaTime time (lastTime s)) (boids s) (rng s)")
  have eq: "map_sum id (\<lambda>(bs, r, cs). (bs, r))
      (updateDrawAll numberToString w (deltaTime time (lastTime s)) [0..<length bs1] bs1 rng1) =
      updateAll w (deltaTime time (lastTime s)) [0..<length bs1] bs1 rng1"
    by (rule updateDrawAll_state)
  show ?thesis
    using pc eq by (auto simp: loopRender_def loop_def Let_def split: sum.splits prod.splits)
qed

section \<open>Properties of the renderer\<close>

text \<open>
  C27. The picture of a frame shows every boid where the frame leaves it: the commands
  are the fade, the overlay with this frame's rate, and then \<open>drawBoid\<close> of every index
  in order, each reading the boid's end-of-frame state. Although \<open>drawBoid(i)\<close> runs
  before the updates of later boids, those never move boid \<open>i\<close> (their collision
  loops only visit later indices).
\<close>

theorem loopRender_draws_final_state:
  assumes "loopRender numberToString w time s = Inr (s', cs)"
  shows "cs = fadeTrail w @ fpsOverlay numberToString (fps_of (deltaTime time (lastTime s))) @
              concat (map (drawBoid numberToString (boids s')) [0..<length (boids s')])"
  using loopRender_Inr [OF assms] by simp

theorem loopRender_draws_final_state_witness:
  "loopRender (\<lambda>_. ''0'') example_world 10 \<lparr>boids = [], lastTime = 0, rng = sconst (1 / 2)\<rparr> =
     Inr (\<lparr>boids = [\<lparr>boid_x = 1000 + (cos pi * 210 + cos pi * 6) * (1 / 100),
                      boid_y = 500 + (sin pi * 210 + sin pi * 6) * (1 / 100),
                      wanderAngle = pi, angle = pi, speed = 210, boid_size = 6, color_hue = 180\<rparr>],
           lastTime = 10, rng = sconst (1 / 2)\<rparr>,
          fadeTrail example_world @ fpsOverlay (\<lambda>_. ''0'') (fps_of (deltaTime 10 0)) @
          drawBoid (\<lambda>_. ''0'') [\<lparr>boid_x = 1000 + (cos pi * 210 + cos pi * 6) * (1 / 100),
                      boid_y = 500 + (sin pi * 210 + sin pi * 6) * (1 / 100),
                      wanderAngle = pi, angle = pi, speed = 210, boid_size = 6, color_hue = 180\<rparr>] 0) \<and>
   fps_of (deltaTime 10 0) = Fps 100"
proof -
  have ok: "loopRender (\<lambda>_. ''0'') example_world 10 \<lparr>boids = [], lastTime = 0, rng = sconst (1 / 2)\<rparr> =
     Inr (\<lparr>boids = [\<lparr>boid_x = 1000 + (cos pi * 210 + cos pi * 6) * (1 / 100),
                      boid_y = 500 + (sin pi * 210 + sin pi * 6) * (1 / 100),
                      wanderAngle = pi, angle = pi, speed = 210, boid_size = 6, color_hue = 180\<rparr>],
           lastTime = 10, rng = sconst (1 / 2)\<rparr>,
          fadeTrail example_world @ fpsOverlay (\<lambda>_. ''0'') (fps_of (deltaTime 10 0)) @
          drawBoid (\<lambda>_. ''0'') [\<lparr>boid_x = 1000 + (cos pi * 210 + cos pi * 6) * (1 / 100),
                      boid_y = 500 + (sin pi * 210 + sin pi * 6) * (1 / 100),
                      wanderAngle = pi, angle = pi, speed = 210, boid_size = 6, color_hue = 180\<rparr>] 0)"
    by (simp add: loopRender_def deltaTime_def populationControl_cases fps_of_def boid_consts newBoid_def
        updateBoid_def random_def wander_def applyForces_unfold others_def sees_def
        applyCollisions_def collide_pair_def clamp_boid_def integrate_def Let_def)
  show ?thesis
    using loopRender_draws_final_state [OF ok] ok by (simp add: deltaTime_def fps_of_def)
qed

text \<open>
  C28. What one \<open>drawBoid(i)\<close> paints: on any canvas its commands run to the end and
  add exactly two filled paths, a disc of radius \<open>size\<close> in the boid's colour at its
  position and a white disc of radius \<open>size / 4\<close> centred on the rim of the first in
  the direction of the heading (at distance \<open>size\<close> from the centre); the fill style is
  left white.
\<close>

theorem drawBoid_paints_two_discs:
  assumes "0 \<le> boid_size (bs ! i)"
  shows "\<exists>cv'. exec_cmds cv (drawBoid numberToString bs i) = Inr cv' \<and>
     marks cv' = marks cv @
       [PathMark (color_string numberToString (color_hue (bs ! i)))
          [ArcSeg (boid_x (bs ! i)) (boid_y (bs ! i)) (boid_size (bs ! i)) 0 (pi * 2)],
        PathMark ''white''
          [ArcSeg (boid_x (bs ! i) + cos (angle (bs ! i)) * boid_size (bs ! i))
                  (boid_y (bs ! i) + sin (angle (bs ! i)) * boid_size (bs ! i)) (boid_size (bs ! i) / 4) 0 (pi * 2)]] \<and>
     fillStyle cv' = ''white'' \<and>
     hypot (cos (angle (bs ! i)) * boid_size (bs ! i)) (sin (angle (bs ! i)) * boid_size (bs ! i)) = boid_size (bs ! i)"
  using assms by (simp add: drawBoid_def Let_def hypot_polar)

theorem drawBoid_paints_two_discs_witness:
  "0 \<le> boid_size ([\<lparr>boid_x = 100, boid_y = 50, wanderAngle = 0, angle = 0, speed = 200, boid_size = 4, color_hue = 0\<rparr>] ! 0) \<and>
   exec_cmds \<lparr>fillStyle = '''', font = '''', textBaseline = '''', current_path = [], marks = []\<rparr>
     (drawBoid (\<lambda>_. ''0'') [\<lparr>boid_x = 100, boid_y = 50, wanderAngle = 0, angle = 0, speed = 200, boid_size = 4, color_hue = 0\<rparr>] 0) =
   Inr \<lparr>fillStyle = ''white'', font = '''', textBaseline = '''', current_path = [ArcSeg 104 50 1 0 (pi * 2)],
        marks = [PathMark ''hsl(0, 100%, 50%)'' [ArcSeg 100 50 4 0 (pi * 2)], PathMark ''white'' [ArcSeg 104 50 1 0 (pi * 2)]]\<rparr>"
proof -
  have "0 \<le> boid_size ([\<lparr>boid_x = 100, boid_y = 50, wanderAngle = 0, angle = 0, speed = 200, boid_size = 4, color_hue = 0\<rparr>] ! 0)"
    by simp
  note d = drawBoid_paints_two_discs [OF this, of "\<lparr>fillStyle = '''', font = '''', textBaseline = '''', current_path = [], marks = []\<rparr>" "\<lambda>_. ''0''"]
  then show ?thesis
    by (simp add: drawBoid_def color_string_def)
qed

text \<open>
  C29. The overlay shows the frame rate to within 0.05: for a finite rate below
  \<open>10\<^sup>2\<^sup>1\<close> the text is \<open>"FPS: "\<close> followed by the decimal digits of a number of
  tenths \<open>n\<close> with \<open>|n / 10 - fps| \<le> 0.05\<close>.
\<close>

theorem fps_text_within_tenth:
  assumes "0 \<le> f" and "f < 10 ^ 21"
  shows "\<exists>n. fps_text numberToString (Fps f) = ''FPS: '' @ nat_digits (n div 10) @ ''.'' @ [digit_char (n mod 10)] \<and>
             \<bar>real n / 10 - f\<bar> \<le> 1 / 20"
proof -
  have "\<bar>f\<bar> < 10 ^ 21"
    using assms by simp
  then have "fps_text numberToString (Fps f) =
      ''FPS: '' @ nat_digits (nat \<lfloor>10 * f + 1 / 2\<rfloor> div 10) @ ''.'' @ [digit_char (nat \<lfloor>10 * f + 1 / 2\<rfloor> mod 10)]"
    using toFixed1_below assms(1) by simp
  then show ?thesis
    using round_tenth [OF assms(1)] by blast
qed

theorem fps_text_within_tenth_witness:
  "0 \<le> (50 :: real) \<and> (50 :: real) < 10 ^ 21 \<and> fps_text (\<lambda>_. '''') (Fps 50) = ''FPS: 50.0'' \<and>
   (\<exists>n. fps_text (\<lambda>_. '''') (Fps 50) = ''FPS: '' @ nat_digits (n div 10) @ ''.'' @ [digit_char (n mod 10)] \<and>
        \<bar>real n / 10 - 50\<bar> \<le> 1 / 20)"
proof -
  have a: "0 \<le> (50 :: real)" "(50 :: real) < 10 ^ 21"
    by simp_all
  have ex: "\<exists>n. fps_text (\<lambda>_. '''') (Fps 50) = ''FPS: '' @ nat_digits (n div 10) @ ''.'' @ [digit_char (n mod 10)] \<and>
        \<bar>real n / 10 - 50\<bar> \<le> 1 / 20"
    by (rule fps_text_within_tenth [OF a])
  have c: "char_of (53 :: nat) = CHR ''5''" "char_of (48 :: nat) = CHR ''0''"
    by code_simp+
  have "fps_text (\<lambda>_. '''') (Fps 50) = ''FPS: 50.0''"
    using c by (simp add: toFixed1_def nat_digits.simps digit_char_def)
  then show ?thesis
    using a ex by blast
qed

text \<open>
  C30. Refinement of the renderer's contract: run on any canvas, the commands of a frame
  from a reachable state paint exactly the picture the specification describes, and in
  this order: the translucent fade over the whole world, the black overlay box, the
  frame-rate text, and then for every boid in array order its disc and its nose marker,
  each at the boid's end-of-frame position and heading.
\<close>

theorem loopRender_paints_spec_picture:
  assumes r: "reachable w s" and t: "lastTime s \<le> time"
    and ok: "loopRender numberToString w time s = Inr (s', cs)"
  shows "\<exists>cv'. exec_cmds cv cs = Inr cv' \<and>
     marks cv' = marks cv @ frame_marks numberToString w (fps_of (deltaTime time (lastTime s))) (boids s')"
proof -
  let ?f = "fps_of (deltaTime time (lastTime s))"
  have l: "loop w time s = Inr s'" and cs: "cs = fadeTrail w @ fpsOverlay numberToString ?f @
              concat (map (drawBoid numberToString (boids s')) [0..<length (boids s')])"
    using loopRender_Inr [OF ok] by simp_all
  have "sim_inv s'"
    using loop_sim_inv [OF l reachable_sim_inv [OF r] t] by simp
  then have "\<forall>i \<in> set [0..<length (boids s')]. i < length (boids s') \<and> 0 \<le> boid_size (boids s' ! i)"
    using boids_wf_nth boid_wf_size_pos by (fastforce simp: sim_inv_def less_imp_le)
  then obtain cv' where d: "exec_cmds (cv\<lparr>font := ''12px monospace'', textBaseline := ''top'', fillStyle := ''white'',
             marks := marks cv @ take 3 (frame_marks numberToString w ?f [])\<rparr>)
        (concat (map (drawBoid numberToString (boids s')) [0..<length (boids s')])) = Inr cv'"
    and m: "marks cv' = marks cv @ take 3 (frame_marks numberToString w ?f []) @
        concat (map (boid_marks numberToString) (map (nth (boids s')) [0..<length (boids s')]))"
    using exec_drawBoids by fastforce
  have "map (nth (boids s')) [0..<length (boids s')] = boids s'"
    by (rule map_nth)
  then show ?thesis
    using d m by (simp add: cs exec_frame_header frame_marks_def)
qed

theorem loopRender_paints_spec_picture_witness:
  "reachable example_world (init example_world example_supply) \<and> lastTime (init example_world example_supply) \<le> 20 \<and>
   loopRender (\<lambda>_. ''0'') example_world 20 (init example_world example_supply) =
     Inr (example_page1, fadeTrail example_world @ fpsOverlay (\<lambda>_. ''0'') (fps_of (deltaTime 20 (lastTime (init example_world example_supply)))) @
                         concat (map (drawBoid (\<lambda>_. ''0'') example_row1) [0..<length example_row1])) \<and>
   (\<exists>cv'. exec_cmds \<lparr>fillStyle = '''', font = '''', textBaseline = '''', current_path = [], marks = []\<rparr>
      (fadeTrail example_world @ fpsOverlay (\<lambda>_. ''0'') (fps_of (deltaTime 20 (lastTime (init example_world example_supply)))) @
       concat (map (drawBoid (\<lambda>_. ''0'') example_row1) [0..<length example_row1])) = Inr cv' \<and>
      marks cv' = frame_marks (\<lambda>_. ''0'') example_world (fps_of (deltaTime 20 (lastTime (init example_world example_supply)))) example_row1)"
proof -
  have l: "loop example_world 20 (init example_world example_supply) = Inr example_page1"
    by (simp add: example_init example_frame)
  obtain cs where ok: "loopRender (\<lambda>_. ''0'') example_world 20 (init example_world example_supply) = Inr (example_page1, cs)"
    using loopRender_of_loop [OF l] by blast
  have cs: "cs = fadeTrail example_world @ fpsOverlay (\<lambda>_. ''0'') (fps_of (deltaTime 20 (lastTime (init example_world example_supply)))) @
                 concat (map (drawBoid (\<lambda>_. ''0'') example_row1) [0..<length example_row1])"
    using loopRender_Inr [OF ok] by simp
  have t: "lastTime (init example_world example_supply) \<le> 20"
    by (simp add: example_init)
  show ?thesis
    using loopRender_paints_spec_picture [OF example_reachable_init t ok,
        of "\<lparr>fillStyle = '''', font = '''', textBaseline = '''', current_path = [], marks = []\<rparr>"]
      example_reachable_init t ok cs by simp
qed

end
