(* ===== verification/Spec2Isabelle.thy ===== *)
theory Spec2Isabelle
  imports Loops Render
begin

text \<open>
  \<^bold>\<open>A verification development for the boids simulation of LiesClient/Fireflies.\<close>

  \<^bold>\<open>The program.\<close> \<open>src/script.js\<close> is one browser script. \<open>init()\<close> creates
  \<open>boidAmount = 10\<close> boids with \<open>newBoid()\<close> and starts \<open>loop()\<close>, the animation
  callback. Each frame, \<open>loop()\<close> measures the frame time, lets the population
  controller append or pop one boid, and then calls \<open>updateBoid(i, dt)\<close> for every
  index in order. \<open>updateBoid\<close> perturbs the boid's wander heading, steers it
  (\<open>applyForces\<close>: one scan over all other boids for alignment, cohesion and
  separation, plus a soft boundary force), separates it from every later boid it
  overlaps and clamps it (\<open>applyCollisions\<close>), and integrates its position. The
  components share one mutable array of boid objects; the random numbers come from
  \<open>Math.random()\<close>; drawing writes only to the canvas.

  \<^bold>\<open>The model.\<close> A shallow embedding, one theory per component:
  \<^item> \<open>Boids_Prelude\<close>: \<open>vec\<close> (the \<open>{x, y}\<close> objects), \<open>hypot\<close>
    (\<open>Math.sqrt(dx * dx + dy * dy)\<close>), \<open>atan2\<close> (\<open>Math.atan2\<close> by the ECMAScript case
    table), \<open>random\<close> (\<open>Math.random()\<close> as the head of an explicit stream of values in
    \<open>[0, 1)\<close>, \<open>random_ok\<close>); lemmas on lengths, angles and streams.
  \<^item> \<open>Boid_Data\<close>: the constants of lines 8--21, \<open>world\<close> (\<open>width\<close>, \<open>height\<close>),
    the \<open>boid\<close> record, \<open>newBoid\<close> (lines 240--251, seven random draws in source order),
    the \<open>fault\<close> datatype, well-formedness \<open>boid_wf\<close> and \<open>same_identity\<close>.
  \<^item> \<open>Collisions\<close>: \<open>collide_pair\<close> (one iteration, lines 172--185), \<open>collide_loop\<close>
    (the loop over later indices), \<open>clamp_boid\<close> (lines 188--191), \<open>applyCollisions\<close>.
  \<^item> \<open>Forces\<close>: \<open>softBoundForce\<close> (lines 105--108), \<open>scan_boid\<close> and \<open>scan_loop\<close>
    (lines 110--134, accumulator record \<open>scan_acc\<close>), \<open>seperationFactor\<close> (lines
    148--150), \<open>newVel\<close> (lines 138--163), \<open>applyForces\<close>; the reference semantics
    \<open>sees\<close>, \<open>crowds\<close>, \<open>others\<close>, \<open>scan_spec\<close>.
  \<^item> \<open>Population\<close>: \<open>deltaTime\<close>, \<open>fps_of\<close> with an explicit \<open>Infinity\<close> case,
    \<open>populationControl\<close> (lines 47--60).
  \<^item> \<open>Frame\<close>: \<open>wander\<close>, \<open>integrate\<close>, \<open>updateBoid\<close> (lines 77--93), \<open>updateAll\<close>
    and \<open>loop\<close> (lines 43--75), \<open>run\<close> (the \<open>requestAnimationFrame\<close> chain, line 74,
    over a list of frame times), \<open>pushBoids\<close> and \<open>init\<close> (lines 32--41), the page
    state \<open>sim\<close> (array, \<open>lastTime\<close>, random supply) and the inductive \<open>reachable\<close>.
  \<^item> \<open>Loops\<close>: the two array-writing for-loops as written, re-reading
    \<open>boids.length\<close> on every iteration: \<open>frameLoop\<close> (lines 69--72) and \<open>collideFor\<close>
    (lines 171--186), as \<^theory_text>\<open>partial_function (option)\<close>.
  \<^item> \<open>Canvas\<close>: the 2D context from the HTML standard (a host API): drawing state,
    painted marks, the commands the script uses, \<open>arc\<close>'s \<open>IndexSizeError\<close>.
  \<^item> \<open>Render\<close>: \<open>fadeTrail\<close> (lines 44--45), \<open>fpsOverlay\<close> and \<open>fps_text\<close>
    (lines 62--67, with \<open>toFixed(1)\<close> from the ECMAScript specification), \<open>drawBoid\<close>
    (lines 194--221), \<open>color_string\<close> (line 248), and \<open>loopRender\<close>, \<open>loop()\<close> with
    its drawing interleaved as in lines 69--72; the picture of the spec's renderer
    contract, \<open>frame_marks\<close>.
  Mutation is state passing: the array is a list updated by index, and each function
  returns the new list (and the rest of the random supply). A JavaScript number is a
  \<open>real\<close>. The two places where the code divides \<open>0 / 0\<close> and stores \<open>NaN\<close> in a boid
  for good (a zero steering vector, two coincident overlapping boids) end the model's
  run with a \<open>fault\<close> value (\<open>Inl\<close>); the one place where it computes
  \<open>1 / 0 = Infinity\<close> (the frame rate of a zero frame time) is an explicit case. The
  loops are modelled by structural recursion over an index list, so the functions are
  total and no fuel is needed; the two loops as written (a counter against
  \<open>boids.length\<close>) are partial functions, proved to return on every input with the
  same result. Host conversions of numbers to strings (\<open>Number::toString\<close>, used for the
  hue and for rates of \<open>10\<^sup>2\<^sup>1\<close> and more) are a parameter \<open>numberToString\<close>: their
  digits depend on IEEE doubles, which the model does not have.

  \<^bold>\<open>What is proved.\<close> Collisions: a resolved pair ends exactly touching, moved
  symmetrically by half the overlap; the loop keeps the centroid; the focal boid is
  clamped; coincident boids are a fault. Forces: the scan equals the set-based reference
  (same spotted and too-close sets as any other traversal); sight implies crowding;
  the sight tests are symmetric; with no neighbour nothing changes; otherwise the new
  heading is the direction of the combined velocity, or a fault when it is zero.
  The soft boundary force is at most \<open>boidSoftBoundFactor = 12\<close> per axis in a large
  enough world. Data: \<open>newBoid\<close> places a well-formed boid on the canvas with headings
  in \<open>[0, 2\<pi>)\<close> and consumes exactly seven random values. Population: bounded by
  500, at most one boid per frame, growth above 60 fps, a safe pop, and no shrinking at
  all on a monotonic clock. Frame: every reachable state has 10 to 500 well-formed
  boids; boids keep their index and identity, and a frame appends at most one; the
  wander heading drifts by at most \<open>40 * dt\<close> per update; a boid that sees no other
  is updated by exactly the wander perturbation, the clamp and one integration step,
  and no other boid is written (\<open>updateBoid_isolated\<close>); the frame is an in-order
  sweep in which boid \<open>k\<close> is final once indices \<open>0 .. k\<close> are updated; after a frame
  every boid is within 4.52 px of its clamp box, and on a concrete reachable page
  (\<open>example_world\<close>, \<open>example_supply\<close>, abbreviations in \<open>Frame\<close>) a boid ends a
  frame outside it; still, every boid of every reachable state lies within 2.52 px
  of the canvas (\<open>reachable_near_canvas\<close>, by rule induction: the step from any
  state restores the bound, whatever the positions before it). A frame draws exactly
  one random value per boid of the new array and seven per added boid. Over many
  frames (\<open>run\<close>): while frames come faster than 60 per second, every frame appends a
  boid until the flock holds 500. Loops (adequacy lemmas, not properties of their own):
  the frame loop and the collision loop as written terminate with the results of the
  list models. Renderer: drawing does not change the simulation; each boid is drawn in its
  end-of-frame state; a reachable frame's commands never make \<open>arc\<close> throw, and on any
  canvas they paint exactly the spec's picture (fade, overlay, then each boid's disc and
  heading marker in array order); one \<open>drawBoid\<close> paints exactly its two discs; the
  overlay text is the rate rounded to a tenth, within 0.05 of it.

  \<^bold>\<open>Findings.\<close> (1) The hard clamp of the spec does not hold after a frame: the
  clamp runs before the integration step. (2) The population never shrinks: the frame
  time is clamped to 20 ms, so the rate is at least 50. (3) The soft boundary force
  points towards the wall in the band \<open>sightRange < x < sightRange + size\<close>. (4) The
  separation factor uses the crowd's distance from the canvas origin and attracts for
  crowds within 200 px of it. (5) Collision resolution runs per boid inside
  \<open>updateBoid\<close>, not as a second pass; neighbours earlier in the array have already
  moved this frame (\<open>updateAll_settles_in_order\<close>), and a later boid is pushed by an
  earlier one before its own update. (6) Dividing \<open>0 / 0\<close> at coincident boids or at a
  zero steering vector stores \<open>NaN\<close> where the spec asks for a guard.

  \<^bold>\<open>Bounds.\<close> The frame time is at most 20 ms (\<open>deltaTime \<le> 1/50\<close>); a boid's speed
  is below 220 and the wander radius is 6, so one step is at most
  \<open>226 / 50 = 4.52\<close> px; the world is assumed at least \<open>2 * boidMaxSize = 20\<close> px wide and high
  (\<open>world_ok\<close>) where the clamp is used.

  \<^bold>\<open>Not modelled.\<close> \<open>document.getElementById\<close>, \<open>getContext\<close> (lines 1--2) and
  the sizing of the canvas to the window (lines 4--5, 33--34) are the host's set-up:
  the world's size is the parameter \<open>world\<close>. The canvas is modelled up to the list of
  painted marks; rasterisation, compositing and the parsing of CSS colour strings are
  the browser's. \<open>Math.random\<close>, \<open>performance.now\<close> and \<open>requestAnimationFrame\<close> are
  host services: the model takes any supply of values in \<open>[0, 1)\<close>, any
  non-decreasing sequence of frame times (\<open>reachable\<close>, \<open>run\<close>) and calls \<open>loop\<close> at
  them; their distributions and timing are not part of the program. IEEE rounding,
  signed zeros and \<open>Number::toString\<close> are not modelled (see the parameter above).

  \<^bold>\<open>Open questions.\<close> A bound on the steering vector \<open>newVel\<close> (none exists near the
  canvas origin, finding 4); collision resolution with several overlapping later boids
  (the loop's centroid is kept, but a later pair may push an earlier one back into
  overlap).
\<close>

end
